theory Spec2Isabelle
  imports Main "HOL-Library.Word"
begin

section \<open>The document tree\<close>

text \<open>
  Serializer.cpp reads a libxml2 tree. An element is its name, its attributes, its child
  nodes in document order (a node's \<open>next\<close> pointer is the tail of the list it stands
  in) and the text that \<open>xmlNodeListGetString(doc, node->xmlChildrenNode, 1)\<close>
  returns for it (\<open>None\<close> for the null pointer).
\<close>

datatype xmlNode =
  XmlNode (xml_name: string) (xml_props: "(string \<times> string) list")
    (xml_children: "xmlNode list") (xml_text: "string option")

definition getXmlAttribute :: "xmlNode \<Rightarrow> string \<Rightarrow> string" where
  "getXmlAttribute cur attribute =
     (case map_of (xml_props cur) attribute of None \<Rightarrow> [] | Some v \<Rightarrow> v)"

section \<open>Status codes and the generic collection walk\<close>

text \<open>
  \<open>NO_ERROR\<close> and \<open>BAD_VALUE\<close> are the two \<open>status_t\<close> values the file uses.
  \<open>NULL_DEREFERENCE\<close> is no status of the source: it marks a run that calls a method
  through a null pointer, which ends the process; every caller hands it on unchanged.
  A \<open>Return<Element>\<close> is \<open>status_t + 'e\<close>, with \<open>Inl\<close> for
  \<open>Status::fromStatusT\<close>.
\<close>

datatype status_t = NO_ERROR | BAD_VALUE | NULL_DEREFERENCE

record ('e, 'c, 'ctx, 's) Trait =
  tag :: string
  collectionTag :: string
  deserialize :: "xmlNode \<Rightarrow> 'ctx \<Rightarrow> 's \<Rightarrow> (status_t + 'e) \<times> 's"
  addElementToCollection :: "'e \<Rightarrow> 'c \<Rightarrow> status_t \<times> 'c"

text \<open>The inner loop of \<open>deserializeCollection\<close> (lines 313 to 327), over \<open>child\<close> and its
  following siblings.\<close>

fun deserializeCollection_inner ::
  "('e, 'c, 'ctx, 's) Trait \<Rightarrow> 'ctx \<Rightarrow> xmlNode list \<Rightarrow> 'c \<Rightarrow> 's \<Rightarrow> status_t \<times> 'c \<times> 's" where
  "deserializeCollection_inner T ctx [] c s = (NO_ERROR, c, s)"
| "deserializeCollection_inner T ctx (child # rest) c s =
     (if xml_name child = tag T then
        (case deserialize T child ctx s of
           (Inr element, s1) \<Rightarrow>
             (case addElementToCollection T element c of
                (NO_ERROR, c1) \<Rightarrow> deserializeCollection_inner T ctx rest c1 s1
              | (status, c1) \<Rightarrow> (status, c1, s1))
         | (Inl NULL_DEREFERENCE, s1) \<Rightarrow> (NULL_DEREFERENCE, c, s1)
         | (Inl _, s1) \<Rightarrow> deserializeCollection_inner T ctx rest c s1)
      else deserializeCollection_inner T ctx rest c s)"

text \<open>The outer loop (lines 306 to 331), over the children of \<open>cur\<close>.\<close>

fun deserializeCollection_outer ::
  "('e, 'c, 'ctx, 's) Trait \<Rightarrow> 'ctx \<Rightarrow> xmlNode list \<Rightarrow> 'c \<Rightarrow> 's \<Rightarrow> status_t \<times> 'c \<times> 's" where
  "deserializeCollection_outer T ctx [] c s = (NO_ERROR, c, s)"
| "deserializeCollection_outer T ctx (cur # rest) c s =
     (case deserializeCollection_inner T ctx
             (if xml_name cur = collectionTag T then xml_children cur
              else if xml_name cur = tag T then cur # rest else []) c s of
        (NO_ERROR, c1, s1) \<Rightarrow>
          if xml_name cur = tag T then (NO_ERROR, c1, s1)
          else deserializeCollection_outer T ctx rest c1 s1
      | (status, c1, s1) \<Rightarrow> (status, c1, s1))"

definition deserializeCollection ::
  "('e, 'c, 'ctx, 's) Trait \<Rightarrow> xmlNode \<Rightarrow> 'c \<Rightarrow> 'ctx \<Rightarrow> 's \<Rightarrow> status_t \<times> 'c \<times> 's" where
  "deserializeCollection T cur collection serializingContext s =
     deserializeCollection_outer T serializingContext (xml_children cur) collection s"

section \<open>The graph: gains, profiles, ports, routes, modules, the config\<close>

type_synonym audio_format_t = "32 word"
type_synonym audio_channel_mask_t = "32 word"
type_synonym audio_devices_t = "32 word"

datatype audio_port_role_t = AUDIO_PORT_ROLE_NONE | AUDIO_PORT_ROLE_SOURCE | AUDIO_PORT_ROLE_SINK

datatype audio_route_type_t = AUDIO_ROUTE_MUX | AUDIO_ROUTE_MIX

text \<open>
  A field that the file sets only when an attribute is present and converts is an option:
  \<open>None\<close> is the value the constructor (declared outside this file) left in it.
\<close>

record AudioGain =
  mIndex :: "32 word"
  mUseInChannelMask :: bool
  mMode :: "32 word"
  mChannelMask :: "audio_channel_mask_t option"
  mMinValueInMb :: "32 word option"
  mMaxValueInMb :: "32 word option"
  mDefaultValueInMb :: "32 word option"
  mStepValueInMb :: "32 word option"
  mMinRampInMs :: "32 word option"
  mMaxRampInMs :: "32 word option"
  mUseForVolume :: "bool option"

record AudioProfile =
  mFormat :: audio_format_t
  mChannelMasks :: "audio_channel_mask_t set"
  mSamplingRates :: "32 word set"
  mIsDynamicFormat :: bool
  mIsDynamicChannels :: bool
  mIsDynamicRate :: bool

text \<open>
  A route is built once and never changed afterwards, so it is a value; its sink and its
  sources are ports, which do change (they collect back-links), so they are handles into
  the store of port objects.
\<close>

record AudioRoute =
  mType :: audio_route_type_t
  mSink :: nat
  mSources :: "nat list"

text \<open>
  \<open>IOProfile\<close> (a mix port) and \<open>DeviceDescriptor\<close> (a device port) share the base
  \<open>PolicyAudioPort\<close>; one record holds the base and the fields of both, and
  \<open>mDeviceType\<close> is \<open>None\<close> for a mix port.
\<close>

record PolicyAudioPort =
  mTagName :: string
  mRole :: audio_port_role_t
  mProfiles :: "AudioProfile list"
  mGains :: "AudioGain list"
  mRoutes :: "AudioRoute list"
  mFlags :: "32 word option"
  maxOpenCount :: "32 word option"
  maxActiveCount :: "32 word option"
  mDeviceType :: "audio_devices_t option"
  mAddress :: string
  mEncodedFormats :: "audio_format_t list"

record HwModule =
  mName :: string
  mHalVersionMajor :: "32 word"
  mHalVersionMinor :: "32 word"
  mPorts :: "nat list"
  mIOProfiles :: "nat list"
  mDeclaredDevices :: "nat list"
  mModuleRoutes :: "AudioRoute list"

record AudioPolicyConfig =
  mHwModules :: "HwModule list"
  mAttachedDevices :: "nat list"
  mDefaultOutputDevice :: "nat option"
  mSpeakerDrcEnabled :: bool
  mCallScreenModeSupported :: bool
  mEngineLibraryNameSuffix :: string
  mSurroundFormats :: "audio_format_t \<rightharpoonup> audio_format_t set"

text \<open>
  What one load reads and writes besides its arguments: the three statics of the file,
  the store of port objects (a handle is an index), and the config behind the
  \<open>AudioPolicyConfig *\<close>.

  \<open>index\<close> counts the \<open>AudioGain\<close> objects constructed so far in the process; the
  static \<open>uint32_t index\<close> of \<open>AudioGainTraits::deserialize\<close> holds this count modulo
  \<open>2 ^ 32\<close>, and that is what a new gain receives.
\<close>

record globals =
  index :: nat
  fixedEarpieceChannels :: bool
  forceDisableA2dpOffload :: bool
  ports :: "PolicyAudioPort list"
  config :: AudioPolicyConfig

section \<open>Converters, predicates and constants declared outside this file\<close>

text \<open>
  TypeConverter.h, media/convert.h, the audio headers and libc are not part of this file;
  what they provide is a parameter of the model.  \<open>convertTo(literal, result)\<close> takes
  its result by reference: \<open>convertTo_uint32 literal\<close> is the value it gives when it
  reports success, and \<open>convertTo_uint32_result literal old\<close> is what it leaves in a
  variable that held \<open>old\<close>, whether it reports success or not.
\<close>

record externs =
  GainModeConverter_maskFromString :: "string \<Rightarrow> 32 word"
  channelMaskFromString :: "string \<Rightarrow> audio_channel_mask_t"
  convertTo_int32 :: "string \<Rightarrow> 32 word option"
  convertTo_uint32 :: "string \<Rightarrow> 32 word option"
  convertTo_uint32_result :: "string \<Rightarrow> 32 word option \<Rightarrow> 32 word option"
  convertTo_bool :: "string \<Rightarrow> bool option"
  channelMasksFromString :: "string \<Rightarrow> string \<Rightarrow> audio_channel_mask_t set"
  samplingRatesFromString :: "string \<Rightarrow> string \<Rightarrow> 32 word set"
  formatFromString :: "string \<Rightarrow> audio_format_t \<Rightarrow> audio_format_t"
  formatsFromString :: "string \<Rightarrow> string \<Rightarrow> audio_format_t list"
  OutputFlagConverter_maskFromString :: "string \<Rightarrow> 32 word"
  InputFlagConverter_maskFromString :: "string \<Rightarrow> 32 word"
  deviceFromString :: "string \<Rightarrow> audio_devices_t option"
  audio_is_input_device :: "audio_devices_t \<Rightarrow> bool"
  audio_is_output_devices :: "audio_devices_t \<Rightarrow> bool"
  formatOrder :: "audio_format_t \<Rightarrow> nat"
  sscanf_version :: "string \<Rightarrow> 32 word option \<times> 32 word option"
  gDynamicFormat :: audio_format_t
  AUDIO_FORMAT_DEFAULT :: audio_format_t
  AUDIO_FORMAT_PCM_16_BIT :: audio_format_t
  AUDIO_CHANNEL_IN_MONO :: audio_channel_mask_t
  AUDIO_CHANNEL_OUT_STEREO :: audio_channel_mask_t
  AUDIO_DEVICE_OUT_BLUETOOTH_A2DP :: audio_devices_t
  AUDIO_DEVICE_OUT_BLUETOOTH_A2DP_HEADPHONES :: audio_devices_t
  AUDIO_DEVICE_OUT_BLUETOOTH_A2DP_SPEAKER :: audio_devices_t
  defaultSurroundFormats :: "audio_format_t \<rightharpoonup> audio_format_t set"

section \<open>Collections\<close>

text \<open>
  Modelled from the spec: \<open>Vector::add\<close>, \<open>AudioGains::add\<close> and
  \<open>AudioProfileVector::add\<close> (declared outside this file) append the element and return
  its index. The spec gives gains, profiles, routes and modules no key.
\<close>

definition Vector_add :: "'a \<Rightarrow> 'a list \<Rightarrow> int \<times> 'a list" where
  "Vector_add element collection = (int (length collection), collection @ [element])"

text \<open>
  Modelled from the spec: the insert operation of a port collection
  (\<open>IOProfileCollection::add\<close>, \<open>DeviceVector::add\<close>, declared outside this file)
  enforces that tag names are unique within the collection: a port whose tag name is
  already there is refused with a negative result and the collection stays as it is.
\<close>

definition PortCollection_add ::
  "PolicyAudioPort \<Rightarrow> PolicyAudioPort list \<Rightarrow> int \<times> PolicyAudioPort list" where
  "PortCollection_add element collection =
     (if mTagName element \<in> set (map mTagName collection) then (- 1, collection)
      else (int (length collection), collection @ [element]))"

text \<open>\<open>AndroidCollectionTraits::addElementToCollection\<close> (lines 53 to 55).\<close>

definition AndroidCollectionTraits_addElementToCollection ::
  "('e \<Rightarrow> 'c \<Rightarrow> int \<times> 'c) \<Rightarrow> 'e \<Rightarrow> 'c \<Rightarrow> status_t \<times> 'c" where
  "AndroidCollectionTraits_addElementToCollection add element collection =
     (case add element collection of
        (i, c) \<Rightarrow> (if 0 \<le> i then NO_ERROR else BAD_VALUE, c))"

text \<open>\<open>StdCollectionTraits::addElementToCollection\<close> (lines 64 to 67) on a
  \<open>std::unordered_map\<close>: \<open>insert\<close> refuses a key that is present.\<close>

definition StdCollectionTraits_addElementToCollection ::
  "'k \<times> 'v \<Rightarrow> ('k \<rightharpoonup> 'v) \<Rightarrow> status_t \<times> ('k \<rightharpoonup> 'v)" where
  "StdCollectionTraits_addElementToCollection element collection =
     (case collection (fst element) of
        None \<Rightarrow> (NO_ERROR, collection(fst element \<mapsto> snd element))
      | Some _ \<Rightarrow> (BAD_VALUE, collection))"

section \<open>Gains\<close>

text \<open>
  Modelled from the spec: the constructor \<open>AudioGain(index, useInChannelMask)\<close> (declared
  outside this file). The mode is required and a gain whose mode is zero is refused, so a
  gain that was given no mode has mode zero.
\<close>

definition new_AudioGain :: "32 word \<Rightarrow> bool \<Rightarrow> AudioGain" where
  "new_AudioGain i useInChannelMask =
     \<lparr>mIndex = i, mUseInChannelMask = useInChannelMask, mMode = 0, mChannelMask = None,
      mMinValueInMb = None, mMaxValueInMb = None, mDefaultValueInMb = None,
      mStepValueInMb = None, mMinRampInMs = None, mMaxRampInMs = None,
      mUseForVolume = None\<rparr>"

text \<open>The pattern \<open>if (!literal.empty() && convertTo(literal, v)) set(v)\<close>.\<close>

definition converted :: "(string \<Rightarrow> 'a option) \<Rightarrow> string \<Rightarrow> 'a option \<Rightarrow> 'a option" where
  "converted conv literal old =
     (if literal \<noteq> [] then (case conv literal of Some v \<Rightarrow> Some v | None \<Rightarrow> old) else old)"

definition AudioGainTraits_deserialize ::
  "externs \<Rightarrow> xmlNode \<Rightarrow> unit \<Rightarrow> globals \<Rightarrow> (status_t + AudioGain) \<times> globals" where
  "AudioGainTraits_deserialize ext cur serializingContext s =
     (let gain0 = new_AudioGain (word_of_nat (index s)) True;
          s1 = s\<lparr>index := index s + 1\<rparr>;
          mode = getXmlAttribute cur ''mode'';
          channelsLiteral = getXmlAttribute cur ''channel_mask'';
          gain = gain0
            \<lparr>mMode := (if mode \<noteq> [] then GainModeConverter_maskFromString ext mode
                       else mMode gain0),
             mChannelMask := (if channelsLiteral \<noteq> []
                       then Some (channelMaskFromString ext channelsLiteral) else None),
             mMinValueInMb :=
               converted (convertTo_int32 ext) (getXmlAttribute cur ''minValueMB'') None,
             mMaxValueInMb :=
               converted (convertTo_int32 ext) (getXmlAttribute cur ''maxValueMB'') None,
             mDefaultValueInMb :=
               converted (convertTo_int32 ext) (getXmlAttribute cur ''defaultValueMB'') None,
             mStepValueInMb :=
               converted (convertTo_uint32 ext) (getXmlAttribute cur ''stepValueMB'') None,
             mMinRampInMs :=
               converted (convertTo_uint32 ext) (getXmlAttribute cur ''minRampMs'') None,
             mMaxRampInMs :=
               converted (convertTo_uint32 ext) (getXmlAttribute cur ''maxRampMs'') None,
             mUseForVolume :=
               converted (convertTo_bool ext) (getXmlAttribute cur ''useForVolume'') None\<rparr>
      in if mMode gain \<noteq> 0 then (Inr gain, s1) else (Inl BAD_VALUE, s1))"

definition AudioGainTraits ::
  "externs \<Rightarrow> (AudioGain, AudioGain list, unit, globals) Trait" where
  "AudioGainTraits ext =
     \<lparr>tag = ''gain'', collectionTag = ''gains'',
      deserialize = AudioGainTraits_deserialize ext,
      addElementToCollection = AndroidCollectionTraits_addElementToCollection Vector_add\<rparr>"

section \<open>Profiles\<close>

text \<open>
  Modelled from the spec: the constructor \<open>AudioProfile(format, channels, rates)\<close> and
  \<open>AudioProfile::createFullDynamic\<close> (declared outside this file). A dynamic flag is set
  when the corresponding set is empty; the fully-dynamic profile has the dynamic format, no
  channel mask, no sampling rate and its three flags set.
\<close>

definition new_AudioProfile ::
  "audio_format_t \<Rightarrow> audio_channel_mask_t set \<Rightarrow> 32 word set \<Rightarrow> AudioProfile" where
  "new_AudioProfile format channels rates =
     \<lparr>mFormat = format, mChannelMasks = channels, mSamplingRates = rates,
      mIsDynamicFormat = False, mIsDynamicChannels = False, mIsDynamicRate = False\<rparr>"

definition createFullDynamic :: "audio_format_t \<Rightarrow> AudioProfile" where
  "createFullDynamic dynamicFormat =
     \<lparr>mFormat = dynamicFormat, mChannelMasks = {}, mSamplingRates = {},
      mIsDynamicFormat = True, mIsDynamicChannels = True, mIsDynamicRate = True\<rparr>"

text \<open>
  Modelled from the spec: \<open>sortAudioProfiles\<close> (declared outside this file) sorts the
  profiles by format; \<open>formatOrder\<close> is the position of a format in the order that the
  comparison of formats defines.
\<close>

definition sortAudioProfiles :: "externs \<Rightarrow> AudioProfile list \<Rightarrow> AudioProfile list" where
  "sortAudioProfiles ext profiles = sort_key (\<lambda>p. formatOrder ext (mFormat p)) profiles"

text \<open>
  \<open>AudioProfileTraits::deserialize\<close> (lines 403 to 427). The context is a \<open>void *\<close>
  of which only \<open>!= nullptr\<close> is read: it is the Boolean \<open>isOutput\<close>. A \<open>std::set\<close>
  of size one whose first element is the input-mono mask triggers the earpiece fix.
\<close>

definition AudioProfileTraits_deserialize ::
  "externs \<Rightarrow> xmlNode \<Rightarrow> bool \<Rightarrow> globals \<Rightarrow> (status_t + AudioProfile) \<times> globals" where
  "AudioProfileTraits_deserialize ext cur isOutput s =
     (let samplingRates = getXmlAttribute cur ''samplingRates'';
          format = getXmlAttribute cur ''format'';
          channels = getXmlAttribute cur ''channelMasks'';
          channelsMask = channelMasksFromString ext channels '','';
          fix = (card channelsMask = 1 \<and> Min channelsMask = AUDIO_CHANNEL_IN_MONO ext
                 \<and> isOutput);
          s1 = (if fix then s\<lparr>fixedEarpieceChannels := True\<rparr> else s);
          channelsMask1 = (if fix then channelMasksFromString ext ''AUDIO_CHANNEL_OUT_MONO'' '',''
                           else channelsMask);
          profile = new_AudioProfile (formatFromString ext format (gDynamicFormat ext))
                      channelsMask1 (samplingRatesFromString ext samplingRates '','')
      in (Inr (profile
                \<lparr>mIsDynamicFormat := (mFormat profile = gDynamicFormat ext),
                 mIsDynamicChannels := (mChannelMasks profile = {}),
                 mIsDynamicRate := (mSamplingRates profile = {})\<rparr>), s1))"

definition AudioProfileTraits ::
  "externs \<Rightarrow> (AudioProfile, AudioProfile list, bool, globals) Trait" where
  "AudioProfileTraits ext =
     \<lparr>tag = ''profile'', collectionTag = ''profiles'',
      deserialize = AudioProfileTraits_deserialize ext,
      addElementToCollection = AndroidCollectionTraits_addElementToCollection Vector_add\<rparr>"

section \<open>Mix ports and device ports\<close>

text \<open>
  Modelled from the spec: the constructors \<open>IOProfile(name, role)\<close> and
  \<open>DeviceDescriptor(type, tagName, address, encodedFormats)\<close> (declared outside this
  file) make a port with that tag name and no profile, gain or route yet; the role of a
  device port follows from its type, a sink for an output device and a source otherwise.
\<close>

definition new_IOProfile :: "string \<Rightarrow> audio_port_role_t \<Rightarrow> PolicyAudioPort" where
  "new_IOProfile n role =
     \<lparr>mTagName = n, mRole = role, mProfiles = [], mGains = [], mRoutes = [],
      mFlags = None, maxOpenCount = None, maxActiveCount = None, mDeviceType = None,
      mAddress = [], mEncodedFormats = []\<rparr>"

definition new_DeviceDescriptor ::
  "externs \<Rightarrow> audio_devices_t \<Rightarrow> string \<Rightarrow> string \<Rightarrow> audio_format_t list \<Rightarrow> PolicyAudioPort" where
  "new_DeviceDescriptor ext type tagName address encodedFormats =
     \<lparr>mTagName = tagName,
      mRole = (if audio_is_output_devices ext type then AUDIO_PORT_ROLE_SINK
               else AUDIO_PORT_ROLE_SOURCE),
      mProfiles = [], mGains = [], mRoutes = [],
      mFlags = None, maxOpenCount = None, maxActiveCount = None, mDeviceType = Some type,
      mAddress = address, mEncodedFormats = encodedFormats\<rparr>"

text \<open>Lines 454 to 459 and 540 to 545: the default profile, then the sort.\<close>

definition defaultAndSortProfiles :: "externs \<Rightarrow> AudioProfile list \<Rightarrow> AudioProfile list" where
  "defaultAndSortProfiles ext profiles =
     sortAudioProfiles ext
       (if profiles = [] then snd (Vector_add (createFullDynamic (gDynamicFormat ext)) profiles)
        else profiles)"

text \<open>
  \<open>MixPortTraits::deserialize\<close> (lines 429 to 489).  Lines 472 to 479 hand the fields
  \<open>maxOpenCount\<close> and \<open>maxActiveCount\<close> themselves to \<open>convertTo\<close> and do not read what it
  returns; \<open>None\<close> in these fields stands for the value the constructor gave them.
\<close>

definition MixPortTraits_deserialize ::
  "externs \<Rightarrow> xmlNode \<Rightarrow> unit \<Rightarrow> globals \<Rightarrow> (status_t + PolicyAudioPort) \<times> globals" where
  "MixPortTraits_deserialize ext child serializingContext s =
     (let n = getXmlAttribute child ''name'' in
      if n = [] then (Inl BAD_VALUE, s) else
      let role = getXmlAttribute child ''role'' in
      if role = [] then (Inl BAD_VALUE, s) else
      let portRole = (if role = ''source'' then AUDIO_PORT_ROLE_SOURCE else AUDIO_PORT_ROLE_SINK);
          mixPort = new_IOProfile n portRole in
      case deserializeCollection (AudioProfileTraits ext) child [] False s of
        (status, profiles, s1) \<Rightarrow>
      if status \<noteq> NO_ERROR then (Inl status, s1) else
      let mixPort1 = mixPort\<lparr>mProfiles := defaultAndSortProfiles ext profiles\<rparr>;
          flags = getXmlAttribute child ''flags'';
          mixPort2 = (if flags \<noteq> [] then
                        (if portRole = AUDIO_PORT_ROLE_SOURCE
                         then mixPort1\<lparr>mFlags := Some (OutputFlagConverter_maskFromString ext flags)\<rparr>
                         else mixPort1\<lparr>mFlags := Some (InputFlagConverter_maskFromString ext flags)\<rparr>)
                      else mixPort1);
          maxOpenCountAttr = getXmlAttribute child ''maxOpenCount'';
          maxActiveCountAttr = getXmlAttribute child ''maxActiveCount'';
          mixPort3 = mixPort2
            \<lparr>maxOpenCount :=
               (if maxOpenCountAttr \<noteq> []
                then convertTo_uint32_result ext maxOpenCountAttr (maxOpenCount mixPort2)
                else maxOpenCount mixPort2),
             maxActiveCount :=
               (if maxActiveCountAttr \<noteq> []
                then convertTo_uint32_result ext maxActiveCountAttr (maxActiveCount mixPort2)
                else maxActiveCount mixPort2)\<rparr> in
      case deserializeCollection (AudioGainTraits ext) child [] () s1 of
        (status, gains, s2) \<Rightarrow>
      if status \<noteq> NO_ERROR then (Inl status, s2) else
      (Inr (mixPort3\<lparr>mGains := gains\<rparr>), s2))"

definition DevicePortTraits_deserialize ::
  "externs \<Rightarrow> xmlNode \<Rightarrow> unit \<Rightarrow> globals \<Rightarrow> (status_t + PolicyAudioPort) \<times> globals" where
  "DevicePortTraits_deserialize ext cur serializingContext s =
     (let n = getXmlAttribute cur ''tagName'' in
      if n = [] then (Inl BAD_VALUE, s) else
      let typeName = getXmlAttribute cur ''type'' in
      if typeName = [] then (Inl BAD_VALUE, s) else
      let role = getXmlAttribute cur ''role'' in
      if role = [] then (Inl BAD_VALUE, s) else
      let portRole = (if role = ''source'' then AUDIO_PORT_ROLE_SOURCE else AUDIO_PORT_ROLE_SINK) in
      case deviceFromString ext typeName of
        None \<Rightarrow> (Inl BAD_VALUE, s)
      | Some type \<Rightarrow>
      if (\<not> audio_is_input_device ext type \<and> portRole = AUDIO_PORT_ROLE_SOURCE) \<or>
         (\<not> audio_is_output_devices ext type \<and> portRole = AUDIO_PORT_ROLE_SINK)
      then (Inl BAD_VALUE, s) else
      let encodedFormatsLiteral = getXmlAttribute cur ''encodedFormats'';
          encodedFormats = (if encodedFormatsLiteral \<noteq> []
                            then formatsFromString ext encodedFormatsLiteral '' '' else []);
          address = getXmlAttribute cur ''address'';
          deviceDesc = new_DeviceDescriptor ext type n address encodedFormats in
      case deserializeCollection (AudioProfileTraits ext) cur []
             (audio_is_output_devices ext type) s of
        (status, profiles, s1) \<Rightarrow>
      if status \<noteq> NO_ERROR then (Inl status, s1) else
      let deviceDesc1 = deviceDesc\<lparr>mProfiles := defaultAndSortProfiles ext profiles\<rparr> in
      case deserializeCollection (AudioGainTraits ext) cur (mGains deviceDesc1) () s1 of
        (status, gains, s2) \<Rightarrow>
      if status \<noteq> NO_ERROR then (Inl status, s2) else
      (Inr (deviceDesc1\<lparr>mGains := gains\<rparr>), s2))"

definition MixPortTraits ::
  "externs \<Rightarrow> (PolicyAudioPort, PolicyAudioPort list, unit, globals) Trait" where
  "MixPortTraits ext =
     \<lparr>tag = ''mixPort'', collectionTag = ''mixPorts'',
      deserialize = MixPortTraits_deserialize ext,
      addElementToCollection = AndroidCollectionTraits_addElementToCollection PortCollection_add\<rparr>"

definition DevicePortTraits ::
  "externs \<Rightarrow> (PolicyAudioPort, PolicyAudioPort list, unit, globals) Trait" where
  "DevicePortTraits ext =
     \<lparr>tag = ''devicePort'', collectionTag = ''devicePorts'',
      deserialize = DevicePortTraits_deserialize ext,
      addElementToCollection = AndroidCollectionTraits_addElementToCollection PortCollection_add\<rparr>"

section \<open>The port store and the lookups of a module\<close>

text \<open>
  Modelled from the spec: \<open>HwModule::setProfiles\<close> and \<open>HwModule::setDeclaredDevices\<close>
  (declared outside this file) register the ports of a collection with the module, mix
  ports and device ports in one namespace. Until then only the local collection holds a
  new port, so the model keeps it as a value and gives it a handle here.
\<close>

definition registerPorts :: "PolicyAudioPort list \<Rightarrow> globals \<Rightarrow> nat list \<times> globals" where
  "registerPorts ps s =
     ([length (ports s) ..< length (ports s) + length ps], s\<lparr>ports := ports s @ ps\<rparr>)"

definition setProfiles :: "HwModule \<Rightarrow> PolicyAudioPort list \<Rightarrow> globals \<Rightarrow> HwModule \<times> globals" where
  "setProfiles module mixPorts s =
     (case registerPorts mixPorts s of
        (hs, s1) \<Rightarrow> (module\<lparr>mPorts := mPorts module @ hs, mIOProfiles := hs\<rparr>, s1))"

definition setDeclaredDevices ::
  "HwModule \<Rightarrow> PolicyAudioPort list \<Rightarrow> globals \<Rightarrow> HwModule \<times> globals" where
  "setDeclaredDevices module devicePorts s =
     (case registerPorts devicePorts s of
        (hs, s1) \<Rightarrow> (module\<lparr>mPorts := mPorts module @ hs, mDeclaredDevices := hs\<rparr>, s1))"

definition getTagName :: "globals \<Rightarrow> nat \<Rightarrow> string" where
  "getTagName s h = mTagName (ports s ! h)"

text \<open>
  Modelled from the spec: \<open>HwModule::findPortByTagName\<close> and
  \<open>DeviceVector::getDeviceFromTagName\<close> (declared outside this file) look a tag name up
  among the ports registered with the module, respectively among its declared devices,
  and return the first port that carries it, or null.
\<close>

definition findPortByTagName :: "HwModule \<Rightarrow> globals \<Rightarrow> string \<Rightarrow> nat option" where
  "findPortByTagName module s tagName = find (\<lambda>h. getTagName s h = tagName) (mPorts module)"

definition getDeviceFromTagName :: "nat list \<Rightarrow> globals \<Rightarrow> string \<Rightarrow> nat option" where
  "getDeviceFromTagName devices s tagName = find (\<lambda>h. getTagName s h = tagName) devices"

text \<open>
  Modelled from the spec: \<open>PolicyAudioPort::addRoute\<close> (declared outside this file)
  gives the port a back-link to the route.
\<close>

definition addRoute :: "nat \<Rightarrow> AudioRoute \<Rightarrow> globals \<Rightarrow> globals" where
  "addRoute h route s =
     s\<lparr>ports := (ports s)[h := (ports s ! h)\<lparr>mRoutes := mRoutes (ports s ! h) @ [route]\<rparr>]\<rparr>"

section \<open>Routes\<close>

text \<open>
  All the tokens that the \<open>strtok\<close> loop of lines 604 to 619 sees: the maximal runs of
  characters other than the delimiter, none of them empty.
\<close>

fun strtok_all :: "char \<Rightarrow> string \<Rightarrow> string \<Rightarrow> string list" where
  "strtok_all delim tok [] = (if tok = [] then [] else [tok])"
| "strtok_all delim tok (c # cs) =
     (if c = delim then (if tok = [] then strtok_all delim [] cs
                         else tok # strtok_all delim [] cs)
      else strtok_all delim (tok @ [c]) cs)"

definition isspace :: "char \<Rightarrow> bool" where
  "isspace c = (c \<in> {CHR '' '', CHR 0x09, CHR 0x0A, CHR 0x0B, CHR 0x0C, CHR 0x0D})"

text \<open>
  \<open>trim\<close> (lines 558 to 567) drops the white space at the end, then at the start. On a
  token of white space only the first loop of the source reads the byte before the token;
  the model takes that byte to be no white space, and the result is the empty string.
\<close>

definition trim :: "string \<Rightarrow> string" where
  "trim s = dropWhile isspace (rev (dropWhile isspace (rev s)))"

definition resolveSource :: "HwModule \<Rightarrow> globals \<Rightarrow> string \<Rightarrow> nat list" where
  "resolveSource ctx s devTag =
     (case findPortByTagName ctx s devTag of
        Some source \<Rightarrow> [source]
      | None \<Rightarrow> (case findPortByTagName ctx s (trim devTag) of
                   Some source \<Rightarrow> [source]
                 | None \<Rightarrow> []))"

definition RouteTraits_deserialize ::
  "xmlNode \<Rightarrow> HwModule \<Rightarrow> globals \<Rightarrow> (status_t + AudioRoute) \<times> globals" where
  "RouteTraits_deserialize cur ctx s =
     (let type = getXmlAttribute cur ''type'' in
      if type = [] then (Inl BAD_VALUE, s) else
      let routeType = (if type = ''mix'' then AUDIO_ROUTE_MIX else AUDIO_ROUTE_MUX);
          sinkAttr = getXmlAttribute cur ''sink'' in
      if sinkAttr = [] then (Inl BAD_VALUE, s) else
      case findPortByTagName ctx s sinkAttr of
        None \<Rightarrow> (Inl BAD_VALUE, s)
      | Some sink \<Rightarrow>
      let sourcesAttr = getXmlAttribute cur ''sources'' in
      if sourcesAttr = [] then (Inl BAD_VALUE, s) else
      let sources = concat (map (resolveSource ctx s) (strtok_all CHR '','' [] sourcesAttr));
          route = \<lparr>mType = routeType, mSink = sink, mSources = sources\<rparr>
      in (Inr route, fold (\<lambda>source. addRoute source route) sources (addRoute sink route s)))"

definition RouteTraits :: "(AudioRoute, AudioRoute list, HwModule, globals) Trait" where
  "RouteTraits =
     \<lparr>tag = ''route'', collectionTag = ''routes'',
      deserialize = RouteTraits_deserialize,
      addElementToCollection = AndroidCollectionTraits_addElementToCollection Vector_add\<rparr>"

section \<open>The BT SCO route fix\<close>

text \<open>
  The loop over the routes (lines 658 to 679) with its \<open>continue\<close> and \<open>break\<close>; the
  triple is \<open>foundTelephony\<close>, \<open>foundBtScoInput\<close>, \<open>foundScoHeadsetRoute\<close>.
\<close>

fun scanRoutes :: "globals \<Rightarrow> AudioRoute list \<Rightarrow> bool \<times> bool \<times> bool \<Rightarrow> bool \<times> bool \<times> bool" where
  "scanRoutes s [] found = found"
| "scanRoutes s (route # rest) (foundTelephony, foundBtScoInput, foundScoHeadsetRoute) =
     (if mType route \<noteq> AUDIO_ROUTE_MIX
      then scanRoutes s rest (foundTelephony, foundBtScoInput, foundScoHeadsetRoute)
      else if getTagName s (mSink route) = ''Telephony Tx''
      then scanRoutes s rest (True, foundBtScoInput, foundScoHeadsetRoute)
      else if getTagName s (mSink route) = ''BT SCO Headset''
      then (foundTelephony, foundBtScoInput, True)
      else scanRoutes s rest
             (foundTelephony,
              foundBtScoInput \<or>
                (\<exists>source \<in> set (mSources route). getTagName s source = ''BT SCO Headset Mic''),
              foundScoHeadsetRoute))"

text \<open>The loop over the four source names (lines 700 to 712).\<close>

fun fixupSources :: "HwModule \<Rightarrow> string list \<Rightarrow> globals \<Rightarrow> nat list" where
  "fixupSources ctx [] s = []"
| "fixupSources ctx (sourceName # rest) s =
     (case findPortByTagName ctx s sourceName of
        Some source \<Rightarrow> source # fixupSources ctx rest s
      | None \<Rightarrow> fixupSources ctx rest s)"

definition fixupQualcommBtScoRoute ::
  "AudioRoute list \<Rightarrow> PolicyAudioPort list \<Rightarrow> HwModule \<Rightarrow> globals \<Rightarrow>
   status_t \<times> AudioRoute list \<times> globals" where
  "fixupQualcommBtScoRoute routes devicePorts ctx s =
     (if \<not> (\<exists>device \<in> set devicePorts. mTagName device = ''BT SCO Headset'')
      then (NO_ERROR, routes, s) else
      case scanRoutes s routes (False, False, False) of
        (foundTelephony, foundBtScoInput, foundScoHeadsetRoute) \<Rightarrow>
      if foundScoHeadsetRoute then (NO_ERROR, routes, s) else
      if \<not> foundTelephony \<or> \<not> foundBtScoInput then (NO_ERROR, routes, s) else
      let sources = fixupSources ctx
            [''primary output'', ''deep_buffer'', ''compressed_offload'', ''Telephony Rx''] s in
      (case findPortByTagName ctx s ''BT SCO Headset'' of
         None \<Rightarrow> (NULL_DEREFERENCE, routes, s)
       | Some sink \<Rightarrow>
           let newRoute = \<lparr>mType = AUDIO_ROUTE_MIX, mSink = sink, mSources = sources\<rparr>
           in (NO_ERROR, snd (Vector_add newRoute routes),
               addRoute sink newRoute
                 (fold (\<lambda>source. addRoute source newRoute) sources s))))"

section \<open>Modules\<close>

text \<open>Lines 750 to 768: the mix port \<open>a2dp output\<close> of the module \<open>a2dp\<close>.\<close>

definition a2dpOutputMixPort :: "externs \<Rightarrow> PolicyAudioPort" where
  "a2dpOutputMixPort ext =
     (new_IOProfile ''a2dp output'' AUDIO_PORT_ROLE_SOURCE)
       \<lparr>mProfiles := snd (Vector_add (createFullDynamic (AUDIO_FORMAT_DEFAULT ext)) [])\<rparr>"

definition patchA2dpMixPorts ::
  "externs \<Rightarrow> bool \<Rightarrow> PolicyAudioPort list \<Rightarrow> globals \<Rightarrow> PolicyAudioPort list \<times> globals" where
  "patchA2dpMixPorts ext isA2dpModule mixPorts s =
     (let s1 = (if forceDisableA2dpOffload s \<and> isA2dpModule \<and>
                   (\<exists>mixPort \<in> set mixPorts. mTagName mixPort = ''a2dp output'')
                then s\<lparr>forceDisableA2dpOffload := False\<rparr> else s)
      in (if forceDisableA2dpOffload s1 \<and> isA2dpModule
          then mixPorts @ [a2dpOutputMixPort ext] else mixPorts, s1))"

definition a2dpOuts :: "string list" where
  "a2dpOuts = [''BT A2DP Out'', ''BT A2DP Headphones'', ''BT A2DP Speaker'']"

text \<open>Lines 787 to 846: one synthesized device port; the result of \<open>add\<close> is not read.\<close>

definition a2dpDevicePort :: "externs \<Rightarrow> audio_devices_t \<Rightarrow> string \<Rightarrow> PolicyAudioPort" where
  "a2dpDevicePort ext type tagName =
     (new_DeviceDescriptor ext type tagName [] [])
       \<lparr>mProfiles := snd (Vector_add
           (new_AudioProfile (AUDIO_FORMAT_PCM_16_BIT ext) {AUDIO_CHANNEL_OUT_STEREO ext}
              {44100, 48000, 96000}) []),
        mAddress := ''lhdc_a2dp''\<rparr>"

text \<open>\<open>std::find_if\<close> followed by one \<open>erase\<close>: the first match goes, if there is one.\<close>

fun erase_first :: "('a \<Rightarrow> bool) \<Rightarrow> 'a list \<Rightarrow> 'a list" where
  "erase_first P [] = []"
| "erase_first P (x # xs) = (if P x then xs else x # erase_first P xs)"

definition patchA2dpDevicePorts ::
  "externs \<Rightarrow> bool \<Rightarrow> bool \<Rightarrow> PolicyAudioPort list \<Rightarrow> globals \<Rightarrow> PolicyAudioPort list" where
  "patchA2dpDevicePorts ext isA2dpModule isPrimaryModule devicePorts s =
     (if forceDisableA2dpOffload s then
        (if isA2dpModule then
           fold (\<lambda>d c. snd (PortCollection_add d c))
             [a2dpDevicePort ext (AUDIO_DEVICE_OUT_BLUETOOTH_A2DP ext) ''BT A2DP Out'',
              a2dpDevicePort ext (AUDIO_DEVICE_OUT_BLUETOOTH_A2DP_HEADPHONES ext)
                ''BT A2DP Headphones'',
              a2dpDevicePort ext (AUDIO_DEVICE_OUT_BLUETOOTH_A2DP_SPEAKER ext) ''BT A2DP Speaker'']
             devicePorts
         else if isPrimaryModule then
           fold (\<lambda>out. erase_first (\<lambda>port. mTagName port = out)) a2dpOuts devicePorts
         else devicePorts)
      else devicePorts)"

text \<open>Lines 888 to 931: one synthesized route; a null sink or source ends the run.\<close>

definition addA2dpRoute ::
  "HwModule \<Rightarrow> string \<Rightarrow> status_t \<times> AudioRoute list \<times> globals \<Rightarrow>
   status_t \<times> AudioRoute list \<times> globals" where
  "addA2dpRoute module sinkName r =
     (case r of (status, routes, s) \<Rightarrow>
      if status \<noteq> NO_ERROR then (status, routes, s) else
      (case (findPortByTagName module s sinkName, findPortByTagName module s ''a2dp output'') of
         (Some sink, Some source) \<Rightarrow>
           let newRoute = \<lparr>mType = AUDIO_ROUTE_MIX, mSink = sink, mSources = [source]\<rparr>
           in (NO_ERROR, snd (Vector_add newRoute routes),
               addRoute source newRoute (addRoute sink newRoute s))
       | _ \<Rightarrow> (NULL_DEREFERENCE, routes, s)))"

definition patchA2dpRoutes ::
  "bool \<Rightarrow> bool \<Rightarrow> HwModule \<Rightarrow> AudioRoute list \<Rightarrow> globals \<Rightarrow>
   status_t \<times> AudioRoute list \<times> globals" where
  "patchA2dpRoutes isA2dpModule isPrimaryModule module routes s =
     (if forceDisableA2dpOffload s then
        (if isPrimaryModule then
           (NO_ERROR,
            fold (\<lambda>out. erase_first
                    (\<lambda>route. mType route = AUDIO_ROUTE_MIX \<and> getTagName s (mSink route) = out))
              a2dpOuts routes, s)
         else if isA2dpModule then
           fold (addA2dpRoute module) a2dpOuts (NO_ERROR, routes, s)
         else (NO_ERROR, routes, s))
      else (NO_ERROR, routes, s))"

text \<open>
  Modelled from the spec: \<open>AudioPolicyConfig::addDevice\<close> (declared outside this file)
  attaches a device to the config; the attached devices are a set of references.
\<close>

definition addDevice :: "nat \<Rightarrow> globals \<Rightarrow> globals" where
  "addDevice device s =
     s\<lparr>config := (config s)\<lparr>mAttachedDevices :=
         (if device \<in> set (mAttachedDevices (config s)) then mAttachedDevices (config s)
          else mAttachedDevices (config s) @ [device])\<rparr>\<rparr>"

text \<open>Lines 943 to 963: the items of one \<open>attachedDevices\<close> element.\<close>

fun attachItems :: "HwModule \<Rightarrow> xmlNode list \<Rightarrow> globals \<Rightarrow> globals" where
  "attachItems module [] s = s"
| "attachItems module (child # rest) s =
     attachItems module rest
       (if xml_name child = ''item'' then
          (case xml_text child of
             None \<Rightarrow> s
           | Some attachedDevice \<Rightarrow>
               (case getDeviceFromTagName (mDeclaredDevices module) s attachedDevice of
                  Some device \<Rightarrow> addDevice device s
                | None \<Rightarrow> s))
        else s)"

text \<open>Lines 965 to 980: one \<open>defaultOutputDevice\<close> element.\<close>

definition defaultOutputDeviceStep :: "HwModule \<Rightarrow> xmlNode \<Rightarrow> globals \<Rightarrow> globals" where
  "defaultOutputDeviceStep module children s =
     (case xml_text children of
        None \<Rightarrow> s
      | Some defaultOutputDevice \<Rightarrow>
          (case getDeviceFromTagName (mDeclaredDevices module) s defaultOutputDevice of
             Some device \<Rightarrow>
               if mDefaultOutputDevice (config s) = None
               then s\<lparr>config := (config s)\<lparr>mDefaultOutputDevice := Some device\<rparr>\<rparr> else s
           | None \<Rightarrow> s))"

text \<open>Lines 939 to 981: the loop over the children of the module element, and its body.\<close>

definition moduleChild :: "HwModule \<Rightarrow> xmlNode \<Rightarrow> globals \<Rightarrow> globals" where
  "moduleChild module children s =
     (let s1 = (if xml_name children = ''attachedDevices''
                then attachItems module (xml_children children) s else s)
      in if xml_name children = ''defaultOutputDevice''
         then defaultOutputDeviceStep module children s1 else s1)"

fun moduleChildren :: "HwModule \<Rightarrow> xmlNode list \<Rightarrow> globals \<Rightarrow> globals" where
  "moduleChildren module [] s = s"
| "moduleChildren module (children # rest) s =
     moduleChildren module rest (moduleChild module children s)"

text \<open>Lines 983 to 989: the earpiece of a module in which the channel fix fired.\<close>

definition earpieceStep :: "HwModule \<Rightarrow> globals \<Rightarrow> globals" where
  "earpieceStep module s =
     (if fixedEarpieceChannels s then
        (case getDeviceFromTagName (mDeclaredDevices module) s ''Earpiece'' of
           Some device \<Rightarrow> addDevice device s
         | None \<Rightarrow> s)\<lparr>fixedEarpieceChannels := False\<rparr>
      else s)"

text \<open>
  Modelled from the spec: the constructor \<open>HwModule(name, major, minor)\<close> and
  \<open>HwModule::setRoutes\<close> (declared outside this file): a module owns its ports and
  routes and starts with none.
\<close>

definition new_HwModule :: "string \<Rightarrow> 32 word \<Rightarrow> 32 word \<Rightarrow> HwModule" where
  "new_HwModule n versionMajor versionMinor =
     \<lparr>mName = n, mHalVersionMajor = versionMajor, mHalVersionMinor = versionMinor,
      mPorts = [], mIOProfiles = [], mDeclaredDevices = [], mModuleRoutes = []\<rparr>"

text \<open>
  \<open>ModuleTraits::deserialize\<close> (lines 722 to 991) in three parts: from the routes on
  (lines 862 to 990), from the device ports on (lines 771 to 860), and the whole.
\<close>

definition moduleFromRoutes ::
  "xmlNode \<Rightarrow> bool \<Rightarrow> bool \<Rightarrow> HwModule \<Rightarrow> PolicyAudioPort list \<Rightarrow> globals \<Rightarrow>
   (status_t + HwModule) \<times> globals" where
  "moduleFromRoutes cur isA2dpModule isPrimaryModule module devicePorts s =
     (case deserializeCollection RouteTraits cur [] module s of
        (status, routes0, s1) \<Rightarrow>
      if status \<noteq> NO_ERROR then (Inl status, s1) else
      case patchA2dpRoutes isA2dpModule isPrimaryModule module routes0 s1 of
        (status, routes1, s2) \<Rightarrow>
      if status \<noteq> NO_ERROR then (Inl status, s2) else
      case fixupQualcommBtScoRoute routes1 devicePorts module s2 of
        (status, routes, s3) \<Rightarrow>
      if status \<noteq> NO_ERROR then (Inl status, s3) else
      let module1 = module\<lparr>mModuleRoutes := routes\<rparr>
      in (Inr module1, earpieceStep module1 (moduleChildren module1 (xml_children cur) s3)))"

definition moduleFromDevicePorts ::
  "externs \<Rightarrow> xmlNode \<Rightarrow> bool \<Rightarrow> bool \<Rightarrow> HwModule \<Rightarrow> globals \<Rightarrow> (status_t + HwModule) \<times> globals" where
  "moduleFromDevicePorts ext cur isA2dpModule isPrimaryModule module s =
     (case deserializeCollection (DevicePortTraits ext) cur [] () s of
        (status, devicePorts0, s1) \<Rightarrow>
      if status \<noteq> NO_ERROR then (Inl status, s1) else
      let devicePorts = patchA2dpDevicePorts ext isA2dpModule isPrimaryModule devicePorts0 s1 in
      case setDeclaredDevices module devicePorts s1 of (module1, s2) \<Rightarrow>
      moduleFromRoutes cur isA2dpModule isPrimaryModule module1 devicePorts s2)"

definition ModuleTraits_deserialize ::
  "externs \<Rightarrow> xmlNode \<Rightarrow> unit \<Rightarrow> globals \<Rightarrow> (status_t + HwModule) \<times> globals" where
  "ModuleTraits_deserialize ext cur ctx s =
     (let n = getXmlAttribute cur ''name'' in
      if n = [] then (Inl BAD_VALUE, s) else
      let versionLiteral = getXmlAttribute cur ''halVersion'';
          versionMajor = (if versionLiteral \<noteq> [] then
                            (case fst (sscanf_version ext versionLiteral) of
                               Some v \<Rightarrow> v | None \<Rightarrow> 0)
                          else 0);
          versionMinor = (if versionLiteral \<noteq> [] then
                            (case snd (sscanf_version ext versionLiteral) of
                               Some v \<Rightarrow> v | None \<Rightarrow> 0)
                          else 0);
          module = new_HwModule n versionMajor versionMinor;
          isA2dpModule = (n = ''a2dp'');
          isPrimaryModule = (n = ''primary'') in
      case deserializeCollection (MixPortTraits ext) cur [] () s of
        (status, mixPorts0, s1) \<Rightarrow>
      if status \<noteq> NO_ERROR then (Inl status, s1) else
      case patchA2dpMixPorts ext isA2dpModule mixPorts0 s1 of (mixPorts, s2) \<Rightarrow>
      case setProfiles module mixPorts s2 of (module1, s3) \<Rightarrow>
      moduleFromDevicePorts ext cur isA2dpModule isPrimaryModule module1 s3)"

definition ModuleTraits :: "externs \<Rightarrow> (HwModule, HwModule list, unit, globals) Trait" where
  "ModuleTraits ext =
     \<lparr>tag = ''module'', collectionTag = ''modules'',
      deserialize = ModuleTraits_deserialize ext,
      addElementToCollection = AndroidCollectionTraits_addElementToCollection Vector_add\<rparr>"

section \<open>Global configuration, surround formats and the top-level load\<close>

definition GlobalConfigTraits_deserialize :: "externs \<Rightarrow> xmlNode \<Rightarrow> globals \<Rightarrow> status_t \<times> globals" where
  "GlobalConfigTraits_deserialize ext root s =
     (case find (\<lambda>cur. xml_name cur = ''globalConfiguration'') (xml_children root) of
        None \<Rightarrow> (NO_ERROR, s)
      | Some cur \<Rightarrow>
          let attr1 = getXmlAttribute cur ''speaker_drc_enabled'';
              c1 = (case (if attr1 \<noteq> [] then convertTo_bool ext attr1 else None) of
                      Some v \<Rightarrow> (config s)\<lparr>mSpeakerDrcEnabled := v\<rparr> | None \<Rightarrow> config s);
              attr2 = getXmlAttribute cur ''call_screen_mode_supported'';
              c2 = (case (if attr2 \<noteq> [] then convertTo_bool ext attr2 else None) of
                      Some v \<Rightarrow> c1\<lparr>mCallScreenModeSupported := v\<rparr> | None \<Rightarrow> c1);
              engineLibrarySuffix = getXmlAttribute cur ''engine_library'';
              c3 = (if engineLibrarySuffix \<noteq> []
                    then c2\<lparr>mEngineLibraryNameSuffix := engineLibrarySuffix\<rparr> else c2)
          in (NO_ERROR, s\<lparr>config := c3\<rparr>))"

text \<open>Lines 1036 to 1062; the loop over the subformats stops at the first one that the
  set holds already.\<close>

definition SurroundSoundFormatTraits_deserialize ::
  "externs \<Rightarrow> xmlNode \<Rightarrow> unit \<Rightarrow> globals \<Rightarrow>
   (status_t + audio_format_t \<times> audio_format_t set) \<times> globals" where
  "SurroundSoundFormatTraits_deserialize ext cur serializingContext s =
     (let formatLiteral = getXmlAttribute cur ''name'' in
      if formatLiteral = [] then (Inl BAD_VALUE, s) else
      let format = formatFromString ext formatLiteral (AUDIO_FORMAT_DEFAULT ext) in
      if format = AUDIO_FORMAT_DEFAULT ext then (Inl BAD_VALUE, s) else
      let subformatsLiteral = getXmlAttribute cur ''subformats'' in
      if subformatsLiteral = [] then (Inr (format, {}), s) else
      let subformats = formatsFromString ext subformatsLiteral '' '' in
      if distinct subformats then (Inr (format, set subformats), s) else (Inl BAD_VALUE, s))"

definition SurroundSoundFormatTraits ::
  "externs \<Rightarrow> (audio_format_t \<times> audio_format_t set,
               audio_format_t \<rightharpoonup> audio_format_t set, unit, globals) Trait" where
  "SurroundSoundFormatTraits ext =
     \<lparr>tag = ''format'', collectionTag = ''formats'',
      deserialize = SurroundSoundFormatTraits_deserialize ext,
      addElementToCollection = StdCollectionTraits_addElementToCollection\<rparr>"

definition SurroundSoundTraits_deserialize :: "externs \<Rightarrow> xmlNode \<Rightarrow> globals \<Rightarrow> status_t \<times> globals" where
  "SurroundSoundTraits_deserialize ext root s =
     (let s0 = s\<lparr>config := (config s)\<lparr>mSurroundFormats := defaultSurroundFormats ext\<rparr>\<rparr> in
      case find (\<lambda>cur. xml_name cur = ''surroundSound'') (xml_children root) of
        None \<Rightarrow> (NO_ERROR, s0)
      | Some cur \<Rightarrow>
          (case deserializeCollection (SurroundSoundFormatTraits ext) cur Map.empty () s0 of
             (status, formats, s1) \<Rightarrow>
               (NO_ERROR,
                if status = NO_ERROR
                then s1\<lparr>config := (config s1)\<lparr>mSurroundFormats := formats\<rparr>\<rparr> else s1)))"

text \<open>\<open>std::to_string\<close> on an unsigned number: its decimal digits.\<close>

fun to_string :: "nat \<Rightarrow> string" where
  "to_string n =
     (if n < 10 then [''0123456789'' ! n]
      else to_string (n div 10) @ [''0123456789'' ! (n mod 10)])"

definition rootName :: string where "rootName = ''audioPolicyConfiguration''"
definition versionAttribute :: string where "versionAttribute = ''version''"
definition gMajor :: nat where "gMajor = 1"
definition gMinor :: nat where "gMinor = 0"
definition mVersion :: string where "mVersion = to_string gMajor @ ''.'' @ to_string gMinor"

text \<open>
  \<open>xmlParseFile\<close> gives a document or null, \<open>xmlDocGetRootElement\<close> a root or null;
  \<open>xmlXIncludeProcess\<close> has expanded the includes of the tree that the model is given
  (its failure is logged and nothing else).
\<close>

datatype xmlDoc = XmlDoc (xmlDocGetRootElement: "xmlNode option")

definition PolicySerializer_deserialize ::
  "externs \<Rightarrow> xmlDoc option \<Rightarrow> globals \<Rightarrow> status_t \<times> globals" where
  "PolicySerializer_deserialize ext doc s =
     (case doc of
        None \<Rightarrow> (BAD_VALUE, s)
      | Some d \<Rightarrow>
     (case xmlDocGetRootElement d of
        None \<Rightarrow> (BAD_VALUE, s)
      | Some root \<Rightarrow>
      if xml_name root \<noteq> rootName then (BAD_VALUE, s) else
      let version = getXmlAttribute root versionAttribute in
      if version = [] then (BAD_VALUE, s) else
      if version \<noteq> mVersion then (BAD_VALUE, s) else
      (case deserializeCollection (ModuleTraits ext) root [] () s of
         (status, modules, s1) \<Rightarrow>
      if status \<noteq> NO_ERROR then (status, s1) else
      let s2 = s1\<lparr>config := (config s1)\<lparr>mHwModules := modules\<rparr>\<rparr>;
          s3 = snd (GlobalConfigTraits_deserialize ext root s2);
          s4 = snd (SurroundSoundTraits_deserialize ext root s3)
      in (NO_ERROR, s4))))"

text \<open>Lines 1116 to 1121; \<open>property\<close> is what \<open>property_get_bool\<close> returns.\<close>

definition deserializeAudioPolicyFile ::
  "externs \<Rightarrow> bool \<Rightarrow> xmlDoc option \<Rightarrow> globals \<Rightarrow> status_t \<times> globals" where
  "deserializeAudioPolicyFile ext property doc s =
     PolicySerializer_deserialize ext doc (s\<lparr>forceDisableA2dpOffload := property\<rparr>)"

section \<open>Relations between the state before and after a step\<close>

text \<open>
  \<open>parsing_frame\<close>: what parsing gains, profiles and ports may change (the gain
  counter grows, the earpiece marker may be set). \<open>routing_frame\<close>: what building
  routes may change (ports gain back-links). \<open>load_frame\<close>: what any step of a load
  may change (the counter grows, a default output device that is set stays, the store
  grows and its ports gain back-links).
\<close>

definition parsing_frame :: "globals \<Rightarrow> globals \<Rightarrow> bool" where
  "parsing_frame s s' \<longleftrightarrow>
     ports s' = ports s \<and> config s' = config s \<and>
     forceDisableA2dpOffload s' = forceDisableA2dpOffload s \<and> index s \<le> index s' \<and>
     (fixedEarpieceChannels s \<longrightarrow> fixedEarpieceChannels s')"

definition routing_frame :: "globals \<Rightarrow> globals \<Rightarrow> bool" where
  "routing_frame s s' \<longleftrightarrow>
     config s' = config s \<and> index s' = index s \<and>
     forceDisableA2dpOffload s' = forceDisableA2dpOffload s \<and>
     fixedEarpieceChannels s' = fixedEarpieceChannels s \<and>
     length (ports s') = length (ports s) \<and>
     (\<forall>h < length (ports s). \<exists>routes. ports s' ! h = (ports s ! h)\<lparr>mRoutes := routes\<rparr>)"

definition load_frame :: "globals \<Rightarrow> globals \<Rightarrow> bool" where
  "load_frame s s' \<longleftrightarrow>
     index s \<le> index s' \<and>
     (\<forall>d. mDefaultOutputDevice (config s) = Some d \<longrightarrow>
          mDefaultOutputDevice (config s') = Some d) \<and>
     length (ports s) \<le> length (ports s') \<and>
     (\<forall>h < length (ports s). \<exists>routes. ports s' ! h = (ports s ! h)\<lparr>mRoutes := routes\<rparr>)"

text \<open>\<open>attach_frame\<close>: what the loop over the children of a module element and the
  earpiece step may change (devices are attached, a default output device is set once).\<close>

definition attach_frame :: "globals \<Rightarrow> globals \<Rightarrow> bool" where
  "attach_frame s s' \<longleftrightarrow>
     ports s' = ports s \<and> index s' = index s \<and>
     forceDisableA2dpOffload s' = forceDisableA2dpOffload s \<and>
     (\<forall>d. mDefaultOutputDevice (config s) = Some d \<longrightarrow>
          mDefaultOutputDevice (config s') = Some d) \<and>
     set (mAttachedDevices (config s)) \<subseteq> set (mAttachedDevices (config s'))"

text \<open>The devices that the \<open>defaultOutputDevice\<close> children of a module element name, in
  document order, as far as the names resolve among the declared devices of the module.\<close>

definition declaredDefaultOutputDevices :: "HwModule \<Rightarrow> globals \<Rightarrow> xmlNode list \<Rightarrow> nat list" where
  "declaredDefaultOutputDevices module s children =
     List.map_filter
       (\<lambda>child. if xml_name child = ''defaultOutputDevice''
                then Option.bind (xml_text child)
                       (getDeviceFromTagName (mDeclaredDevices module) s)
                else None)
       children"

text \<open>
  The indices of the gains of a list of ports, in the order of the ports and of their
  gains; \<open>gains_between lo hi\<close>: the indices increase strictly and lie in the range
  from \<open>lo\<close> to below \<open>hi\<close>; \<open>gain_step\<close>: the counter has not decreased, the ports
  that were in the store have the gains they had, and, if the counter has not passed
  \<open>2 ^ 32\<close>, the gains of the ports that are new in the store lie between the old and
  the new counter, in increasing order.
\<close>

definition gainIndices :: "PolicyAudioPort list \<Rightarrow> 32 word list" where
  "gainIndices ps = concat (map (\<lambda>p. map mIndex (mGains p)) ps)"

definition gains_between :: "nat \<Rightarrow> nat \<Rightarrow> 32 word list \<Rightarrow> bool" where
  "gains_between lo hi ws \<longleftrightarrow>
     sorted_wrt (<) ws \<and> (\<forall>w \<in> set ws. lo \<le> unat w \<and> unat w < hi)"

definition gain_step :: "globals \<Rightarrow> globals \<Rightarrow> bool" where
  "gain_step s s' \<longleftrightarrow>
     index s \<le> index s' \<and> length (ports s) \<le> length (ports s') \<and>
     map mGains (take (length (ports s)) (ports s')) = map mGains (ports s) \<and>
     (index s' \<le> 2 ^ 32 \<longrightarrow>
        gains_between (index s) (index s')
          (gainIndices (drop (length (ports s)) (ports s'))))"

text \<open>
  The ports behind the handles of a module, read from the store without their back-links
  to routes (the only field of a port that changes once the port is registered).
\<close>

definition withoutRoutes :: "PolicyAudioPort list \<Rightarrow> PolicyAudioPort list" where
  "withoutRoutes ps = map (\<lambda>p. p\<lparr>mRoutes := []\<rparr>) ps"

definition declaredPorts :: "globals \<Rightarrow> nat list \<Rightarrow> PolicyAudioPort list" where
  "declaredPorts s hs = withoutRoutes (map (\<lambda>h. ports s ! h) hs)"

section \<open>Example documents\<close>

text \<open>
  An instance of the parameters with a few entries of Android's tables, an empty config
  and the statics of a fresh process, for running the model on example documents.
\<close>

definition example_externs :: externs where
  "example_externs =
     \<lparr>GainModeConverter_maskFromString =
        (\<lambda>l. if l = ''AUDIO_GAIN_MODE_JOINT'' then 1 else 0),
      channelMaskFromString = (\<lambda>l. if l = ''AUDIO_CHANNEL_OUT_STEREO'' then 3 else 0),
      convertTo_int32 = (\<lambda>l. None),
      convertTo_uint32 = (\<lambda>l. None),
      convertTo_uint32_result = (\<lambda>l old. Some 0),
      convertTo_bool = (\<lambda>l. if l = ''true'' then Some True
                              else if l = ''false'' then Some False else None),
      channelMasksFromString =
        (\<lambda>l d. if l = ''AUDIO_CHANNEL_IN_MONO'' then {0x10}
               else if l = ''AUDIO_CHANNEL_OUT_MONO'' then {0x1}
               else if l = ''AUDIO_CHANNEL_OUT_STEREO'' then {0x3} else {}),
      samplingRatesFromString = (\<lambda>l d. if l = ''48000'' then {48000} else {}),
      formatFromString =
        (\<lambda>l d. if l = ''AUDIO_FORMAT_PCM_16_BIT'' then 0x1
               else if l = ''AUDIO_FORMAT_AC3'' then 0x09000000 else d),
      formatsFromString = (\<lambda>l d. []),
      OutputFlagConverter_maskFromString = (\<lambda>l. 0),
      InputFlagConverter_maskFromString = (\<lambda>l. 0),
      deviceFromString =
        (\<lambda>l. if l = ''AUDIO_DEVICE_OUT_EARPIECE'' then Some 0x1
             else if l = ''AUDIO_DEVICE_OUT_SPEAKER'' then Some 0x2
             else if l = ''AUDIO_DEVICE_OUT_BLUETOOTH_SCO_HEADSET'' then Some 0x20
             else if l = ''AUDIO_DEVICE_OUT_BLUETOOTH_A2DP'' then Some 0x80
             else if l = ''AUDIO_DEVICE_OUT_TELEPHONY_TX'' then Some 0x10000
             else if l = ''AUDIO_DEVICE_IN_BUILTIN_MIC'' then Some 0x80000004
             else if l = ''AUDIO_DEVICE_IN_BLUETOOTH_SCO_HEADSET'' then Some 0x80000008
             else if l = ''AUDIO_DEVICE_IN_BLUETOOTH_A2DP'' then Some 0x80020000
             else None),
      audio_is_input_device = (\<lambda>t. 0x80000000 \<le> t),
      audio_is_output_devices = (\<lambda>t. t < 0x80000000),
      formatOrder = (\<lambda>f. if f = 0x1 then 0 else if f = 0x09000000 then 1 else 2),
      sscanf_version = (\<lambda>l. if l = ''2.0'' then (Some 2, Some 0) else (None, None)),
      gDynamicFormat = 0,
      AUDIO_FORMAT_DEFAULT = 0,
      AUDIO_FORMAT_PCM_16_BIT = 0x1,
      AUDIO_CHANNEL_IN_MONO = 0x10,
      AUDIO_CHANNEL_OUT_STEREO = 0x3,
      AUDIO_DEVICE_OUT_BLUETOOTH_A2DP = 0x80,
      AUDIO_DEVICE_OUT_BLUETOOTH_A2DP_HEADPHONES = 0x100,
      AUDIO_DEVICE_OUT_BLUETOOTH_A2DP_SPEAKER = 0x200,
      defaultSurroundFormats = Map.empty\<rparr>"

definition example_config :: AudioPolicyConfig where
  "example_config =
     \<lparr>mHwModules = [], mAttachedDevices = [], mDefaultOutputDevice = None,
      mSpeakerDrcEnabled = False, mCallScreenModeSupported = False,
      mEngineLibraryNameSuffix = ''default'', mSurroundFormats = Map.empty\<rparr>"

definition example_globals :: globals where
  "example_globals =
     \<lparr>index = 0, fixedEarpieceChannels = False, forceDisableA2dpOffload = False,
      ports = [], config = example_config\<rparr>"

definition element :: "string \<Rightarrow> (string \<times> string) list \<Rightarrow> xmlNode list \<Rightarrow> xmlNode" where
  "element n props children = XmlNode n props children None"

text \<open>A module that declares the mix port \<open>primary output\<close> twice.\<close>

definition duplicate_ports_module :: xmlNode where
  "duplicate_ports_module =
     element ''module'' [(''name'', ''primary'')]
       [element ''mixPorts'' []
          [element ''mixPort'' [(''name'', ''primary output''), (''role'', ''source'')] [],
           element ''mixPort'' [(''name'', ''primary output''), (''role'', ''source'')] [],
           element ''mixPort'' [(''name'', ''deep_buffer''), (''role'', ''source'')] []]]"

text \<open>A surround sound table that declares the format \<open>AUDIO_FORMAT_AC3\<close> twice.\<close>

definition duplicate_formats_table :: xmlNode where
  "duplicate_formats_table =
     element ''surroundSound'' []
       [element ''formats'' []
          [element ''format'' [(''name'', ''AUDIO_FORMAT_AC3'')] [],
           element ''format'' [(''name'', ''AUDIO_FORMAT_AC3'')] [],
           element ''format'' [(''name'', ''AUDIO_FORMAT_PCM_16_BIT'')] []]]"

text \<open>A document of another version, a mix port with an unknown role, and a device port
  with two profiles.\<close>

definition version_2_document :: xmlDoc where
  "version_2_document =
     XmlDoc (Some (element ''audioPolicyConfiguration'' [(''version'', ''2.0'')]
       [element ''modules'' [] [duplicate_ports_module]]))"

definition odd_role_port :: xmlNode where
  "odd_role_port = element ''mixPort'' [(''name'', ''primary input''), (''role'', ''input'')] []"

definition odd_role_device :: xmlNode where
  "odd_role_device =
     element ''devicePort''
       [(''tagName'', ''Speaker''), (''type'', ''AUDIO_DEVICE_OUT_SPEAKER''),
        (''role'', ''output'')] []"

definition speaker_port :: xmlNode where
  "speaker_port =
     element ''devicePort''
       [(''tagName'', ''Speaker''), (''type'', ''AUDIO_DEVICE_OUT_SPEAKER''), (''role'', ''sink'')]
       [element ''profile''
          [(''format'', ''AUDIO_FORMAT_AC3''), (''samplingRates'', ''48000''),
           (''channelMasks'', ''AUDIO_CHANNEL_OUT_STEREO'')] [],
        element ''profile''
          [(''format'', ''AUDIO_FORMAT_PCM_16_BIT''), (''samplingRates'', ''48000''),
           (''channelMasks'', ''AUDIO_CHANNEL_OUT_STEREO'')] []]"

text \<open>A store with a mix port and a device port, the module that owns them, and two routes
  into the device: one names a source that the module does not have next to one that it
  has, the other names only sources that the module does not have.\<close>

definition example_store :: globals where
  "example_store =
     example_globals
       \<lparr>ports := [new_IOProfile ''primary output'' AUDIO_PORT_ROLE_SOURCE,
                  new_DeviceDescriptor example_externs 0x2 ''Speaker'' [] []]\<rparr>"

definition example_module :: HwModule where
  "example_module =
     (new_HwModule ''primary'' 0 0)\<lparr>mPorts := [0, 1], mIOProfiles := [0], mDeclaredDevices := [1]\<rparr>"

definition speaker_route :: xmlNode where
  "speaker_route =
     element ''route''
       [(''type'', ''mix''), (''sink'', ''Speaker''), (''sources'', ''primary output,deep_buffer'')] []"

definition unresolved_sink_route :: xmlNode where
  "unresolved_sink_route =
     element ''route''
       [(''type'', ''mix''), (''sink'', ''Headphones''), (''sources'', ''primary output'')] []"

definition no_sources_route :: xmlNode where
  "no_sources_route = element ''route'' [(''type'', ''mix''), (''sink'', ''Speaker'')] []"

definition empty_sources_route :: xmlNode where
  "empty_sources_route =
     element ''route'' [(''type'', ''mix''), (''sink'', ''Speaker''), (''sources'', [])] []"

definition no_type_route :: xmlNode where
  "no_type_route =
     element ''route'' [(''sink'', ''Speaker''), (''sources'', ''deep_buffer'')] []"

definition unresolved_sources_route :: xmlNode where
  "unresolved_sources_route =
     element ''route''
       [(''type'', ''mix''), (''sink'', ''Speaker''), (''sources'', ''deep_buffer, voice_rx'')] []"

text \<open>
  A module with the device port \<open>BT SCO Headset\<close>, to be given its routes: (a) one mix
  route into \<open>Telephony Tx\<close> that also carries the source \<open>BT SCO Headset Mic\<close>;
  (b) the routes of the comment in \<open>fixupQualcommBtScoRoute\<close> and a route of type mux
  into \<open>BT SCO Headset\<close>; (c) the routes of that comment alone.
\<close>

definition sco_module :: "xmlNode list \<Rightarrow> xmlNode" where
  "sco_module routes =
     element ''module'' [(''name'', ''primary'')]
       [element ''mixPorts'' []
          [element ''mixPort'' [(''name'', ''primary output''), (''role'', ''source'')] [],
           element ''mixPort'' [(''name'', ''voice_tx''), (''role'', ''source'')] [],
           element ''mixPort'' [(''name'', ''primary input''), (''role'', ''sink'')] []],
        element ''devicePorts'' []
          [element ''devicePort''
             [(''tagName'', ''BT SCO Headset''),
              (''type'', ''AUDIO_DEVICE_OUT_BLUETOOTH_SCO_HEADSET''), (''role'', ''sink'')] [],
           element ''devicePort''
             [(''tagName'', ''Telephony Tx''),
              (''type'', ''AUDIO_DEVICE_OUT_TELEPHONY_TX''), (''role'', ''sink'')] [],
           element ''devicePort''
             [(''tagName'', ''BT SCO Headset Mic''),
              (''type'', ''AUDIO_DEVICE_IN_BLUETOOTH_SCO_HEADSET''), (''role'', ''source'')] []],
        element ''routes'' [] routes]"

definition sco_routes_a :: "xmlNode list" where
  "sco_routes_a =
     [element ''route''
        [(''type'', ''mix''), (''sink'', ''Telephony Tx''),
         (''sources'', ''voice_tx,BT SCO Headset Mic'')] []]"

definition sco_routes_b :: "xmlNode list" where
  "sco_routes_b =
     [element ''route''
        [(''type'', ''mix''), (''sink'', ''Telephony Tx''), (''sources'', ''voice_tx'')] [],
      element ''route''
        [(''type'', ''mix''), (''sink'', ''primary input''),
         (''sources'', ''BT SCO Headset Mic'')] [],
      element ''route''
        [(''type'', ''mux''), (''sink'', ''BT SCO Headset''),
         (''sources'', ''primary output'')] []]"

definition sco_routes_c :: "xmlNode list" where
  "sco_routes_c =
     [element ''route''
        [(''type'', ''mix''), (''sink'', ''Telephony Tx''), (''sources'', ''voice_tx'')] [],
      element ''route''
        [(''type'', ''mix''), (''sink'', ''primary input''),
         (''sources'', ''BT SCO Headset Mic'')] []]"

text \<open>The store, the module and the collections of case (c) at the call of the fix.\<close>

definition sco_store :: globals where
  "sco_store =
     example_globals
       \<lparr>ports :=
          [new_IOProfile ''primary output'' AUDIO_PORT_ROLE_SOURCE,
           new_IOProfile ''voice_tx'' AUDIO_PORT_ROLE_SOURCE,
           new_IOProfile ''primary input'' AUDIO_PORT_ROLE_SINK,
           new_DeviceDescriptor example_externs 0x20 ''BT SCO Headset'' [] [],
           new_DeviceDescriptor example_externs 0x10000 ''Telephony Tx'' [] [],
           new_DeviceDescriptor example_externs 0x80000008 ''BT SCO Headset Mic'' [] []]\<rparr>"

definition sco_ctx :: HwModule where
  "sco_ctx =
     (new_HwModule ''primary'' 0 0)
       \<lparr>mPorts := [0, 1, 2, 3, 4, 5], mIOProfiles := [0, 1, 2], mDeclaredDevices := [3, 4, 5]\<rparr>"

definition sco_devicePorts :: "PolicyAudioPort list" where
  "sco_devicePorts =
     [new_DeviceDescriptor example_externs 0x20 ''BT SCO Headset'' [] [],
      new_DeviceDescriptor example_externs 0x10000 ''Telephony Tx'' [] [],
      new_DeviceDescriptor example_externs 0x80000008 ''BT SCO Headset Mic'' [] []]"

definition sco_routes :: "AudioRoute list" where
  "sco_routes =
     [\<lparr>mType = AUDIO_ROUTE_MIX, mSink = 4, mSources = [1]\<rparr>,
      \<lparr>mType = AUDIO_ROUTE_MIX, mSink = 2, mSources = [5]\<rparr>]"

text \<open>
  Two modules that each name a default output device of their own; the device port of the
  second has a profile with the input-mono channel mask.
\<close>

definition text_element :: "string \<Rightarrow> string \<Rightarrow> xmlNode" where
  "text_element n txt = XmlNode n [] [] (Some txt)"


definition mono_profile :: xmlNode where
  "mono_profile =
     element ''profile''
       [(''format'', ''AUDIO_FORMAT_PCM_16_BIT''), (''samplingRates'', ''48000''),
        (''channelMasks'', ''AUDIO_CHANNEL_IN_MONO'')] []"

definition earpiece_module :: xmlNode where
  "earpiece_module =
     element ''module'' [(''name'', ''usb'')]
       [element ''devicePorts'' []
          [element ''devicePort''
             [(''tagName'', ''Earpiece''), (''type'', ''AUDIO_DEVICE_OUT_EARPIECE''),
              (''role'', ''sink'')]
             [mono_profile]],
        text_element ''defaultOutputDevice'' ''Earpiece'']"


text \<open>A mix port with two gains, and a document with gains in two modules; the second gain
  of the first port has no mode and is refused.\<close>

definition joint_gain :: xmlNode where
  "joint_gain = element ''gain'' [(''mode'', ''AUDIO_GAIN_MODE_JOINT'')] []"

definition two_gains_port :: xmlNode where
  "two_gains_port =
     element ''mixPort'' [(''name'', ''primary output''), (''role'', ''source'')]
       [element ''gains'' [] [joint_gain, joint_gain]]"

definition gains_document :: xmlDoc where
  "gains_document =
     XmlDoc (Some (element ''audioPolicyConfiguration'' [(''version'', ''1.0'')]
       [element ''modules'' []
          [element ''module'' [(''name'', ''primary'')]
             [element ''mixPorts'' []
                [element ''mixPort'' [(''name'', ''primary output''), (''role'', ''source'')]
                   [joint_gain, element ''gain'' [] [], joint_gain]],
              element ''devicePorts'' []
                [element ''devicePort''
                   [(''tagName'', ''Speaker''), (''type'', ''AUDIO_DEVICE_OUT_SPEAKER''),
                    (''role'', ''sink'')]
                   [element ''gains'' [] [joint_gain]]]],
           element ''module'' [(''name'', ''usb'')]
             [element ''mixPorts'' [] [two_gains_port]]]]))"

text \<open>
  A module \<open>a2dp\<close> with an input side only, a module \<open>primary\<close> that declares a device
  port \<open>BT A2DP Out\<close> and a route into it, and a module \<open>primary\<close> in which a mix port
  carries that name and two routes lead into it.
\<close>

definition a2dp_module :: xmlNode where
  "a2dp_module =
     element ''module'' [(''name'', ''a2dp'')]
       [element ''mixPorts'' []
          [element ''mixPort'' [(''name'', ''a2dp input''), (''role'', ''sink'')] []],
        element ''devicePorts'' []
          [element ''devicePort''
             [(''tagName'', ''BT A2DP In''), (''type'', ''AUDIO_DEVICE_IN_BLUETOOTH_A2DP''),
              (''role'', ''source'')] []],
        element ''routes'' []
          [element ''route''
             [(''type'', ''mix''), (''sink'', ''a2dp input''), (''sources'', ''BT A2DP In'')]
             []]]"

definition primary_a2dp_module :: xmlNode where
  "primary_a2dp_module =
     element ''module'' [(''name'', ''primary'')]
       [element ''mixPorts'' []
          [element ''mixPort'' [(''name'', ''primary output''), (''role'', ''source'')] []],
        element ''devicePorts'' []
          [speaker_port,
           element ''devicePort''
             [(''tagName'', ''BT A2DP Out''), (''type'', ''AUDIO_DEVICE_OUT_BLUETOOTH_A2DP''),
              (''role'', ''sink'')] []],
        element ''routes'' []
          [element ''route''
             [(''type'', ''mix''), (''sink'', ''Speaker''), (''sources'', ''primary output'')] [],
           element ''route''
             [(''type'', ''mix''), (''sink'', ''BT A2DP Out''), (''sources'', ''primary output'')]
             []]]"

definition primary_mix_a2dp_module :: xmlNode where
  "primary_mix_a2dp_module =
     element ''module'' [(''name'', ''primary'')]
       [element ''mixPorts'' []
          [element ''mixPort'' [(''name'', ''primary output''), (''role'', ''source'')] [],
           element ''mixPort'' [(''name'', ''BT A2DP Out''), (''role'', ''sink'')] []],
        element ''routes'' []
          [element ''route''
             [(''type'', ''mix''), (''sink'', ''BT A2DP Out''), (''sources'', ''primary output'')]
             [],
           element ''route''
             [(''type'', ''mix''), (''sink'', ''BT A2DP Out''), (''sources'', ''primary output'')]
             []]]"

definition a2dp_disabled_globals :: globals where
  "a2dp_disabled_globals = example_globals\<lparr>forceDisableA2dpOffload := True\<rparr>"

text \<open>
  A module that declares the device port \<open>Earpiece\<close> twice, the first time with the
  input-mono channel mask; a module that declares it once and without profile; a
  document with the two modules in this order.
\<close>

definition twice_earpiece_module :: xmlNode where
  "twice_earpiece_module =
     element ''module'' [(''name'', ''primary'')]
       [element ''devicePorts'' []
          [element ''devicePort''
             [(''tagName'', ''Earpiece''), (''type'', ''AUDIO_DEVICE_OUT_EARPIECE''),
              (''role'', ''sink'')]
             [mono_profile],
           element ''devicePort''
             [(''tagName'', ''Earpiece''), (''type'', ''AUDIO_DEVICE_OUT_EARPIECE''),
              (''role'', ''sink'')] []]]"

definition plain_earpiece_module :: xmlNode where
  "plain_earpiece_module =
     element ''module'' [(''name'', ''usb'')]
       [element ''devicePorts'' []
          [element ''devicePort''
             [(''tagName'', ''Earpiece''), (''type'', ''AUDIO_DEVICE_OUT_EARPIECE''),
              (''role'', ''sink'')] []]]"

definition twice_earpiece_document :: xmlDoc where
  "twice_earpiece_document =
     XmlDoc (Some (element ''audioPolicyConfiguration'' [(''version'', ''1.0'')]
       [element ''modules'' [] [twice_earpiece_module, plain_earpiece_module]]))"

section \<open>Properties\<close>

lemmas eval_defs =
  deserializeCollection_def getXmlAttribute_def element_def
  AudioGainTraits_def AudioProfileTraits_def MixPortTraits_def DevicePortTraits_def
  RouteTraits_def ModuleTraits_def SurroundSoundFormatTraits_def
  AndroidCollectionTraits_addElementToCollection_def StdCollectionTraits_addElementToCollection_def
  PortCollection_add_def Vector_add_def
  AudioGainTraits_deserialize_def new_AudioGain_def converted_def
  AudioProfileTraits_deserialize_def new_AudioProfile_def createFullDynamic_def
  sortAudioProfiles_def defaultAndSortProfiles_def
  MixPortTraits_deserialize_def DevicePortTraits_deserialize_def
  new_IOProfile_def new_DeviceDescriptor_def

section \<open>The collection walk\<close>

lemma inner_append:
  "deserializeCollection_inner T ctx xs c s = (NO_ERROR, c1, s1) \<Longrightarrow>
   deserializeCollection_inner T ctx (xs @ zs) c s = deserializeCollection_inner T ctx zs c1 s1"
proof (induction xs arbitrary: c s)
  case Nil
  then show ?case by simp
next
  case (Cons x xs)
  then show ?case
    by (auto split: if_splits prod.splits sum.splits status_t.splits)
qed

lemma inner_add_fails:
  assumes "xml_name n = tag T" and "deserialize T n ctx s1 = (Inr e, s2)"
    and "addElementToCollection T e c1 = (st, c2)" and "st \<noteq> NO_ERROR"
  shows "deserializeCollection_inner T ctx (n # ys) c1 s1 = (st, c2, s2)"
  using assms by (cases st) simp_all

lemma outer_skip:
  "\<forall>p \<in> set pre. xml_name p \<noteq> tag T \<and> xml_name p \<noteq> collectionTag T \<Longrightarrow>
   deserializeCollection_outer T ctx (pre @ rest) c s = deserializeCollection_outer T ctx rest c s"
  by (induction pre) simp_all

lemma outer_stops:
  assumes "deserializeCollection_inner T ctx
             (if xml_name cur = collectionTag T then xml_children cur
              else if xml_name cur = tag T then cur # rest else []) c s = (st, c1, s1)"
    and "st \<noteq> NO_ERROR"
  shows "deserializeCollection_outer T ctx (cur # rest) c s = (st, c1, s1)"
  using assms by (cases st) simp_all

lemma module_fails_with_mix_ports:
  assumes "getXmlAttribute cur ''name'' \<noteq> []"
    and "deserializeCollection (MixPortTraits ext) cur [] () s = (st, c, s1)"
    and "st \<noteq> NO_ERROR"
  shows "ModuleTraits_deserialize ext cur () s = (Inl st, s1)"
  using assms by (simp add: ModuleTraits_deserialize_def Let_def)

text \<open>
  C1, as the code has it. When the insertion of a parsed entity fails, the walk of
  \<open>deserializeCollection\<close> stops there and returns the status of the insertion: the
  entities inserted before it are in the collection, the entries after it are not
  processed (the result is the same whatever follows), and the state is the one right
  after the entity was parsed. This holds for the wrapped shape (the entries inside a
  collection element) and for the bare shape (the entries as children of the element
  itself). For ports: a port whose tag name is in the collection already is refused with
  \<open>BAD_VALUE\<close>, and a module whose mix port collection fails returns that error in
  place of a module.
\<close>

theorem deserializeCollection_stops_at_failed_insertion:
  "((\<forall>p \<in> set pre. xml_name p \<noteq> tag T \<and> xml_name p \<noteq> collectionTag T) \<and>
    deserializeCollection_inner T ctx xs c s = (NO_ERROR, c1, s1) \<and>
    xml_name n = tag T \<and> deserialize T n ctx s1 = (Inr e, s2) \<and>
    addElementToCollection T e c1 = (st, c2) \<and> st \<noteq> NO_ERROR \<longrightarrow>
    (xml_name w = collectionTag T \<and> xml_children w = xs @ n # ys \<and>
     xml_children cur = pre @ w # post \<longrightarrow>
       deserializeCollection T cur c ctx s = (st, c2, s2)) \<and>
    (tag T \<noteq> collectionTag T \<and> xml_name (hd (xs @ [n])) = tag T \<and>
     xml_children cur = pre @ xs @ n # ys \<longrightarrow>
       deserializeCollection T cur c ctx s = (st, c2, s2))) \<and>
   (mTagName port \<in> set (map mTagName ports1) \<longrightarrow>
      addElementToCollection (MixPortTraits ext) port ports1 = (BAD_VALUE, ports1) \<and>
      addElementToCollection (DevicePortTraits ext) port ports1 = (BAD_VALUE, ports1)) \<and>
   (getXmlAttribute m ''name'' \<noteq> [] \<and>
    deserializeCollection (MixPortTraits ext) m [] () s' = (st', c', s1') \<and> st' \<noteq> NO_ERROR \<longrightarrow>
      ModuleTraits_deserialize ext m () s' = (Inl st', s1'))"
proof (intro conjI impI; (elim conjE)?)
  assume pre: "\<forall>p \<in> set pre. xml_name p \<noteq> tag T \<and> xml_name p \<noteq> collectionTag T"
    and xs: "deserializeCollection_inner T ctx xs c s = (NO_ERROR, c1, s1)"
    and n: "xml_name n = tag T" "deserialize T n ctx s1 = (Inr e, s2)"
      "addElementToCollection T e c1 = (st, c2)" "st \<noteq> NO_ERROR"
  have inner: "deserializeCollection_inner T ctx (xs @ n # ys) c s = (st, c2, s2)"
    using inner_append [OF xs] inner_add_fails [OF n] by simp
  {
    assume w: "xml_name w = collectionTag T" "xml_children w = xs @ n # ys"
      "xml_children cur = pre @ w # post"
    have "deserializeCollection_outer T ctx (w # post) c s = (st, c2, s2)"
      by (rule outer_stops) (use w inner n in simp_all)
    then show "deserializeCollection T cur c ctx s = (st, c2, s2)"
      using w pre by (simp add: deserializeCollection_def outer_skip)
  }
  {
    assume b: "tag T \<noteq> collectionTag T" "xml_name (hd (xs @ [n])) = tag T"
      "xml_children cur = pre @ xs @ n # ys"
    obtain z zs where z: "xs @ n # ys = z # zs" "xml_name z = tag T"
      using b(2) by (cases xs) auto
    have "deserializeCollection_outer T ctx (z # zs) c s = (st, c2, s2)"
      by (rule outer_stops) (use z inner b n in simp_all)
    then show "deserializeCollection T cur c ctx s = (st, c2, s2)"
      using b pre z by (simp add: deserializeCollection_def outer_skip)
  }
next
  assume "mTagName port \<in> set (map mTagName ports1)"
  then show "addElementToCollection (MixPortTraits ext) port ports1 = (BAD_VALUE, ports1)"
    and "addElementToCollection (DevicePortTraits ext) port ports1 = (BAD_VALUE, ports1)"
    by (simp_all add: MixPortTraits_def DevicePortTraits_def PortCollection_add_def
        AndroidCollectionTraits_addElementToCollection_def)
next
  assume "getXmlAttribute m ''name'' \<noteq> []"
    and "deserializeCollection (MixPortTraits ext) m [] () s' = (st', c', s1')"
    and "st' \<noteq> NO_ERROR"
  then show "ModuleTraits_deserialize ext m () s' = (Inl st', s1')"
    by (rule module_fails_with_mix_ports)
qed

lemma example_mix_port:
  "MixPortTraits_deserialize example_externs
     (element ''mixPort'' [(''name'', n), (''role'', ''source'')] []) () example_globals =
   (if n = [] then Inl BAD_VALUE
    else Inr ((new_IOProfile n AUDIO_PORT_ROLE_SOURCE)\<lparr>mProfiles := [createFullDynamic 0]\<rparr>),
    example_globals)"
  by (simp add: eval_defs example_externs_def)

theorem deserializeCollection_stops_at_failed_insertion_witness:
  "deserializeCollection (MixPortTraits example_externs)
     duplicate_ports_module [] () example_globals =
   (BAD_VALUE,
    [(new_IOProfile ''primary output'' AUDIO_PORT_ROLE_SOURCE)
       \<lparr>mProfiles := [createFullDynamic 0]\<rparr>],
    example_globals) \<and>
   ModuleTraits_deserialize example_externs duplicate_ports_module () example_globals =
   (Inl BAD_VALUE, example_globals)"
proof -
  let ?T = "MixPortTraits example_externs"
  let ?p = "(new_IOProfile ''primary output'' AUDIO_PORT_ROLE_SOURCE)
       \<lparr>mProfiles := [createFullDynamic 0]\<rparr>"
  let ?n = "element ''mixPort'' [(''name'', ''primary output''), (''role'', ''source'')] []"
  let ?n3 = "element ''mixPort'' [(''name'', ''deep_buffer''), (''role'', ''source'')] []"
  let ?w = "element ''mixPorts'' [] [?n, ?n, ?n3]"
  have T: "tag ?T = ''mixPort''" "collectionTag ?T = ''mixPorts''"
    "deserialize ?T = MixPortTraits_deserialize example_externs"
    by (simp_all add: MixPortTraits_def)
  have nm: "xml_name ?n = ''mixPort''" "xml_name ?w = ''mixPorts''"
    "xml_children ?w = [?n] @ ?n # [?n3]"
    "xml_children duplicate_ports_module = [] @ ?w # []"
    "getXmlAttribute duplicate_ports_module ''name'' \<noteq> []"
    by (simp_all add: element_def duplicate_ports_module_def getXmlAttribute_def)
  have add1: "addElementToCollection ?T ?p [] = (NO_ERROR, [?p])"
    by (simp add: MixPortTraits_def PortCollection_add_def
        AndroidCollectionTraits_addElementToCollection_def)
  have xs: "deserializeCollection_inner ?T () [?n] [] example_globals =
      (NO_ERROR, [?p], example_globals)"
    using add1 by (simp add: T nm example_mix_port)
  have e: "deserialize ?T ?n () example_globals = (Inr ?p, example_globals)"
    by (simp add: T example_mix_port)
  have add2: "addElementToCollection ?T ?p [?p] = (BAD_VALUE, [?p])"
    by (simp add: MixPortTraits_def PortCollection_add_def
        AndroidCollectionTraits_addElementToCollection_def)
  note inst = deserializeCollection_stops_at_failed_insertion
    [of "[]" "?T" "()" "[?n]" "[]" example_globals "[?p]" example_globals "?n" "?p"
      example_globals BAD_VALUE "[?p]" "?w" "[?n3]" duplicate_ports_module "[]" "?p" "[?p]"
      example_externs duplicate_ports_module example_globals BAD_VALUE "[?p]" example_globals]
  have 1: "deserializeCollection ?T duplicate_ports_module [] () example_globals =
      (BAD_VALUE, [?p], example_globals)"
    using inst xs e add2 by (simp add: T nm)
  then have "ModuleTraits_deserialize example_externs duplicate_ports_module () example_globals =
      (Inl BAD_VALUE, example_globals)"
    using inst nm(5) by simp
  with 1 show ?thesis by simp
qed

theorem duplicate_key_aborts_collection_counterexample:
  "fst (deserializeCollection (SurroundSoundFormatTraits example_externs)
          duplicate_formats_table Map.empty () example_globals) = BAD_VALUE \<and>
   dom (fst (snd (deserializeCollection (SurroundSoundFormatTraits example_externs)
          duplicate_formats_table Map.empty () example_globals))) = {0x09000000} \<and>
   fst (deserializeCollection (MixPortTraits example_externs)
          duplicate_ports_module [] () example_globals) = BAD_VALUE \<and>
   map mTagName (fst (snd (deserializeCollection (MixPortTraits example_externs)
          duplicate_ports_module [] () example_globals))) = [''primary output''] \<and>
   fst (ModuleTraits_deserialize example_externs duplicate_ports_module () example_globals) =
     Inl BAD_VALUE"
  by (simp add: eval_defs example_externs_def duplicate_formats_table_def
      duplicate_ports_module_def SurroundSoundFormatTraits_deserialize_def
      ModuleTraits_deserialize_def)

section \<open>The top-level load\<close>

lemma mVersion_literal: "mVersion = ''1.0''"
  by (simp add: mVersion_def gMajor_def gMinor_def)

text \<open>
  C2. The supported version literal is \<open>1.0\<close>. The load returns \<open>BAD_VALUE\<close> and leaves
  the config, the gain counter and the port store as they were when there is no document
  or no root, when the root element is not named \<open>audioPolicyConfiguration\<close>, or when its
  version attribute is absent or is not \<open>1.0\<close>. The result does not depend on the
  children of the root: no module, global configuration or surround format is parsed.
  Through \<open>deserializeAudioPolicyFile\<close> the only change is the A2DP flag, which is read
  from the system property before the document.
\<close>

theorem PolicySerializer_rejects_root_and_version:
  "mVersion = ''1.0'' \<and> rootName = ''audioPolicyConfiguration'' \<and>
   PolicySerializer_deserialize ext None s = (BAD_VALUE, s) \<and>
   PolicySerializer_deserialize ext (Some (XmlDoc None)) s = (BAD_VALUE, s) \<and>
   (xml_name root \<noteq> ''audioPolicyConfiguration'' \<or>
    map_of (xml_props root) ''version'' = None \<or>
    getXmlAttribute root ''version'' \<noteq> ''1.0'' \<longrightarrow>
      PolicySerializer_deserialize ext (Some (XmlDoc (Some root))) s = (BAD_VALUE, s) \<and>
      deserializeAudioPolicyFile ext property (Some (XmlDoc (Some root))) s =
        (BAD_VALUE, s\<lparr>forceDisableA2dpOffload := property\<rparr>))"
  by (auto simp add: mVersion_literal rootName_def PolicySerializer_deserialize_def
      deserializeAudioPolicyFile_def versionAttribute_def getXmlAttribute_def Let_def)

theorem PolicySerializer_rejects_root_and_version_witness:
  "getXmlAttribute (the (xmlDocGetRootElement version_2_document)) ''version'' = ''2.0'' \<and>
   PolicySerializer_deserialize example_externs (Some version_2_document) example_globals =
     (BAD_VALUE, example_globals)"
  using PolicySerializer_rejects_root_and_version
    [where root = "the (xmlDocGetRootElement version_2_document)" and ext = example_externs
      and s = example_globals]
  by (simp add: version_2_document_def element_def getXmlAttribute_def rootName_def)

section \<open>Ports\<close>

lemma sorted_defaultAndSortProfiles:
  "sorted (map (\<lambda>p. formatOrder ext (mFormat p)) (defaultAndSortProfiles ext profiles))"
  by (simp add: defaultAndSortProfiles_def sortAudioProfiles_def)

lemma defaultAndSortProfiles_Nil:
  "defaultAndSortProfiles ext [] = [createFullDynamic (gDynamicFormat ext)]"
  by (simp add: defaultAndSortProfiles_def sortAudioProfiles_def Vector_add_def)

lemma defaultAndSortProfiles_same:
  "profiles \<noteq> [] \<Longrightarrow> set (defaultAndSortProfiles ext profiles) = set profiles \<and>
     length (defaultAndSortProfiles ext profiles) = length profiles"
  by (simp add: defaultAndSortProfiles_def sortAudioProfiles_def)

lemma defaultAndSortProfiles_nonempty: "defaultAndSortProfiles ext profiles \<noteq> []"
proof (cases profiles)
  case Nil
  then show ?thesis by (simp add: defaultAndSortProfiles_Nil)
next
  case (Cons p ps)
  then have "length (defaultAndSortProfiles ext profiles) = Suc (length ps)"
    using defaultAndSortProfiles_same [of profiles ext] by simp
  then show ?thesis by auto
qed

lemma MixPort_profiles:
  "MixPortTraits_deserialize ext child () s = (Inr port, s') \<Longrightarrow>
   mProfiles port = defaultAndSortProfiles ext
     (fst (snd (deserializeCollection (AudioProfileTraits ext) child [] False s)))"
  by (auto simp add: MixPortTraits_deserialize_def Let_def split: if_splits prod.splits)

lemma DevicePort_profiles:
  "DevicePortTraits_deserialize ext cur () s = (Inr port, s') \<Longrightarrow>
   \<exists>type. deviceFromString ext (getXmlAttribute cur ''type'') = Some type \<and>
   mProfiles port = defaultAndSortProfiles ext
     (fst (snd (deserializeCollection (AudioProfileTraits ext) cur []
        (audio_is_output_devices ext type) s)))"
  by (auto simp add: DevicePortTraits_deserialize_def Let_def
      split: if_splits prod.splits option.splits)

text \<open>
  C4. A mix port or device port that is parsed successfully has at least one profile, and
  its profiles are sorted by format. When the walk over the declared profiles yields
  none, the port has exactly the one fully-dynamic profile; otherwise it has the declared
  profiles, as many as were declared.
\<close>

theorem parsed_port_profiles:
  "(MixPortTraits_deserialize ext child () s = (Inr port, s') \<longrightarrow>
      mProfiles port \<noteq> [] \<and>
      sorted (map (\<lambda>p. formatOrder ext (mFormat p)) (mProfiles port)) \<and>
      (let declared = fst (snd (deserializeCollection (AudioProfileTraits ext) child [] False s))
       in if declared = [] then mProfiles port = [createFullDynamic (gDynamicFormat ext)]
          else set (mProfiles port) = set declared \<and>
               length (mProfiles port) = length declared)) \<and>
   (DevicePortTraits_deserialize ext cur () t = (Inr device, t') \<longrightarrow>
      mProfiles device \<noteq> [] \<and>
      sorted (map (\<lambda>p. formatOrder ext (mFormat p)) (mProfiles device)) \<and>
      (\<exists>type. deviceFromString ext (getXmlAttribute cur ''type'') = Some type \<and>
        (let declared = fst (snd (deserializeCollection (AudioProfileTraits ext) cur []
                (audio_is_output_devices ext type) t))
         in if declared = [] then mProfiles device = [createFullDynamic (gDynamicFormat ext)]
            else set (mProfiles device) = set declared \<and>
                 length (mProfiles device) = length declared)))"
proof (intro conjI impI)
  assume a: "MixPortTraits_deserialize ext child () s = (Inr port, s')"
  show "mProfiles port \<noteq> []"
    and "sorted (map (\<lambda>p. formatOrder ext (mFormat p)) (mProfiles port))"
    by (simp_all add: MixPort_profiles [OF a] defaultAndSortProfiles_nonempty
        sorted_defaultAndSortProfiles)
  show "let declared = fst (snd (deserializeCollection (AudioProfileTraits ext) child [] False s))
       in if declared = [] then mProfiles port = [createFullDynamic (gDynamicFormat ext)]
          else set (mProfiles port) = set declared \<and>
               length (mProfiles port) = length declared"
    by (simp add: MixPort_profiles [OF a] Let_def defaultAndSortProfiles_Nil
        defaultAndSortProfiles_same)
next
  assume a: "DevicePortTraits_deserialize ext cur () t = (Inr device, t')"
  from DevicePort_profiles [OF a] obtain type where
    ty: "deviceFromString ext (getXmlAttribute cur ''type'') = Some type" and
    p: "mProfiles device = defaultAndSortProfiles ext
     (fst (snd (deserializeCollection (AudioProfileTraits ext) cur []
        (audio_is_output_devices ext type) t)))"
    by blast
  show "mProfiles device \<noteq> []"
    and "sorted (map (\<lambda>p. formatOrder ext (mFormat p)) (mProfiles device))"
    by (simp_all add: p defaultAndSortProfiles_nonempty sorted_defaultAndSortProfiles)
  show "\<exists>type. deviceFromString ext (getXmlAttribute cur ''type'') = Some type \<and>
        (let declared = fst (snd (deserializeCollection (AudioProfileTraits ext) cur []
                (audio_is_output_devices ext type) t))
         in if declared = [] then mProfiles device = [createFullDynamic (gDynamicFormat ext)]
            else set (mProfiles device) = set declared \<and>
                 length (mProfiles device) = length declared)"
    using ty
    by (simp add: p Let_def defaultAndSortProfiles_Nil defaultAndSortProfiles_same)
qed

lemma example_speaker_port:
  "\<exists>device. DevicePortTraits_deserialize example_externs speaker_port () example_globals =
     (Inr device, example_globals) \<and> map mFormat (mProfiles device) = [0x1, 0x09000000]"
  by (simp add: eval_defs example_externs_def speaker_port_def)

theorem parsed_port_profiles_witness:
  "(\<exists>port. MixPortTraits_deserialize example_externs
       (element ''mixPort'' [(''name'', ''primary output''), (''role'', ''source'')] []) ()
       example_globals = (Inr port, example_globals) \<and>
     mProfiles port = [createFullDynamic 0]) \<and>
   (\<exists>device. DevicePortTraits_deserialize example_externs speaker_port () example_globals =
       (Inr device, example_globals) \<and>
     map mFormat (mProfiles device) = [0x1, 0x09000000] \<and>
     sorted (map (\<lambda>p. formatOrder example_externs (mFormat p)) (mProfiles device)))"
proof -
  obtain device where d:
    "DevicePortTraits_deserialize example_externs speaker_port () example_globals =
       (Inr device, example_globals)" "map mFormat (mProfiles device) = [0x1, 0x09000000]"
    using example_speaker_port by (elim exE conjE)
  let ?n = "element ''mixPort'' [(''name'', ''primary output''), (''role'', ''source'')] []"
  let ?p = "(new_IOProfile ''primary output'' AUDIO_PORT_ROLE_SOURCE)
       \<lparr>mProfiles := [createFullDynamic 0]\<rparr>"
  have m: "MixPortTraits_deserialize example_externs ?n () example_globals =
      (Inr ?p, example_globals)"
    by (simp add: example_mix_port)
  note inst = parsed_port_profiles
    [where ext = example_externs and cur = speaker_port and t = example_globals
      and device = device and t' = example_globals]
  have "sorted (map (\<lambda>p. formatOrder example_externs (mFormat p)) (mProfiles device))"
    using inst d(1) by simp
  moreover have "mProfiles ?p = [createFullDynamic 0]"
    by simp
  ultimately show ?thesis
    by (intro conjI exI [of _ "?p"] exI [of _ device] m d)
qed

lemma MixPort_role:
  "MixPortTraits_deserialize ext child () s = (Inr port, s') \<Longrightarrow>
   getXmlAttribute child ''role'' \<noteq> [] \<and>
   mRole port = (if getXmlAttribute child ''role'' = ''source''
                 then AUDIO_PORT_ROLE_SOURCE else AUDIO_PORT_ROLE_SINK)"
  by (auto simp add: MixPortTraits_deserialize_def Let_def new_IOProfile_def
      split: if_splits prod.splits)

lemma DevicePort_role:
  "DevicePortTraits_deserialize ext cur () s = (Inr port, s') \<Longrightarrow>
   \<forall>t. \<not> (audio_is_input_device ext t \<and> audio_is_output_devices ext t) \<Longrightarrow>
   getXmlAttribute cur ''role'' \<noteq> [] \<and>
   mRole port = (if getXmlAttribute cur ''role'' = ''source''
                 then AUDIO_PORT_ROLE_SOURCE else AUDIO_PORT_ROLE_SINK)"
  by (auto simp add: DevicePortTraits_deserialize_def Let_def new_DeviceDescriptor_def
      split: if_splits prod.splits option.splits)

lemma MixPort_same:
  assumes "xml_children child' = xml_children child"
    and "\<forall>a. a \<noteq> ''role'' \<longrightarrow> getXmlAttribute child' a = getXmlAttribute child a"
    and "getXmlAttribute child ''role'' \<notin> {[], ''source''}"
    and "getXmlAttribute child' ''role'' \<notin> {[], ''source''}"
  shows "MixPortTraits_deserialize ext child' () s = MixPortTraits_deserialize ext child () s"
  using assms
  by (simp add: MixPortTraits_deserialize_def deserializeCollection_def Let_def split: prod.splits option.splits)

lemma DevicePort_same:
  assumes "xml_children child' = xml_children child"
    and "\<forall>a. a \<noteq> ''role'' \<longrightarrow> getXmlAttribute child' a = getXmlAttribute child a"
    and "getXmlAttribute child ''role'' \<notin> {[], ''source''}"
    and "getXmlAttribute child' ''role'' \<notin> {[], ''source''}"
  shows "DevicePortTraits_deserialize ext child' () s = DevicePortTraits_deserialize ext child () s"
  using assms
  by (simp add: DevicePortTraits_deserialize_def deserializeCollection_def Let_def split: prod.splits option.splits)

lemma inner_never_fails:
  assumes add: "\<And>e c. fst (addElementToCollection T e c) = NO_ERROR"
    and des: "\<And>n s. fst (deserialize T n ctx s) \<noteq> Inl NULL_DEREFERENCE"
  shows "fst (deserializeCollection_inner T ctx xs c s) = NO_ERROR"
proof (induction xs arbitrary: c s)
  case Nil
  show ?case by simp
next
  case (Cons x xs)
  obtain r s1 where d: "deserialize T x ctx s = (r, s1)"
    by (cases "deserialize T x ctx s")
  have nd: "r \<noteq> Inl NULL_DEREFERENCE"
    using des [of x s] d by simp
  show ?case
  proof (cases r)
    case (Inl st)
    then show ?thesis
      using d nd Cons.IH by (cases st) simp_all
  next
    case (Inr e)
    obtain st c1 where a: "addElementToCollection T e c = (st, c1)"
      by (cases "addElementToCollection T e c")
    then have "st = NO_ERROR"
      using add [of e c] by simp
    then show ?thesis
      using d Inr a Cons.IH by simp
  qed
qed

lemma outer_never_fails:
  assumes add: "\<And>e c. fst (addElementToCollection T e c) = NO_ERROR"
    and des: "\<And>n s. fst (deserialize T n ctx s) \<noteq> Inl NULL_DEREFERENCE"
  shows "fst (deserializeCollection_outer T ctx xs c s) = NO_ERROR"
proof (induction xs arbitrary: c s)
  case Nil
  show ?case by simp
next
  case (Cons x xs)
  let ?ys = "if xml_name x = collectionTag T then xml_children x
             else if xml_name x = tag T then x # xs else []"
  obtain st c1 s1 where i: "deserializeCollection_inner T ctx ?ys c s = (st, c1, s1)"
    by (cases "deserializeCollection_inner T ctx ?ys c s")
  then have "st = NO_ERROR"
    using inner_never_fails [of T ctx ?ys c s, OF add des] by simp
  then show ?case
    using i Cons.IH by simp
qed

lemma walk_never_fails:
  assumes "\<And>e c. fst (addElementToCollection T e c) = NO_ERROR"
    and "\<And>n s. fst (deserialize T n ctx s) \<noteq> Inl NULL_DEREFERENCE"
  shows "fst (deserializeCollection T cur c ctx s) = NO_ERROR"
  unfolding deserializeCollection_def using assms by (rule outer_never_fails)

lemma profiles_walk_ok:
  "fst (deserializeCollection (AudioProfileTraits ext) cur c ctx s) = NO_ERROR"
  by (rule walk_never_fails)
    (simp_all add: AudioProfileTraits_def AudioProfileTraits_deserialize_def Let_def
      AndroidCollectionTraits_addElementToCollection_def Vector_add_def)

lemma gains_walk_ok:
  "fst (deserializeCollection (AudioGainTraits ext) cur c ctx s) = NO_ERROR"
  by (rule walk_never_fails)
    (simp_all add: AudioGainTraits_def AudioGainTraits_deserialize_def Let_def
      AndroidCollectionTraits_addElementToCollection_def Vector_add_def)

lemma profiles_walk_status:
  "deserializeCollection (AudioProfileTraits ext) cur c ctx s = (st, c', s') \<Longrightarrow> st = NO_ERROR"
  using profiles_walk_ok [of ext cur c ctx s] by simp

lemma gains_walk_status:
  "deserializeCollection (AudioGainTraits ext) cur c ctx s = (st, c', s') \<Longrightarrow> st = NO_ERROR"
  using gains_walk_ok [of ext cur c ctx s] by simp

lemma MixPort_accepts:
  "(\<exists>port s'. MixPortTraits_deserialize ext child () s = (Inr port, s')) \<longleftrightarrow>
   getXmlAttribute child ''name'' \<noteq> [] \<and> getXmlAttribute child ''role'' \<noteq> []"
  by (auto simp add: MixPortTraits_deserialize_def Let_def split: prod.splits
      dest: profiles_walk_status gains_walk_status)

lemma DevicePort_accepts:
  "(\<exists>device s'. DevicePortTraits_deserialize ext cur () s = (Inr device, s')) \<longleftrightarrow>
   getXmlAttribute cur ''tagName'' \<noteq> [] \<and> getXmlAttribute cur ''type'' \<noteq> [] \<and>
   getXmlAttribute cur ''role'' \<noteq> [] \<and>
   (\<exists>type. deviceFromString ext (getXmlAttribute cur ''type'') = Some type \<and>
      (if getXmlAttribute cur ''role'' = ''source'' then audio_is_input_device ext type
       else audio_is_output_devices ext type))"
  by (auto simp add: DevicePortTraits_deserialize_def Let_def split: prod.splits option.splits
      dest: profiles_walk_status gains_walk_status)

text \<open>
  C10. A mix port element is parsed exactly when its name and role attributes are not
  empty, and a device port element exactly when its tag name, type and role attributes are
  not empty and the type names a device that is an input device if the role is the string
  \<open>source\<close> and an output device if it is any other string: the role string rejects a
  port only by being empty or, for a device port, through the device type, a string
  outside the vocabulary counting as \<open>sink\<close>. A port that is parsed has the role source
  exactly when its role attribute is the string \<open>source\<close> and sink otherwise (for a
  device port, whose role the constructor takes from the device type, given that no
  device type is both an input and an output type). The role string is read in no other
  way: two elements that differ only in their role attributes, both non-empty and both
  other than \<open>source\<close>, are parsed to the same result.
\<close>

theorem port_role_from_role_attribute:
  "((\<exists>port s'. MixPortTraits_deserialize ext child () s = (Inr port, s')) \<longleftrightarrow>
      getXmlAttribute child ''name'' \<noteq> [] \<and> getXmlAttribute child ''role'' \<noteq> []) \<and>
   (MixPortTraits_deserialize ext child () s = (Inr port, s') \<longrightarrow>
      getXmlAttribute child ''role'' \<noteq> [] \<and>
      (mRole port = AUDIO_PORT_ROLE_SOURCE \<longleftrightarrow> getXmlAttribute child ''role'' = ''source'') \<and>
      (mRole port = AUDIO_PORT_ROLE_SINK \<longleftrightarrow> getXmlAttribute child ''role'' \<noteq> ''source'')) \<and>
   ((\<exists>device t'. DevicePortTraits_deserialize ext cur () t = (Inr device, t')) \<longleftrightarrow>
      getXmlAttribute cur ''tagName'' \<noteq> [] \<and> getXmlAttribute cur ''type'' \<noteq> [] \<and>
      getXmlAttribute cur ''role'' \<noteq> [] \<and>
      (\<exists>type. deviceFromString ext (getXmlAttribute cur ''type'') = Some type \<and>
         (if getXmlAttribute cur ''role'' = ''source'' then audio_is_input_device ext type
          else audio_is_output_devices ext type))) \<and>
   (DevicePortTraits_deserialize ext cur () t = (Inr device, t') \<and>
    (\<forall>ty. \<not> (audio_is_input_device ext ty \<and> audio_is_output_devices ext ty)) \<longrightarrow>
      getXmlAttribute cur ''role'' \<noteq> [] \<and>
      (mRole device = AUDIO_PORT_ROLE_SOURCE \<longleftrightarrow> getXmlAttribute cur ''role'' = ''source'') \<and>
      (mRole device = AUDIO_PORT_ROLE_SINK \<longleftrightarrow> getXmlAttribute cur ''role'' \<noteq> ''source'')) \<and>
   (xml_children n' = xml_children n \<and>
    (\<forall>a. a \<noteq> ''role'' \<longrightarrow> getXmlAttribute n' a = getXmlAttribute n a) \<and>
    getXmlAttribute n ''role'' \<notin> {[], ''source''} \<and>
    getXmlAttribute n' ''role'' \<notin> {[], ''source''} \<longrightarrow>
      MixPortTraits_deserialize ext n' () u = MixPortTraits_deserialize ext n () u \<and>
      DevicePortTraits_deserialize ext n' () u = DevicePortTraits_deserialize ext n () u)"
proof (intro conjI impI)
  show "(\<exists>port s'. MixPortTraits_deserialize ext child () s = (Inr port, s')) \<longleftrightarrow>
      getXmlAttribute child ''name'' \<noteq> [] \<and> getXmlAttribute child ''role'' \<noteq> []"
    by (rule MixPort_accepts)
next
  assume "MixPortTraits_deserialize ext child () s = (Inr port, s')"
  from MixPort_role [OF this]
  show "getXmlAttribute child ''role'' \<noteq> []"
    and "mRole port = AUDIO_PORT_ROLE_SOURCE \<longleftrightarrow> getXmlAttribute child ''role'' = ''source''"
    and "mRole port = AUDIO_PORT_ROLE_SINK \<longleftrightarrow> getXmlAttribute child ''role'' \<noteq> ''source''"
    by (simp_all split: if_splits)
next
  show "(\<exists>device t'. DevicePortTraits_deserialize ext cur () t = (Inr device, t')) \<longleftrightarrow>
      getXmlAttribute cur ''tagName'' \<noteq> [] \<and> getXmlAttribute cur ''type'' \<noteq> [] \<and>
      getXmlAttribute cur ''role'' \<noteq> [] \<and>
      (\<exists>type. deviceFromString ext (getXmlAttribute cur ''type'') = Some type \<and>
         (if getXmlAttribute cur ''role'' = ''source'' then audio_is_input_device ext type
          else audio_is_output_devices ext type))"
    by (rule DevicePort_accepts)
next
  assume "DevicePortTraits_deserialize ext cur () t = (Inr device, t') \<and>
    (\<forall>ty. \<not> (audio_is_input_device ext ty \<and> audio_is_output_devices ext ty))"
  then have "getXmlAttribute cur ''role'' \<noteq> [] \<and>
     mRole device = (if getXmlAttribute cur ''role'' = ''source''
                 then AUDIO_PORT_ROLE_SOURCE else AUDIO_PORT_ROLE_SINK)"
    using DevicePort_role [of ext cur t device t'] by blast
  then show "getXmlAttribute cur ''role'' \<noteq> []"
    and "mRole device = AUDIO_PORT_ROLE_SOURCE \<longleftrightarrow> getXmlAttribute cur ''role'' = ''source''"
    and "mRole device = AUDIO_PORT_ROLE_SINK \<longleftrightarrow> getXmlAttribute cur ''role'' \<noteq> ''source''"
    by (simp_all split: if_splits)
next
  assume a: "xml_children n' = xml_children n \<and>
    (\<forall>a. a \<noteq> ''role'' \<longrightarrow> getXmlAttribute n' a = getXmlAttribute n a) \<and>
    getXmlAttribute n ''role'' \<notin> {[], ''source''} \<and>
    getXmlAttribute n' ''role'' \<notin> {[], ''source''}"
  show "MixPortTraits_deserialize ext n' () u = MixPortTraits_deserialize ext n () u"
    by (rule MixPort_same) (use a in blast)+
  show "DevicePortTraits_deserialize ext n' () u = DevicePortTraits_deserialize ext n () u"
    by (rule DevicePort_same) (use a in blast)+
qed

lemma example_odd_role_port:
  "MixPortTraits_deserialize example_externs odd_role_port () example_globals =
   (Inr ((new_IOProfile ''primary input'' AUDIO_PORT_ROLE_SINK)
           \<lparr>mProfiles := [createFullDynamic 0]\<rparr>), example_globals)"
  by (simp add: eval_defs example_externs_def odd_role_port_def)

text \<open>
  A mix port with the role \<open>input\<close> and a device port of an output type with the role
  \<open>output\<close> are parsed as sinks; the mix port is parsed as it would be with the role
  \<open>sink\<close>.
\<close>

theorem port_role_from_role_attribute_witness:
  "getXmlAttribute odd_role_port ''role'' = ''input'' \<and>
   (\<exists>port. MixPortTraits_deserialize example_externs odd_role_port () example_globals =
      (Inr port, example_globals) \<and> mRole port = AUDIO_PORT_ROLE_SINK) \<and>
   MixPortTraits_deserialize example_externs
     (element ''mixPort'' [(''name'', ''primary input''), (''role'', ''sink'')] []) ()
     example_globals =
   MixPortTraits_deserialize example_externs odd_role_port () example_globals \<and>
   getXmlAttribute odd_role_device ''role'' = ''output'' \<and>
   (\<exists>device t'. DevicePortTraits_deserialize example_externs odd_role_device ()
      example_globals = (Inr device, t') \<and> mRole device = AUDIO_PORT_ROLE_SINK)"
proof -
  let ?p = "(new_IOProfile ''primary input'' AUDIO_PORT_ROLE_SINK)
           \<lparr>mProfiles := [createFullDynamic 0]\<rparr>"
  let ?n' = "element ''mixPort'' [(''name'', ''primary input''), (''role'', ''sink'')] []"
  have r: "getXmlAttribute odd_role_port ''role'' = ''input''"
    by (simp add: odd_role_port_def element_def getXmlAttribute_def)
  have same: "xml_children ?n' = xml_children odd_role_port \<and>
    (\<forall>a. a \<noteq> ''role'' \<longrightarrow> getXmlAttribute ?n' a = getXmlAttribute odd_role_port a) \<and>
    getXmlAttribute odd_role_port ''role'' \<notin> {[], ''source''} \<and>
    getXmlAttribute ?n' ''role'' \<notin> {[], ''source''}"
    by (simp add: odd_role_port_def element_def getXmlAttribute_def)
  note inst = port_role_from_role_attribute
    [where ext = example_externs and child = odd_role_port and s = example_globals
      and port = "?p" and s' = example_globals and n = odd_role_port and n' = "?n'"
      and u = example_globals and cur = odd_role_device and t = example_globals]
  note mix_role = inst [THEN conjunct2, THEN conjunct1, THEN mp, OF example_odd_role_port]
  have "mRole ?p = AUDIO_PORT_ROLE_SINK"
    using mix_role r by simp
  then have mix: "\<exists>port. MixPortTraits_deserialize example_externs odd_role_port ()
      example_globals = (Inr port, example_globals) \<and> mRole port = AUDIO_PORT_ROLE_SINK"
    using example_odd_role_port by (intro exI [of _ "?p"] conjI)
  have eq: "MixPortTraits_deserialize example_externs ?n' () example_globals =
      MixPortTraits_deserialize example_externs odd_role_port () example_globals"
    using inst [THEN conjunct2, THEN conjunct2, THEN conjunct2, THEN conjunct2, THEN mp, OF same]
    by (rule conjunct1)
  have dr: "getXmlAttribute odd_role_device ''role'' = ''output''"
    by (simp add: odd_role_device_def element_def getXmlAttribute_def)
  have attrs: "getXmlAttribute odd_role_device ''tagName'' \<noteq> [] \<and>
      getXmlAttribute odd_role_device ''type'' \<noteq> [] \<and>
      getXmlAttribute odd_role_device ''role'' \<noteq> [] \<and>
      (\<exists>type. deviceFromString example_externs (getXmlAttribute odd_role_device ''type'') =
         Some type \<and>
         (if getXmlAttribute odd_role_device ''role'' = ''source''
          then audio_is_input_device example_externs type
          else audio_is_output_devices example_externs type))"
    by (simp add: odd_role_device_def element_def getXmlAttribute_def example_externs_def)
  from inst [THEN conjunct2, THEN conjunct2, THEN conjunct1, THEN iffD2, OF attrs]
  obtain device t' where d: "DevicePortTraits_deserialize example_externs odd_role_device ()
      example_globals = (Inr device, t')"
    by (elim exE)
  have excl: "\<forall>ty. \<not> (audio_is_input_device example_externs ty \<and>
      audio_is_output_devices example_externs ty)"
    by (simp add: example_externs_def not_less)
  note dev_role = port_role_from_role_attribute
    [where ext = example_externs and cur = odd_role_device and t = example_globals
      and device = device and t' = t',
      THEN conjunct2, THEN conjunct2, THEN conjunct2, THEN conjunct1, THEN mp,
      OF conjI [OF d excl]]
  have "mRole device = AUDIO_PORT_ROLE_SINK"
    using dev_role dr by simp
  then have dev: "\<exists>device t'. DevicePortTraits_deserialize example_externs odd_role_device ()
      example_globals = (Inr device, t') \<and> mRole device = AUDIO_PORT_ROLE_SINK"
    using d by (intro exI [of _ device] exI [of _ t'] conjI)
  show ?thesis
    using r mix eq dr dev by (intro conjI)
qed

section \<open>Routes\<close>

lemma addRoute_other [simp]:
  "index (addRoute h r s) = index s"
  "fixedEarpieceChannels (addRoute h r s) = fixedEarpieceChannels s"
  "forceDisableA2dpOffload (addRoute h r s) = forceDisableA2dpOffload s"
  "config (addRoute h r s) = config s"
  "length (ports (addRoute h r s)) = length (ports s)"
  by (simp_all add: addRoute_def)

lemma addRoute_tag [simp]: "getTagName (addRoute h r s) k = getTagName s k"
  by (cases "k = h"; cases "h < length (ports s)")
    (simp_all add: addRoute_def getTagName_def list_update_beyond)

lemma addRoute_nth:
  "k < length (ports s) \<Longrightarrow>
   ports (addRoute h r s) ! k =
     (ports s ! k)\<lparr>mRoutes := mRoutes (ports s ! k) @ (if k = h then [r] else [])\<rparr>"
  by (simp add: addRoute_def)

lemma fold_addRoute_other [simp]:
  "index (fold (\<lambda>h. addRoute h r) hs s) = index s"
  "fixedEarpieceChannels (fold (\<lambda>h. addRoute h r) hs s) = fixedEarpieceChannels s"
  "forceDisableA2dpOffload (fold (\<lambda>h. addRoute h r) hs s) = forceDisableA2dpOffload s"
  "config (fold (\<lambda>h. addRoute h r) hs s) = config s"
  "length (ports (fold (\<lambda>h. addRoute h r) hs s)) = length (ports s)"
  by (induction hs arbitrary: s) simp_all

lemma fold_addRoute_tag [simp]:
  "getTagName (fold (\<lambda>h. addRoute h r) hs s) k = getTagName s k"
  by (induction hs arbitrary: s) simp_all

lemma fold_addRoute_nth:
  "k < length (ports s) \<Longrightarrow>
   ports (fold (\<lambda>h. addRoute h r) hs s) ! k =
     (ports s ! k)\<lparr>mRoutes := mRoutes (ports s ! k) @ replicate (count_list hs k) r\<rparr>"
proof (induction hs arbitrary: s)
  case Nil
  then show ?case by simp
next
  case (Cons h hs)
  then show ?case
    by (simp add: addRoute_nth replicate_app_Cons_same)
qed

lemma findPortByTagName_Some:
  "findPortByTagName ctx s n = Some h \<Longrightarrow> h \<in> set (mPorts ctx) \<and> getTagName s h = n"
  by (auto simp add: findPortByTagName_def find_Some_iff)

lemma resolveSource_subset: "set (resolveSource ctx s devTag) \<subseteq> set (mPorts ctx)"
  using findPortByTagName_Some [of ctx s]
  by (fastforce simp add: resolveSource_def split: option.splits)

lemma RouteTraits_accepts:
  assumes "getXmlAttribute cur ''type'' \<noteq> []" "getXmlAttribute cur ''sink'' \<noteq> []"
    "getXmlAttribute cur ''sources'' \<noteq> []"
    "findPortByTagName ctx s (getXmlAttribute cur ''sink'') = Some sink"
  shows "RouteTraits_deserialize cur ctx s =
    (let route = \<lparr>mType = (if getXmlAttribute cur ''type'' = ''mix'' then AUDIO_ROUTE_MIX else AUDIO_ROUTE_MUX),
        mSink = sink,
        mSources = concat (map (resolveSource ctx s)
                 (strtok_all CHR '','' [] (getXmlAttribute cur ''sources'')))\<rparr>
     in (Inr route, fold (\<lambda>source. addRoute source route) (sink # mSources route) s))"
  using assms by (simp add: RouteTraits_deserialize_def Let_def)

lemma RouteTraits_rejects:
  "getXmlAttribute cur ''type'' = [] \<or> getXmlAttribute cur ''sink'' = [] \<or>
   getXmlAttribute cur ''sources'' = [] \<or>
   findPortByTagName ctx s (getXmlAttribute cur ''sink'') = None \<Longrightarrow>
   RouteTraits_deserialize cur ctx s = (Inl BAD_VALUE, s)"
  by (auto simp add: RouteTraits_deserialize_def Let_def split: option.splits)

text \<open>
  C3. A route element without a type, a sink or a sources attribute (absent or empty)
  fails, and so does a route whose sink name resolves to no port registered with the
  module; in both cases nothing has changed, and the walk over the routes goes on without
  the route. A source token resolves to the port of that name, or else to the port of
  the trimmed name, and to nothing if neither is registered. A route with a type, a sink
  name that resolves and a non-empty sources attribute is accepted: it is a mix route
  exactly when the type is \<open>mix\<close>, its sink is the port of that name, its sources are, in
  order, the ports that the tokens of the sources attribute resolve to, a token that does
  not resolve contributing nothing, so that the list may be empty. After that the sink
  and every source hold a back-link to the route: each port of the store has gained the
  route as many times as it occurs among the sink and the sources, and nothing else has
  changed.
\<close>

theorem RouteTraits_deserialize_resolution:
  "(getXmlAttribute cur ''type'' = [] \<or> getXmlAttribute cur ''sink'' = [] \<or>
    getXmlAttribute cur ''sources'' = [] \<or>
    findPortByTagName ctx s (getXmlAttribute cur ''sink'') = None \<longrightarrow>
      RouteTraits_deserialize cur ctx s = (Inl BAD_VALUE, s) \<and>
      (xml_name cur = ''route'' \<longrightarrow>
         deserializeCollection_inner RouteTraits ctx (cur # rest) c s =
         deserializeCollection_inner RouteTraits ctx rest c s)) \<and>
   (findPortByTagName ctx s devTag = Some port \<longrightarrow> resolveSource ctx s devTag = [port]) \<and>
   (findPortByTagName ctx s devTag = None \<and>
    findPortByTagName ctx s (trim devTag) = Some port \<longrightarrow>
      resolveSource ctx s devTag = [port]) \<and>
   (findPortByTagName ctx s devTag = None \<and> findPortByTagName ctx s (trim devTag) = None \<longrightarrow>
      resolveSource ctx s devTag = []) \<and>
   (getXmlAttribute cur ''type'' \<noteq> [] \<and> getXmlAttribute cur ''sink'' \<noteq> [] \<and>
    getXmlAttribute cur ''sources'' \<noteq> [] \<and>
    findPortByTagName ctx s (getXmlAttribute cur ''sink'') = Some sink \<and>
    (\<forall>h \<in> set (mPorts ctx). h < length (ports s)) \<longrightarrow>
      (\<exists>route s'. RouteTraits_deserialize cur ctx s = (Inr route, s') \<and>
         (mType route = AUDIO_ROUTE_MIX \<longleftrightarrow> getXmlAttribute cur ''type'' = ''mix'') \<and>
         mSink route = sink \<and> getTagName s sink = getXmlAttribute cur ''sink'' \<and>
         mSources route =
           concat (map (resolveSource ctx s)
             (strtok_all CHR '','' [] (getXmlAttribute cur ''sources''))) \<and>
         route \<in> set (mRoutes (ports s' ! sink)) \<and>
         (\<forall>source \<in> set (mSources route). route \<in> set (mRoutes (ports s' ! source))) \<and>
         length (ports s') = length (ports s) \<and>
         (\<forall>h < length (ports s). ports s' ! h =
            (ports s ! h)\<lparr>mRoutes := mRoutes (ports s ! h) @
               replicate (count_list (sink # mSources route) h) route\<rparr>) \<and>
         index s' = index s \<and> config s' = config s))"
proof (intro conjI impI)
  assume a: "getXmlAttribute cur ''type'' = [] \<or> getXmlAttribute cur ''sink'' = [] \<or>
    getXmlAttribute cur ''sources'' = [] \<or>
    findPortByTagName ctx s (getXmlAttribute cur ''sink'') = None"
  show r: "RouteTraits_deserialize cur ctx s = (Inl BAD_VALUE, s)"
    using a by (rule RouteTraits_rejects)
  assume "xml_name cur = ''route''"
  then show "deserializeCollection_inner RouteTraits ctx (cur # rest) c s =
         deserializeCollection_inner RouteTraits ctx rest c s"
    using r by (simp add: RouteTraits_def)
next
  assume "findPortByTagName ctx s devTag = Some port"
  then show "resolveSource ctx s devTag = [port]"
    by (simp add: resolveSource_def)
next
  assume "findPortByTagName ctx s devTag = None \<and>
    findPortByTagName ctx s (trim devTag) = Some port"
  then show "resolveSource ctx s devTag = [port]"
    by (simp add: resolveSource_def)
next
  assume "findPortByTagName ctx s devTag = None \<and> findPortByTagName ctx s (trim devTag) = None"
  then show "resolveSource ctx s devTag = []"
    by (simp add: resolveSource_def)
next
  assume a: "getXmlAttribute cur ''type'' \<noteq> [] \<and> getXmlAttribute cur ''sink'' \<noteq> [] \<and>
    getXmlAttribute cur ''sources'' \<noteq> [] \<and>
    findPortByTagName ctx s (getXmlAttribute cur ''sink'') = Some sink \<and>
    (\<forall>h \<in> set (mPorts ctx). h < length (ports s))"
  define sources where "sources =
    concat (map (resolveSource ctx s) (strtok_all CHR '','' [] (getXmlAttribute cur ''sources'')))"
  define route where "route =
    \<lparr>mType = (if getXmlAttribute cur ''type'' = ''mix'' then AUDIO_ROUTE_MIX
               else AUDIO_ROUTE_MUX), mSink = sink, mSources = sources\<rparr>"
  define s' where "s' = fold (\<lambda>source. addRoute source route) (sink # sources) s"
  have res: "RouteTraits_deserialize cur ctx s = (Inr route, s')"
    using a RouteTraits_accepts [of cur ctx s sink]
    by (simp add: Let_def route_def sources_def s'_def)
  have sink: "sink \<in> set (mPorts ctx)" "getTagName s sink = getXmlAttribute cur ''sink''"
    using a findPortByTagName_Some by blast+
  have srcs: "set sources \<subseteq> set (mPorts ctx)"
    using resolveSource_subset by (fastforce simp add: sources_def)
  have valid: "\<forall>h \<in> set (sink # sources). h < length (ports s)"
    using a sink srcs by auto
  have nth: "\<forall>h < length (ports s). ports s' ! h =
      (ports s ! h)\<lparr>mRoutes := mRoutes (ports s ! h) @
         replicate (count_list (sink # sources) h) route\<rparr>"
    unfolding s'_def using fold_addRoute_nth by blast
  have blink: "route \<in> set (mRoutes (ports s' ! h))" if "h \<in> set (sink # sources)" for h
  proof -
    have "0 < count_list (sink # sources) h"
      using that count_list_0_iff [of "sink # sources" h] by simp
    moreover have "h < length (ports s)"
      using valid that by blast
    ultimately show ?thesis
      using nth by auto
  qed
  have "(mType route = AUDIO_ROUTE_MIX \<longleftrightarrow> getXmlAttribute cur ''type'' = ''mix'') \<and>
         mSink route = sink \<and> getTagName s sink = getXmlAttribute cur ''sink'' \<and>
         mSources route =
           concat (map (resolveSource ctx s)
             (strtok_all CHR '','' [] (getXmlAttribute cur ''sources''))) \<and>
         route \<in> set (mRoutes (ports s' ! sink)) \<and>
         (\<forall>source \<in> set (mSources route). route \<in> set (mRoutes (ports s' ! source))) \<and>
         length (ports s') = length (ports s) \<and>
         (\<forall>h < length (ports s). ports s' ! h =
            (ports s ! h)\<lparr>mRoutes := mRoutes (ports s ! h) @
               replicate (count_list (sink # mSources route) h) route\<rparr>) \<and>
         index s' = index s \<and> config s' = config s"
    using sink blink nth by (simp add: route_def sources_def [symmetric] s'_def)
  with res show "\<exists>route s'. RouteTraits_deserialize cur ctx s = (Inr route, s') \<and>
         (mType route = AUDIO_ROUTE_MIX \<longleftrightarrow> getXmlAttribute cur ''type'' = ''mix'') \<and>
         mSink route = sink \<and> getTagName s sink = getXmlAttribute cur ''sink'' \<and>
         mSources route =
           concat (map (resolveSource ctx s)
             (strtok_all CHR '','' [] (getXmlAttribute cur ''sources''))) \<and>
         route \<in> set (mRoutes (ports s' ! sink)) \<and>
         (\<forall>source \<in> set (mSources route). route \<in> set (mRoutes (ports s' ! source))) \<and>
         length (ports s') = length (ports s) \<and>
         (\<forall>h < length (ports s). ports s' ! h =
            (ports s ! h)\<lparr>mRoutes := mRoutes (ports s ! h) @
               replicate (count_list (sink # mSources route) h) route\<rparr>) \<and>
         index s' = index s \<and> config s' = config s"
    by blast
qed

lemmas route_eval_defs =
  RouteTraits_deserialize_def getXmlAttribute_def element_def findPortByTagName_def
  getTagName_def resolveSource_def trim_def isspace_def addRoute_def
  new_IOProfile_def new_DeviceDescriptor_def new_HwModule_def

theorem RouteTraits_deserialize_resolution_witness:
  "findPortByTagName example_module example_store ''Speaker'' = Some 1 \<and>
   findPortByTagName example_module example_store ''deep_buffer'' = None \<and>
   (\<exists>s'. RouteTraits_deserialize speaker_route example_module example_store =
      (Inr \<lparr>mType = AUDIO_ROUTE_MIX, mSink = 1, mSources = [0]\<rparr>, s') \<and>
      map mRoutes (ports s') =
        [[\<lparr>mType = AUDIO_ROUTE_MIX, mSink = 1, mSources = [0]\<rparr>],
         [\<lparr>mType = AUDIO_ROUTE_MIX, mSink = 1, mSources = [0]\<rparr>]]) \<and>
   (\<exists>s'. RouteTraits_deserialize unresolved_sources_route example_module example_store =
      (Inr \<lparr>mType = AUDIO_ROUTE_MIX, mSink = 1, mSources = []\<rparr>, s') \<and>
      map mRoutes (ports s') = [[], [\<lparr>mType = AUDIO_ROUTE_MIX, mSink = 1, mSources = []\<rparr>]]) \<and>
   RouteTraits_deserialize unresolved_sink_route example_module example_store =
     (Inl BAD_VALUE, example_store) \<and>
   deserializeCollection_inner RouteTraits example_module
     [unresolved_sink_route, speaker_route] [] example_store =
   deserializeCollection_inner RouteTraits example_module [speaker_route] [] example_store"
proof -
  have f: "findPortByTagName example_module example_store ''Speaker'' = Some 1"
    "findPortByTagName example_module example_store ''deep_buffer'' = None"
    by (simp_all add: route_eval_defs example_module_def example_store_def
        example_externs_def example_globals_def)
  have attrs: "getXmlAttribute speaker_route ''type'' = ''mix''"
    "getXmlAttribute speaker_route ''sink'' = ''Speaker''"
    "getXmlAttribute speaker_route ''sources'' = ''primary output,deep_buffer''"
    by (simp_all add: speaker_route_def element_def getXmlAttribute_def)
  have toks: "strtok_all CHR '','' [] ''primary output,deep_buffer'' =
      [''primary output'', ''deep_buffer'']"
    by simp
  have src: "resolveSource example_module example_store ''primary output'' = [0]"
    "resolveSource example_module example_store ''deep_buffer'' = []"
    by (simp_all add: route_eval_defs example_module_def example_store_def
        example_externs_def example_globals_def)
  have valid: "\<forall>h \<in> set (mPorts example_module). h < length (ports example_store)"
    by (simp add: example_module_def example_store_def)
  have len: "length (ports example_store) = 2" "map mRoutes (ports example_store) = [[], []]"
    by (simp_all add: example_store_def new_IOProfile_def new_DeviceDescriptor_def)
  have hyp: "getXmlAttribute speaker_route ''type'' \<noteq> [] \<and>
    getXmlAttribute speaker_route ''sink'' \<noteq> [] \<and>
    getXmlAttribute speaker_route ''sources'' \<noteq> [] \<and>
    findPortByTagName example_module example_store (getXmlAttribute speaker_route ''sink'') =
      Some 1 \<and>
    (\<forall>h \<in> set (mPorts example_module). h < length (ports example_store))"
    using f valid by (simp add: attrs)
  from RouteTraits_deserialize_resolution
    [where ctx = example_module and s = example_store and cur = speaker_route and sink = 1,
      THEN conjunct2, THEN conjunct2, THEN conjunct2, THEN conjunct2, rule_format, OF hyp]
  obtain route s' where r0:
    "RouteTraits_deserialize speaker_route example_module example_store = (Inr route, s')"
    "mSink route = 1"
    "mSources route = concat (map (resolveSource example_module example_store)
       (strtok_all CHR '','' [] (getXmlAttribute speaker_route ''sources'')))"
    "length (ports s') = length (ports example_store)"
    "\<forall>h < length (ports example_store). ports s' ! h = (ports example_store ! h)
       \<lparr>mRoutes := mRoutes (ports example_store ! h) @
          replicate (count_list (1 # mSources route) h) route\<rparr>"
    by blast
  have r: "mSources route = [0]" "length (ports s') = 2"
    using r0(3,4) by (simp_all add: attrs toks src len del: strtok_all.simps)
  have r1: "RouteTraits_deserialize speaker_route example_module example_store =
      (Inr route, s')" "mSink route = 1"
    using r0 by simp_all
  have ty: "mType route = AUDIO_ROUTE_MIX"
    using r1(1) by (auto simp add: RouteTraits_deserialize_def Let_def attrs
        split: option.splits)
  have route: "route = \<lparr>mType = AUDIO_ROUTE_MIX, mSink = 1, mSources = [0]\<rparr>"
    using r1(2) r(1) ty by simp
  have n0: "mRoutes (ports s' ! 0) = [route]" and n1: "mRoutes (ports s' ! 1) = [route]"
    using r0(5) r(1) by (simp_all add: example_store_def new_IOProfile_def
        new_DeviceDescriptor_def)
  obtain p0 p1 where ps: "ports s' = [p0, p1]"
    using r(2) by (metis One_nat_def Suc_1 length_0_conv length_Suc_conv)
  have blinks: "map mRoutes (ports s') = [[route], [route]]"
    using n0 n1 by (simp add: ps)
  have second: "\<exists>s'. RouteTraits_deserialize unresolved_sources_route example_module
        example_store = (Inr \<lparr>mType = AUDIO_ROUTE_MIX, mSink = 1, mSources = []\<rparr>, s') \<and>
      map mRoutes (ports s') = [[], [\<lparr>mType = AUDIO_ROUTE_MIX, mSink = 1, mSources = []\<rparr>]]"
    by (simp add: route_eval_defs unresolved_sources_route_def example_module_def
        example_store_def example_externs_def example_globals_def Let_def)
  have first: "\<exists>s'. RouteTraits_deserialize speaker_route example_module example_store =
      (Inr \<lparr>mType = AUDIO_ROUTE_MIX, mSink = 1, mSources = [0]\<rparr>, s') \<and>
      map mRoutes (ports s') =
        [[\<lparr>mType = AUDIO_ROUTE_MIX, mSink = 1, mSources = [0]\<rparr>],
         [\<lparr>mType = AUDIO_ROUTE_MIX, mSink = 1, mSources = [0]\<rparr>]]"
    using r1(1) blinks unfolding route by (intro exI [of _ s'] conjI)
  have none: "getXmlAttribute unresolved_sink_route ''type'' = [] \<or>
    getXmlAttribute unresolved_sink_route ''sink'' = [] \<or>
    getXmlAttribute unresolved_sink_route ''sources'' = [] \<or>
    findPortByTagName example_module example_store
      (getXmlAttribute unresolved_sink_route ''sink'') = None"
    by (simp add: route_eval_defs unresolved_sink_route_def example_module_def
        example_store_def example_externs_def example_globals_def)
  have name: "xml_name unresolved_sink_route = ''route''"
    by (simp add: unresolved_sink_route_def element_def)
  note rej = RouteTraits_deserialize_resolution
    [where ctx = example_module and s = example_store and cur = unresolved_sink_route
      and rest = "[speaker_route]" and c = "[]", THEN conjunct1, THEN mp, OF none]
  note third = rej [THEN conjunct1]
  note fourth = rej [THEN conjunct2, THEN mp, OF name]
  show ?thesis
    by (intro conjI f first second third fourth)
qed

text \<open>
  With the sink \<open>Speaker\<close> registered, a route without a sources attribute, a route
  whose sources attribute is empty and a route without a type, whose one source does not
  resolve, all fail.
\<close>

theorem route_without_sources_counterexample:
  "findPortByTagName example_module example_store ''Speaker'' = Some 1 \<and>
   RouteTraits_deserialize no_sources_route example_module example_store =
     (Inl BAD_VALUE, example_store) \<and>
   RouteTraits_deserialize empty_sources_route example_module example_store =
     (Inl BAD_VALUE, example_store) \<and>
   RouteTraits_deserialize no_type_route example_module example_store =
     (Inl BAD_VALUE, example_store)"
  by (simp add: route_eval_defs no_sources_route_def empty_sources_route_def
      no_type_route_def example_module_def example_store_def example_externs_def
      example_globals_def Let_def)



section \<open>The BT SCO route fix\<close>

lemma scanRoutes_no_sco:
  "\<forall>r \<in> set routes. \<not> (mType r = AUDIO_ROUTE_MIX \<and> getTagName s (mSink r) = ''BT SCO Headset'') \<Longrightarrow>
   scanRoutes s routes (a, b, c) =
     (a \<or> (\<exists>r \<in> set routes. mType r = AUDIO_ROUTE_MIX \<and>
               getTagName s (mSink r) = ''Telephony Tx''),
      b \<or> (\<exists>r \<in> set routes. mType r = AUDIO_ROUTE_MIX \<and>
               getTagName s (mSink r) \<noteq> ''Telephony Tx'' \<and>
               (\<exists>source \<in> set (mSources r). getTagName s source = ''BT SCO Headset Mic'')),
      c)"
proof (induction routes arbitrary: a b)
  case Nil
  then show ?case by simp
next
  case (Cons r routes)
  then show ?case by auto
qed

lemma scanRoutes_sco:
  "\<exists>r \<in> set routes. mType r = AUDIO_ROUTE_MIX \<and> getTagName s (mSink r) = ''BT SCO Headset'' \<Longrightarrow>
   snd (snd (scanRoutes s routes (a, b, c)))"
proof (induction routes arbitrary: a b)
  case Nil
  then show ?case by simp
next
  case (Cons r routes)
  then show ?case by auto
qed

lemma fixupSources_eq:
  "fixupSources ctx names s =
   concat (map (\<lambda>n. case findPortByTagName ctx s n of Some h \<Rightarrow> [h] | None \<Rightarrow> []) names)"
  by (induction names) (simp_all split: option.splits)

lemma fixup_unchanged:
  assumes "\<not> ((\<exists>device \<in> set devicePorts. mTagName device = ''BT SCO Headset'') \<and>
      (\<exists>r \<in> set routes. mType r = AUDIO_ROUTE_MIX \<and> getTagName s (mSink r) = ''Telephony Tx'') \<and>
      (\<exists>r \<in> set routes. mType r = AUDIO_ROUTE_MIX \<and>
               getTagName s (mSink r) \<noteq> ''Telephony Tx'' \<and>
               (\<exists>source \<in> set (mSources r). getTagName s source = ''BT SCO Headset Mic'')) \<and>
      \<not> (\<exists>r \<in> set routes. mType r = AUDIO_ROUTE_MIX \<and>
               getTagName s (mSink r) = ''BT SCO Headset''))"
  shows "fixupQualcommBtScoRoute routes devicePorts ctx s = (NO_ERROR, routes, s)"
proof (cases "\<exists>r \<in> set routes. mType r = AUDIO_ROUTE_MIX \<and>
               getTagName s (mSink r) = ''BT SCO Headset''")
  case True
  from scanRoutes_sco [OF this, of False False False]
  show ?thesis
    by (auto simp add: fixupQualcommBtScoRoute_def split: prod.splits)
next
  case False
  then have "\<forall>r \<in> set routes. \<not> (mType r = AUDIO_ROUTE_MIX \<and> getTagName s (mSink r) = ''BT SCO Headset'')"
    by blast
  from scanRoutes_no_sco [OF this, of False False False] assms False
  show ?thesis
    by (auto simp add: fixupQualcommBtScoRoute_def split: prod.splits)
qed

lemma fixup_adds:
  assumes "\<exists>device \<in> set devicePorts. mTagName device = ''BT SCO Headset''"
     "\<exists>r \<in> set routes. mType r = AUDIO_ROUTE_MIX \<and> getTagName s (mSink r) = ''Telephony Tx''"
     "\<exists>r \<in> set routes. mType r = AUDIO_ROUTE_MIX \<and>
               getTagName s (mSink r) \<noteq> ''Telephony Tx'' \<and>
               (\<exists>source \<in> set (mSources r). getTagName s source = ''BT SCO Headset Mic'')"
     "\<not> (\<exists>r \<in> set routes. mType r = AUDIO_ROUTE_MIX \<and>
               getTagName s (mSink r) = ''BT SCO Headset'')"
     "findPortByTagName ctx s ''BT SCO Headset'' = Some sink"
  shows "fixupQualcommBtScoRoute routes devicePorts ctx s =
    (let newRoute = \<lparr>mType = AUDIO_ROUTE_MIX, mSink = sink,
           mSources = fixupSources ctx
            [''primary output'', ''deep_buffer'', ''compressed_offload'', ''Telephony Rx''] s\<rparr>
     in (NO_ERROR, routes @ [newRoute],
         addRoute sink newRoute (fold (\<lambda>source. addRoute source newRoute) (mSources newRoute) s)))"
proof -
  have "\<forall>r \<in> set routes. \<not> (mType r = AUDIO_ROUTE_MIX \<and> getTagName s (mSink r) = ''BT SCO Headset'')"
    using assms(4) by blast
  from scanRoutes_no_sco [OF this, of False False False] assms
  show ?thesis
    by (simp add: fixupQualcommBtScoRoute_def Let_def Vector_add_def del: fixupSources.simps)
qed

text \<open>
  C6, as the code has it. \<open>fixupQualcommBtScoRoute\<close> looks at routes of type mix only.
  It adds one mix route, at the end of the routes, precisely when four conditions hold: a
  device port tagged \<open>BT SCO Headset\<close> is among the device ports; some mix route has
  the sink \<open>Telephony Tx\<close>; some mix route with another sink than
  \<open>Telephony Tx\<close> has a source tagged \<open>BT SCO Headset Mic\<close>; no mix route has the
  sink \<open>BT SCO Headset\<close>. The sink of the new route is the port of the module
  tagged \<open>BT SCO Headset\<close>, its sources are those of \<open>primary output\<close>,
  \<open>deep_buffer\<close>, \<open>compressed_offload\<close>, \<open>Telephony Rx\<close> that are ports
  of the module, in this order. Otherwise routes and state are unchanged. In every case
  the routes that were there stay, in their order, and at most one is added.
\<close>

theorem fixupQualcommBtScoRoute_adds_iff:
  "(let device = (\<exists>device \<in> set devicePorts. mTagName device = ''BT SCO Headset'');
        telephony = (\<exists>r \<in> set routes. mType r = AUDIO_ROUTE_MIX \<and>
                       getTagName s (mSink r) = ''Telephony Tx'');
        mic = (\<exists>r \<in> set routes. mType r = AUDIO_ROUTE_MIX \<and>
                 getTagName s (mSink r) \<noteq> ''Telephony Tx'' \<and>
                 (\<exists>source \<in> set (mSources r). getTagName s source = ''BT SCO Headset Mic''));
        sco = (\<exists>r \<in> set routes. mType r = AUDIO_ROUTE_MIX \<and>
                 getTagName s (mSink r) = ''BT SCO Headset'');
        sources = concat (map (\<lambda>n. case findPortByTagName ctx s n of
                                      Some h \<Rightarrow> [h] | None \<Rightarrow> [])
                    [''primary output'', ''deep_buffer'', ''compressed_offload'',
                     ''Telephony Rx''])
    in (device \<and> telephony \<and> mic \<and> \<not> sco \<and>
        findPortByTagName ctx s ''BT SCO Headset'' = Some sink \<longrightarrow>
          fixupQualcommBtScoRoute routes devicePorts ctx s =
            (NO_ERROR,
             routes @ [\<lparr>mType = AUDIO_ROUTE_MIX, mSink = sink, mSources = sources\<rparr>],
             addRoute sink \<lparr>mType = AUDIO_ROUTE_MIX, mSink = sink, mSources = sources\<rparr>
               (fold (\<lambda>source. addRoute source
                        \<lparr>mType = AUDIO_ROUTE_MIX, mSink = sink, mSources = sources\<rparr>)
                  sources s))) \<and>
       (\<not> (device \<and> telephony \<and> mic \<and> \<not> sco) \<longrightarrow>
          fixupQualcommBtScoRoute routes devicePorts ctx s = (NO_ERROR, routes, s))) \<and>
   (\<exists>extra. fst (snd (fixupQualcommBtScoRoute routes devicePorts ctx s)) = routes @ extra \<and>
      length extra \<le> 1)"
proof -
  let ?cond = "(\<exists>device \<in> set devicePorts. mTagName device = ''BT SCO Headset'') \<and>
      (\<exists>r \<in> set routes. mType r = AUDIO_ROUTE_MIX \<and> getTagName s (mSink r) = ''Telephony Tx'') \<and>
      (\<exists>r \<in> set routes. mType r = AUDIO_ROUTE_MIX \<and>
               getTagName s (mSink r) \<noteq> ''Telephony Tx'' \<and>
               (\<exists>source \<in> set (mSources r). getTagName s source = ''BT SCO Headset Mic'')) \<and>
      \<not> (\<exists>r \<in> set routes. mType r = AUDIO_ROUTE_MIX \<and>
               getTagName s (mSink r) = ''BT SCO Headset'')"
  have adds: "fixupQualcommBtScoRoute routes devicePorts ctx s =
    (let newRoute = \<lparr>mType = AUDIO_ROUTE_MIX, mSink = h,
           mSources = fixupSources ctx
            [''primary output'', ''deep_buffer'', ''compressed_offload'', ''Telephony Rx''] s\<rparr>
     in (NO_ERROR, routes @ [newRoute],
         addRoute h newRoute (fold (\<lambda>source. addRoute source newRoute) (mSources newRoute) s)))"
    if "?cond" "findPortByTagName ctx s ''BT SCO Headset'' = Some h" for h
    using that by (intro fixup_adds) blast+
  have same: "fixupQualcommBtScoRoute routes devicePorts ctx s = (NO_ERROR, routes, s)"
    if "\<not> ?cond"
    using that by (rule fixup_unchanged)
  have prefix: "\<exists>extra. fst (snd (fixupQualcommBtScoRoute routes devicePorts ctx s)) =
      routes @ extra \<and> length extra \<le> 1"
  proof (cases ?cond)
    case False
    then show ?thesis using same by simp
  next
    case True
    show ?thesis
    proof (cases "findPortByTagName ctx s ''BT SCO Headset''")
      case None
      have "\<forall>r \<in> set routes. \<not> (mType r = AUDIO_ROUTE_MIX \<and>
          getTagName s (mSink r) = ''BT SCO Headset'')"
        using True by blast
      from scanRoutes_no_sco [OF this, of False False False] True None
      have "fst (snd (fixupQualcommBtScoRoute routes devicePorts ctx s)) = routes"
        by (simp add: fixupQualcommBtScoRoute_def Let_def del: fixupSources.simps)
      then show ?thesis by simp
    next
      case (Some h)
      from adds [OF True Some] show ?thesis
        by (simp add: Let_def del: fixupSources.simps)
    qed
  qed
  show ?thesis
    unfolding Let_def fixupSources_eq [symmetric]
    using adds [of sink] same prefix
    by (simp add: Let_def del: fixupSources.simps)
qed

theorem fixupQualcommBtScoRoute_adds_iff_witness:
  "fixupQualcommBtScoRoute sco_routes sco_devicePorts sco_ctx sco_store =
     (NO_ERROR,
      sco_routes @ [\<lparr>mType = AUDIO_ROUTE_MIX, mSink = 3, mSources = [0]\<rparr>],
      addRoute 3 \<lparr>mType = AUDIO_ROUTE_MIX, mSink = 3, mSources = [0]\<rparr>
        (addRoute 0 \<lparr>mType = AUDIO_ROUTE_MIX, mSink = 3, mSources = [0]\<rparr> sco_store))"
proof -
  have c: "(\<exists>device \<in> set sco_devicePorts. mTagName device = ''BT SCO Headset'') \<and>
      (\<exists>r \<in> set sco_routes. mType r = AUDIO_ROUTE_MIX \<and>
         getTagName sco_store (mSink r) = ''Telephony Tx'') \<and>
      (\<exists>r \<in> set sco_routes. mType r = AUDIO_ROUTE_MIX \<and>
         getTagName sco_store (mSink r) \<noteq> ''Telephony Tx'' \<and>
         (\<exists>source \<in> set (mSources r). getTagName sco_store source = ''BT SCO Headset Mic'')) \<and>
      \<not> (\<exists>r \<in> set sco_routes. mType r = AUDIO_ROUTE_MIX \<and>
         getTagName sco_store (mSink r) = ''BT SCO Headset'') \<and>
      findPortByTagName sco_ctx sco_store ''BT SCO Headset'' = Some 3"
    by code_simp
  have srcs: "concat (map (\<lambda>n. case findPortByTagName sco_ctx sco_store n of
                                      Some h \<Rightarrow> [h] | None \<Rightarrow> [])
                    [''primary output'', ''deep_buffer'', ''compressed_offload'',
                     ''Telephony Rx'']) = [0]"
    by code_simp
  from fixupQualcommBtScoRoute_adds_iff
    [where devicePorts = sco_devicePorts and routes = sco_routes and s = sco_store
      and ctx = sco_ctx and sink = 3, unfolded Let_def srcs, THEN conjunct1, THEN conjunct1,
      rule_format, OF c]
  show ?thesis by simp
qed

theorem fixupQualcommBtScoRoute_claim_counterexample:
  "(case ModuleTraits_deserialize example_externs (sco_module sco_routes_a) ()
           example_globals of
      (Inr m, s') \<Rightarrow>
        map (getTagName s') (mDeclaredDevices m) =
          [''BT SCO Headset'', ''Telephony Tx'', ''BT SCO Headset Mic''] \<and>
        map (\<lambda>r. (mType r, getTagName s' (mSink r), map (getTagName s') (mSources r)))
          (mModuleRoutes m) =
          [(AUDIO_ROUTE_MIX, ''Telephony Tx'', [''voice_tx'', ''BT SCO Headset Mic''])]
    | (Inl _, s') \<Rightarrow> False) \<and>
   (case ModuleTraits_deserialize example_externs (sco_module sco_routes_b) ()
           example_globals of
      (Inr m, s') \<Rightarrow>
        map (\<lambda>r. (mType r, getTagName s' (mSink r), map (getTagName s') (mSources r)))
          (mModuleRoutes m) =
          [(AUDIO_ROUTE_MIX, ''Telephony Tx'', [''voice_tx'']),
           (AUDIO_ROUTE_MIX, ''primary input'', [''BT SCO Headset Mic'']),
           (AUDIO_ROUTE_MUX, ''BT SCO Headset'', [''primary output'']),
           (AUDIO_ROUTE_MIX, ''BT SCO Headset'', [''primary output''])]
    | (Inl _, s') \<Rightarrow> False)"
  by code_simp

section \<open>Invariants of the collection walk\<close>

lemma inner_invariant:
  assumes step: "\<And>n c s r s1. I c s \<Longrightarrow> xml_name n = tag T \<Longrightarrow>
      deserialize T n ctx s = (r, s1) \<Longrightarrow>
      I c s1 \<and> (\<forall>e. r = Inr e \<longrightarrow> I (snd (addElementToCollection T e c)) s1)"
    and "I c s"
    and "deserializeCollection_inner T ctx xs c s = (st, c', s')"
  shows "I c' s'"
  using assms(2,3)
proof (induction xs arbitrary: c s)
  case Nil
  then show ?case by simp
next
  case (Cons n xs)
  show ?case
  proof (cases "xml_name n = tag T")
    case False
    then show ?thesis using Cons by simp
  next
    case True
    obtain r s1 where d: "deserialize T n ctx s = (r, s1)"
      by (cases "deserialize T n ctx s")
    note st = step [OF Cons.prems(1) True d]
    show ?thesis
    proof (cases r)
      case (Inl e)
      then show ?thesis
        using Cons True d st by (cases e) auto
    next
      case (Inr e)
      obtain a c1 where add: "addElementToCollection T e c = (a, c1)"
        by (cases "addElementToCollection T e c")
      then have "I c1 s1" using st Inr by auto
      then show ?thesis
        using Cons True d Inr add by (cases a) auto
    qed
  qed
qed

lemma outer_invariant:
  assumes step: "\<And>n c s r s1. I c s \<Longrightarrow> xml_name n = tag T \<Longrightarrow>
      deserialize T n ctx s = (r, s1) \<Longrightarrow>
      I c s1 \<and> (\<forall>e. r = Inr e \<longrightarrow> I (snd (addElementToCollection T e c)) s1)"
    and "I c s"
    and "deserializeCollection_outer T ctx xs c s = (st, c', s')"
  shows "I c' s'"
  using assms(2,3)
proof (induction xs arbitrary: c s)
  case Nil
  then show ?case by simp
next
  case (Cons cur rest)
  let ?ys = "if xml_name cur = collectionTag T then xml_children cur
             else if xml_name cur = tag T then cur # rest else []"
  obtain a c1 s1 where i: "deserializeCollection_inner T ctx ?ys c s = (a, c1, s1)"
    by (cases "deserializeCollection_inner T ctx ?ys c s")
  have I1: "I c1 s1"
    by (rule inner_invariant [where I = I, OF step Cons.prems(1) i])
  show ?case
  proof (cases a)
    case NO_ERROR
    show ?thesis
    proof (cases "xml_name cur = tag T")
      case True
      then show ?thesis using Cons.prems(2) i NO_ERROR I1 by (simp split: if_splits)
    next
      case False
      then have "deserializeCollection_outer T ctx rest c1 s1 = (st, c', s')"
        using Cons.prems(2) i NO_ERROR by (simp split: if_splits)
      then show ?thesis using Cons.IH I1 by blast
    qed
  next
    case BAD_VALUE
    then show ?thesis using Cons.prems(2) i I1 by (simp split: if_splits)
  next
    case NULL_DEREFERENCE
    then show ?thesis using Cons.prems(2) i I1 by (simp split: if_splits)
  qed
qed

lemma walk_invariant:
  assumes "\<And>n c s r s1. I c s \<Longrightarrow> xml_name n = tag T \<Longrightarrow>
      deserialize T n ctx s = (r, s1) \<Longrightarrow>
      I c s1 \<and> (\<forall>e. r = Inr e \<longrightarrow> I (snd (addElementToCollection T e c)) s1)"
    and "I c s"
    and "deserializeCollection T cur c ctx s = (st, c', s')"
  shows "I c' s'"
proof -
  have o: "deserializeCollection_outer T ctx (xml_children cur) c s = (st, c', s')"
    using assms(3) by (simp add: deserializeCollection_def)
  show ?thesis
    by (rule outer_invariant [where I = I, OF assms(1) assms(2) o])
qed


section \<open>What parsing gains, profiles and ports leaves alone\<close>

lemma parsing_frame_refl [simp]: "parsing_frame s s"
  by (simp add: parsing_frame_def)

lemma parsing_frame_trans: "parsing_frame s t \<Longrightarrow> parsing_frame t u \<Longrightarrow> parsing_frame s u"
  by (auto simp add: parsing_frame_def)

lemma AudioGainTraits_deserialize_state:
  "snd (AudioGainTraits_deserialize ext cur ctx s) = s\<lparr>index := index s + 1\<rparr>"
  by (simp add: AudioGainTraits_deserialize_def Let_def)

lemma AudioGainTraits_frame:
  "AudioGainTraits_deserialize ext cur ctx s = (r, s1) \<Longrightarrow> parsing_frame s s1"
  using AudioGainTraits_deserialize_state [of ext cur ctx s]
  by (auto simp add: parsing_frame_def)

lemma AudioProfileTraits_frame:
  "AudioProfileTraits_deserialize ext cur isOutput s = (r, s1) \<Longrightarrow> parsing_frame s s1"
  by (auto simp add: AudioProfileTraits_deserialize_def Let_def parsing_frame_def
      split: if_splits)

lemma walk_frame:
  assumes "\<And>n s r s1. deserialize T n ctx s = (r, s1) \<Longrightarrow> parsing_frame s s1"
    and "deserializeCollection T cur c ctx s = (st, c', s')"
  shows "parsing_frame s s'"
proof (rule walk_invariant [where I = "\<lambda>c t. parsing_frame s t", OF _ _ assms(2)])
  fix n c t r t1
  assume "parsing_frame s t" "deserialize T n ctx t = (r, t1)"
  then show "parsing_frame s t1 \<and>
    (\<forall>e. r = Inr e \<longrightarrow> parsing_frame s t1)"
    using assms(1) parsing_frame_trans by blast
qed simp

lemma gains_walk_frame:
  "deserializeCollection (AudioGainTraits ext) cur c ctx s = (st, c', s') \<Longrightarrow> parsing_frame s s'"
  by (rule walk_frame [where T = "AudioGainTraits ext"])
    (simp_all add: AudioGainTraits_def AudioGainTraits_frame)

lemma profiles_walk_frame:
  "deserializeCollection (AudioProfileTraits ext) cur c ctx s = (st, c', s') \<Longrightarrow>
   parsing_frame s s'"
  by (rule walk_frame [where T = "AudioProfileTraits ext"])
    (simp_all add: AudioProfileTraits_def AudioProfileTraits_frame)

lemma MixPortTraits_frame:
  "MixPortTraits_deserialize ext child ctx s = (r, s') \<Longrightarrow> parsing_frame s s'"
  by (auto simp add: MixPortTraits_deserialize_def Let_def
      split: if_splits prod.splits
      dest!: gains_walk_frame profiles_walk_frame intro: parsing_frame_trans)

lemma DevicePortTraits_frame:
  "DevicePortTraits_deserialize ext cur ctx s = (r, s') \<Longrightarrow> parsing_frame s s'"
  by (auto simp add: DevicePortTraits_deserialize_def Let_def
      split: if_splits prod.splits option.splits
      dest!: gains_walk_frame profiles_walk_frame intro: parsing_frame_trans)

lemma mixPorts_walk_frame:
  "deserializeCollection (MixPortTraits ext) cur c ctx s = (st, c', s') \<Longrightarrow> parsing_frame s s'"
  by (rule walk_frame [where T = "MixPortTraits ext"])
    (simp_all add: MixPortTraits_def MixPortTraits_frame)

lemma devicePorts_walk_frame:
  "deserializeCollection (DevicePortTraits ext) cur c ctx s = (st, c', s') \<Longrightarrow>
   parsing_frame s s'"
  by (rule walk_frame [where T = "DevicePortTraits ext"])
    (simp_all add: DevicePortTraits_def DevicePortTraits_frame)


lemma walk_rel:
  assumes "\<And>s. R s s" and "\<And>s t u. R s t \<Longrightarrow> R t u \<Longrightarrow> R s u"
    and "\<And>n s r s1. deserialize T n ctx s = (r, s1) \<Longrightarrow> R s s1"
    and "deserializeCollection T cur c ctx s = (st, c', s')"
  shows "R s s'"
proof (rule walk_invariant [where I = "\<lambda>c t. R s t", OF _ _ assms(4)])
  fix n c t r t1
  assume "R s t" "deserialize T n ctx t = (r, t1)"
  then show "R s t1 \<and> (\<forall>e. r = Inr e \<longrightarrow> R s t1)"
    using assms(2,3) by blast
qed (rule assms(1))

section \<open>What building routes leaves alone\<close>

lemma routing_frame_refl [simp]: "routing_frame s s"
proof -
  have "\<exists>routes. p = p\<lparr>mRoutes := routes\<rparr>" for p :: PolicyAudioPort
    by (rule exI [of _ "mRoutes p"]) simp
  then show ?thesis by (simp add: routing_frame_def)
qed

lemma routing_frame_trans:
  assumes "routing_frame s t" and "routing_frame t u"
  shows "routing_frame s u"
proof -
  have "\<exists>routes. ports u ! h = (ports s ! h)\<lparr>mRoutes := routes\<rparr>"
    if h: "h < length (ports s)" for h
  proof -
    obtain r1 where 1: "ports t ! h = (ports s ! h)\<lparr>mRoutes := r1\<rparr>"
      using assms(1) h unfolding routing_frame_def by blast
    have "h < length (ports t)"
      using assms(1) h by (simp add: routing_frame_def)
    then obtain r2 where 2: "ports u ! h = (ports t ! h)\<lparr>mRoutes := r2\<rparr>"
      using assms(2) unfolding routing_frame_def by blast
    show ?thesis unfolding 2 1 by (rule exI [of _ r2]) simp
  qed
  then show ?thesis
    using assms by (simp add: routing_frame_def)
qed

lemma addRoute_frame: "routing_frame s (addRoute h r s)"
proof -
  have "\<exists>routes. ports (addRoute h r s) ! k = (ports s ! k)\<lparr>mRoutes := routes\<rparr>"
    if "k < length (ports s)" for k
    unfolding addRoute_nth [OF that] by blast
  then show ?thesis by (simp add: routing_frame_def)
qed

lemma fold_addRoute_frame: "routing_frame s (fold (\<lambda>h. addRoute h r) hs s)"
proof (induction hs arbitrary: s)
  case Nil
  then show ?case by simp
next
  case (Cons h hs)
  show ?case
    using routing_frame_trans [OF addRoute_frame Cons] by simp
qed

lemma RouteTraits_frame:
  "RouteTraits_deserialize cur ctx s = (r, s') \<Longrightarrow> routing_frame s s'"
  using routing_frame_trans [OF addRoute_frame fold_addRoute_frame]
  by (auto simp add: RouteTraits_deserialize_def Let_def split: if_splits option.splits)

lemma routes_walk_frame:
  "deserializeCollection RouteTraits cur c ctx s = (st, c', s') \<Longrightarrow> routing_frame s s'"
  by (rule walk_rel [where T = RouteTraits and R = routing_frame])
    (auto simp add: RouteTraits_def RouteTraits_frame intro: routing_frame_trans)

lemma addA2dpRoute_frame:
  "routing_frame s0 (snd (snd r)) \<Longrightarrow> routing_frame s0 (snd (snd (addA2dpRoute module n r)))"
  using routing_frame_trans [OF _ routing_frame_trans [OF addRoute_frame addRoute_frame]]
  by (auto simp add: addA2dpRoute_def Let_def split: prod.splits option.splits)

lemma patchA2dpRoutes_frame:
  "patchA2dpRoutes a p module routes s = (st, routes', s') \<Longrightarrow> routing_frame s s'"
proof -
  have "routing_frame s (snd (snd (fold (addA2dpRoute module) ns (st0, rs0, t))))"
    if "routing_frame s t" for ns st0 rs0 t
    using that
  proof (induction ns arbitrary: st0 rs0 t)
    case Nil
    then show ?case by simp
  next
    case (Cons n ns)
    obtain st1 rs1 t1 where 1: "addA2dpRoute module n (st0, rs0, t) = (st1, rs1, t1)"
      by (cases "addA2dpRoute module n (st0, rs0, t)")
    have "routing_frame s t1"
      using addA2dpRoute_frame [of s "(st0, rs0, t)" module n] Cons.prems 1 by simp
    then show ?case using Cons.IH 1 by simp
  qed
  from this [of s a2dpOuts NO_ERROR routes]
  show "patchA2dpRoutes a p module routes s = (st, routes', s') \<Longrightarrow> routing_frame s s'"
    by (auto simp add: patchA2dpRoutes_def split: if_splits)
qed

lemma fixup_frame:
  "fixupQualcommBtScoRoute routes devicePorts ctx s = (st, routes', s') \<Longrightarrow> routing_frame s s'"
  using routing_frame_trans [OF fold_addRoute_frame addRoute_frame]
  by (auto simp add: fixupQualcommBtScoRoute_def Let_def
      split: if_splits prod.splits option.splits simp del: fixupSources.simps)

section \<open>Attached devices and the default output device\<close>

lemma attach_frame_refl [simp]: "attach_frame s s"
  by (simp add: attach_frame_def)

lemma attach_frame_trans: "attach_frame s t \<Longrightarrow> attach_frame t u \<Longrightarrow> attach_frame s u"
  by (auto simp add: attach_frame_def)

lemma addDevice_frame: "attach_frame s (addDevice d s)"
  by (auto simp add: attach_frame_def addDevice_def)

lemma addDevice_marker [simp]:
  "fixedEarpieceChannels (addDevice d s) = fixedEarpieceChannels s"
  "mDefaultOutputDevice (config (addDevice d s)) = mDefaultOutputDevice (config s)"
  "d \<in> set (mAttachedDevices (config (addDevice d s)))"
  by (simp_all add: addDevice_def)

lemma getDeviceFromTagName_ports:
  "ports s' = ports s \<Longrightarrow> getDeviceFromTagName ds s' n = getDeviceFromTagName ds s n"
  by (simp add: getDeviceFromTagName_def getTagName_def)

lemma attachItems_frame:
  "attach_frame s (attachItems module cs s) \<and>
   fixedEarpieceChannels (attachItems module cs s) = fixedEarpieceChannels s \<and>
   mDefaultOutputDevice (config (attachItems module cs s)) = mDefaultOutputDevice (config s)"
proof (induction cs arbitrary: s)
  case Nil
  then show ?case by simp
next
  case (Cons c cs)
  let ?t = "if xml_name c = ''item'' then
          (case xml_text c of
             None \<Rightarrow> s
           | Some attachedDevice \<Rightarrow>
               (case getDeviceFromTagName (mDeclaredDevices module) s attachedDevice of
                  Some device \<Rightarrow> addDevice device s
                | None \<Rightarrow> s))
        else s"
  have t: "attach_frame s ?t \<and> fixedEarpieceChannels ?t = fixedEarpieceChannels s \<and>
      mDefaultOutputDevice (config ?t) = mDefaultOutputDevice (config s)"
    by (simp add: addDevice_frame split: option.splits)
  show ?case
    using Cons [of ?t] t attach_frame_trans [of s ?t] by simp
qed

lemma defaultOutputDeviceStep_frame:
  "attach_frame s (defaultOutputDeviceStep module c s) \<and>
   fixedEarpieceChannels (defaultOutputDeviceStep module c s) = fixedEarpieceChannels s"
  by (auto simp add: defaultOutputDeviceStep_def attach_frame_def split: option.splits)

lemma defaultOutputDeviceStep_default:
  "mDefaultOutputDevice (config (defaultOutputDeviceStep module c s)) =
     (case mDefaultOutputDevice (config s) of
        Some d \<Rightarrow> Some d
      | None \<Rightarrow> Option.bind (xml_text c) (getDeviceFromTagName (mDeclaredDevices module) s))"
  by (auto simp add: defaultOutputDeviceStep_def split: option.splits)

lemma moduleChild_frame:
  "attach_frame s (moduleChild module c s) \<and>
   fixedEarpieceChannels (moduleChild module c s) = fixedEarpieceChannels s"
proof -
  let ?s1 = "if xml_name c = ''attachedDevices''
                then attachItems module (xml_children c) s else s"
  have 1: "attach_frame s ?s1" "fixedEarpieceChannels ?s1 = fixedEarpieceChannels s"
    using attachItems_frame by simp_all
  have 2: "attach_frame ?s1 (defaultOutputDeviceStep module c ?s1)"
    "fixedEarpieceChannels (defaultOutputDeviceStep module c ?s1) = fixedEarpieceChannels ?s1"
    using defaultOutputDeviceStep_frame by blast+
  show ?thesis
  proof (cases "xml_name c = ''defaultOutputDevice''")
    case True
    then show ?thesis
      using attach_frame_trans [OF 1(1) 2(1)] 1(2) 2(2) by (simp add: moduleChild_def)
  next
    case False
    then show ?thesis
      using 1 by (simp add: moduleChild_def)
  qed
qed

lemma moduleChild_default:
  "mDefaultOutputDevice (config (moduleChild module c s)) =
     (case mDefaultOutputDevice (config s) of
        Some d \<Rightarrow> Some d
      | None \<Rightarrow> if xml_name c = ''defaultOutputDevice''
                then Option.bind (xml_text c) (getDeviceFromTagName (mDeclaredDevices module) s)
                else None)"
proof -
  let ?s1 = "if xml_name c = ''attachedDevices''
                then attachItems module (xml_children c) s else s"
  have p1: "ports ?s1 = ports s" and d1: "mDefaultOutputDevice (config ?s1) =
      mDefaultOutputDevice (config s)"
    using attachItems_frame [of s module "xml_children c"] by (simp_all add: attach_frame_def)
  have look: "getDeviceFromTagName (mDeclaredDevices module) ?s1 =
      getDeviceFromTagName (mDeclaredDevices module) s"
    using getDeviceFromTagName_ports [OF p1] by blast
  show ?thesis
  proof (cases "xml_name c = ''defaultOutputDevice''")
    case True
    then have "moduleChild module c s = defaultOutputDeviceStep module c ?s1"
      by (simp add: moduleChild_def)
    then show ?thesis
      using True d1 look by (simp add: defaultOutputDeviceStep_default)
  next
    case False
    then have "moduleChild module c s = ?s1"
      by (simp add: moduleChild_def)
    then show ?thesis
      using False d1 by (simp split: option.splits)
  qed
qed

lemma moduleChildren_frame:
  "attach_frame s (moduleChildren module cs s) \<and>
   fixedEarpieceChannels (moduleChildren module cs s) = fixedEarpieceChannels s"
proof (induction cs arbitrary: s)
  case Nil
  then show ?case by simp
next
  case (Cons c cs)
  show ?case
    using Cons [of "moduleChild module c s"] moduleChild_frame [of s module c]
      attach_frame_trans [of s "moduleChild module c s"]
    by simp
qed

lemma declaredDefaultOutputDevices_ports:
  "ports s' = ports s \<Longrightarrow>
   declaredDefaultOutputDevices module s' cs = declaredDefaultOutputDevices module s cs"
proof -
  assume "ports s' = ports s"
  then have "getDeviceFromTagName ds s' = getDeviceFromTagName ds s" for ds
    using getDeviceFromTagName_ports [of s' s] by (intro ext) simp
  then show ?thesis
    by (simp add: declaredDefaultOutputDevices_def cong: if_cong)
qed

lemma declaredDefaultOutputDevices_Cons:
  "declaredDefaultOutputDevices module s (c # cs) =
     (case (if xml_name c = ''defaultOutputDevice''
            then Option.bind (xml_text c) (getDeviceFromTagName (mDeclaredDevices module) s)
            else None) of
        None \<Rightarrow> declaredDefaultOutputDevices module s cs
      | Some d \<Rightarrow> d # declaredDefaultOutputDevices module s cs)"
  by (simp add: declaredDefaultOutputDevices_def split: option.splits)

lemma moduleChildren_default:
  "mDefaultOutputDevice (config (moduleChildren module cs s)) =
     (case mDefaultOutputDevice (config s) of
        Some d \<Rightarrow> Some d
      | None \<Rightarrow> (case declaredDefaultOutputDevices module s cs of
                   [] \<Rightarrow> None | d # _ \<Rightarrow> Some d))"
proof (induction cs arbitrary: s)
  case Nil
  then show ?case
    by (simp add: declaredDefaultOutputDevices_def split: option.splits)
next
  case (Cons c cs)
  let ?t = "moduleChild module c s"
  have "ports ?t = ports s"
    using moduleChild_frame [of s module c] by (simp add: attach_frame_def)
  then have same: "declaredDefaultOutputDevices module ?t cs =
      declaredDefaultOutputDevices module s cs"
    by (rule declaredDefaultOutputDevices_ports)
  show ?case
  proof (cases "mDefaultOutputDevice (config s)")
    case (Some d)
    then have "mDefaultOutputDevice (config ?t) = Some d"
      by (simp add: moduleChild_default)
    then show ?thesis
      using Cons [of ?t] Some by simp
  next
    case None
    show ?thesis
    proof (cases "if xml_name c = ''defaultOutputDevice''
            then Option.bind (xml_text c) (getDeviceFromTagName (mDeclaredDevices module) s)
            else None")
      case None': None
      then have "mDefaultOutputDevice (config ?t) = None"
        using None by (simp add: moduleChild_default)
      then show ?thesis
        using Cons [of ?t] None None' same
        by (simp add: declaredDefaultOutputDevices_Cons)
    next
      case (Some d)
      then have "mDefaultOutputDevice (config ?t) = Some d"
        using None by (simp add: moduleChild_default)
      then show ?thesis
        using Cons [of ?t] None Some
        by (simp add: declaredDefaultOutputDevices_Cons)
    qed
  qed
qed

lemma earpieceStep_frame:
  "attach_frame s (earpieceStep module s) \<and> \<not> fixedEarpieceChannels (earpieceStep module s) \<and>
   mDefaultOutputDevice (config (earpieceStep module s)) = mDefaultOutputDevice (config s)"
  using addDevice_frame
  by (auto simp add: earpieceStep_def attach_frame_def split: option.splits)

lemma earpieceStep_attaches:
  "fixedEarpieceChannels s \<Longrightarrow>
   getDeviceFromTagName (mDeclaredDevices module) s ''Earpiece'' = Some d \<Longrightarrow>
   d \<in> set (mAttachedDevices (config (earpieceStep module s)))"
  by (simp add: earpieceStep_def)

section \<open>The stages of a module\<close>

lemma load_frame_refl [simp]: "load_frame s s"
proof -
  have "\<exists>routes. p = p\<lparr>mRoutes := routes\<rparr>" for p :: PolicyAudioPort
    by (rule exI [of _ "mRoutes p"]) simp
  then show ?thesis by (simp add: load_frame_def)
qed












lemma moduleFromRoutes_Inr:
  assumes "moduleFromRoutes cur a p module devicePorts s = (Inr m, s')"
  obtains routes0 s1 routes1 s2 routes s3 where
    "deserializeCollection RouteTraits cur [] module s = (NO_ERROR, routes0, s1)"
    "patchA2dpRoutes a p module routes0 s1 = (NO_ERROR, routes1, s2)"
    "fixupQualcommBtScoRoute routes1 devicePorts module s2 = (NO_ERROR, routes, s3)"
    "m = module\<lparr>mModuleRoutes := routes\<rparr>"
    "s' = earpieceStep m (moduleChildren m (xml_children cur) s3)"
  using assms
  by (auto simp add: moduleFromRoutes_def Let_def split: if_splits prod.splits)


lemma moduleFromDevicePorts_Inr:
  assumes "moduleFromDevicePorts ext cur a p module s = (Inr m, s')"
  obtains devicePorts0 s1 module1 s2 where
    "deserializeCollection (DevicePortTraits ext) cur [] () s = (NO_ERROR, devicePorts0, s1)"
    "setDeclaredDevices module (patchA2dpDevicePorts ext a p devicePorts0 s1) s1 = (module1, s2)"
    "moduleFromRoutes cur a p module1 (patchA2dpDevicePorts ext a p devicePorts0 s1) s2 =
       (Inr m, s')"
  using assms
  by (auto simp add: moduleFromDevicePorts_def Let_def split: if_splits prod.splits)


lemma ModuleTraits_deserialize_Inr:
  assumes "ModuleTraits_deserialize ext cur ctx s = (Inr m, s')"
  obtains mixPorts0 s1 mixPorts s2 module0 module1 s3 where
    "getXmlAttribute cur ''name'' \<noteq> []"
    "mName module0 = getXmlAttribute cur ''name''" "mPorts module0 = []"
    "mModuleRoutes module0 = []"
    "deserializeCollection (MixPortTraits ext) cur [] () s = (NO_ERROR, mixPorts0, s1)"
    "patchA2dpMixPorts ext (getXmlAttribute cur ''name'' = ''a2dp'') mixPorts0 s1 = (mixPorts, s2)"
    "setProfiles module0 mixPorts s2 = (module1, s3)"
    "moduleFromDevicePorts ext cur (getXmlAttribute cur ''name'' = ''a2dp'')
       (getXmlAttribute cur ''name'' = ''primary'') module1 s3 = (Inr m, s')"
proof -
  let ?n = "getXmlAttribute cur ''name''"
  let ?v = "getXmlAttribute cur ''halVersion''"
  let ?m0 = "new_HwModule ?n
      (if ?v \<noteq> [] then (case fst (sscanf_version ext ?v) of Some v \<Rightarrow> v | None \<Rightarrow> 0) else 0)
      (if ?v \<noteq> [] then (case snd (sscanf_version ext ?v) of Some v \<Rightarrow> v | None \<Rightarrow> 0) else 0)"
  have "mName ?m0 = ?n" "mPorts ?m0 = []" "mModuleRoutes ?m0 = []"
    by (simp_all add: new_HwModule_def)
  then show ?thesis
    using assms that [of ?m0]
    by (auto simp add: ModuleTraits_deserialize_def Let_def split: if_splits prod.splits)
qed



lemma SurroundSoundFormatTraits_state:
  "snd (SurroundSoundFormatTraits_deserialize ext cur ctx s) = s"
  by (simp add: SurroundSoundFormatTraits_deserialize_def Let_def)

lemma formats_walk_state:
  "deserializeCollection (SurroundSoundFormatTraits ext) cur c ctx s = (st, c', s') \<Longrightarrow> s' = s"
proof -
  assume a: "deserializeCollection (SurroundSoundFormatTraits ext) cur c ctx s = (st, c', s')"
  have "s = s'"
    by (rule walk_rel [where T = "SurroundSoundFormatTraits ext" and R = "(=)", OF _ _ _ a])
      (use SurroundSoundFormatTraits_state in
        \<open>auto simp add: SurroundSoundFormatTraits_def dest: sndI\<close>)
  then show ?thesis by simp
qed




section \<open>A module that is parsed: where its final state comes from\<close>

lemma registerPorts_same:
  "registerPorts ps s = (hs, s') \<Longrightarrow>
   config s' = config s \<and> index s' = index s \<and>
   fixedEarpieceChannels s' = fixedEarpieceChannels s \<and>
   forceDisableA2dpOffload s' = forceDisableA2dpOffload s \<and> ports s' = ports s @ ps \<and>
   hs = [length (ports s) ..< length (ports s) + length ps]"
  by (auto simp add: registerPorts_def)

lemma setDeclaredDevices_same:
  "setDeclaredDevices module ps s = (module1, s') \<Longrightarrow>
   config s' = config s \<and> index s' = index s \<and>
   fixedEarpieceChannels s' = fixedEarpieceChannels s \<and>
   forceDisableA2dpOffload s' = forceDisableA2dpOffload s \<and> ports s' = ports s @ ps \<and>
   module1 = module\<lparr>mPorts := mPorts module @ [length (ports s) ..< length (ports s) + length ps],
     mDeclaredDevices := [length (ports s) ..< length (ports s) + length ps]\<rparr>"
  by (auto simp add: setDeclaredDevices_def registerPorts_def)

lemma setProfiles_same:
  "setProfiles module ps s = (module1, s') \<Longrightarrow>
   config s' = config s \<and> index s' = index s \<and>
   fixedEarpieceChannels s' = fixedEarpieceChannels s \<and>
   forceDisableA2dpOffload s' = forceDisableA2dpOffload s \<and> ports s' = ports s @ ps \<and>
   module1 = module\<lparr>mPorts := mPorts module @ [length (ports s) ..< length (ports s) + length ps],
     mIOProfiles := [length (ports s) ..< length (ports s) + length ps]\<rparr>"
  by (auto simp add: setProfiles_def registerPorts_def)

lemma patchA2dpMixPorts_same:
  "patchA2dpMixPorts ext a ps s = (ps', s') \<Longrightarrow>
   config s' = config s \<and> index s' = index s \<and>
   fixedEarpieceChannels s' = fixedEarpieceChannels s \<and> ports s' = ports s"
  by (auto simp add: patchA2dpMixPorts_def Let_def split: if_splits)

text \<open>The state in which the loop over the children of the module element starts.\<close>

lemma moduleFromRoutes_final:
  assumes "moduleFromRoutes cur a p module devicePorts s = (Inr m, s')"
  obtains t where "routing_frame s t"
    "s' = earpieceStep m (moduleChildren m (xml_children cur) t)"
    "mDeclaredDevices m = mDeclaredDevices module"
proof -
  from assms obtain routes0 s1 routes1 s2 routes s3 where r:
    "deserializeCollection RouteTraits cur [] module s = (NO_ERROR, routes0, s1)"
    "patchA2dpRoutes a p module routes0 s1 = (NO_ERROR, routes1, s2)"
    "fixupQualcommBtScoRoute routes1 devicePorts module s2 = (NO_ERROR, routes, s3)"
    "m = module\<lparr>mModuleRoutes := routes\<rparr>"
    "s' = earpieceStep m (moduleChildren m (xml_children cur) s3)"
    by (rule moduleFromRoutes_Inr)
  have "routing_frame s s3"
    using routing_frame_trans [OF routes_walk_frame [OF r(1)]
        routing_frame_trans [OF patchA2dpRoutes_frame [OF r(2)] fixup_frame [OF r(3)]]] .
  then show ?thesis
    using that r(4,5) by simp
qed

lemma final_state:
  assumes "s' = earpieceStep m (moduleChildren m cs t)"
  shows "\<not> fixedEarpieceChannels s'" "ports s' = ports t"
    "mDefaultOutputDevice (config s') =
       (case mDefaultOutputDevice (config t) of
          Some d \<Rightarrow> Some d
        | None \<Rightarrow> (case declaredDefaultOutputDevices m s' cs of [] \<Rightarrow> None | d # _ \<Rightarrow> Some d))"
    "fixedEarpieceChannels t \<Longrightarrow>
     getDeviceFromTagName (mDeclaredDevices m) s' ''Earpiece'' = Some d \<Longrightarrow>
     d \<in> set (mAttachedDevices (config s'))"
proof -
  let ?u = "moduleChildren m cs t"
  have u: "ports ?u = ports t" "fixedEarpieceChannels ?u = fixedEarpieceChannels t"
    using moduleChildren_frame [of t m cs] by (simp_all add: attach_frame_def)
  have e: "ports s' = ports ?u" "\<not> fixedEarpieceChannels s'"
    "mDefaultOutputDevice (config s') = mDefaultOutputDevice (config ?u)"
    using earpieceStep_frame [of ?u m] assms by (simp_all add: attach_frame_def)
  show "\<not> fixedEarpieceChannels s'" by (rule e(2))
  show p: "ports s' = ports t" using e(1) u(1) by simp
  show "mDefaultOutputDevice (config s') =
       (case mDefaultOutputDevice (config t) of
          Some d \<Rightarrow> Some d
        | None \<Rightarrow> (case declaredDefaultOutputDevices m s' cs of [] \<Rightarrow> None | d # _ \<Rightarrow> Some d))"
    unfolding e(3) moduleChildren_default declaredDefaultOutputDevices_ports [OF p] ..
  assume "fixedEarpieceChannels t"
    and "getDeviceFromTagName (mDeclaredDevices m) s' ''Earpiece'' = Some d"
  then have "fixedEarpieceChannels ?u"
    and "getDeviceFromTagName (mDeclaredDevices m) ?u ''Earpiece'' = Some d"
    using u(2) getDeviceFromTagName_ports [OF e(1)] by simp_all
  then show "d \<in> set (mAttachedDevices (config s'))"
    unfolding assms by (rule earpieceStep_attaches)
qed

lemma moduleFromDevicePorts_final:
  assumes "moduleFromDevicePorts ext cur a p module s = (Inr m, s')"
  obtains st dps s1 t where
    "deserializeCollection (DevicePortTraits ext) cur [] () s = (st, dps, s1)"
    "config t = config s1" "fixedEarpieceChannels t = fixedEarpieceChannels s1"
    "index t = index s1"
    "s' = earpieceStep m (moduleChildren m (xml_children cur) t)"
proof -
  from assms obtain devicePorts0 s1 module1 s2 where r:
    "deserializeCollection (DevicePortTraits ext) cur [] () s = (NO_ERROR, devicePorts0, s1)"
    "setDeclaredDevices module (patchA2dpDevicePorts ext a p devicePorts0 s1) s1 = (module1, s2)"
    "moduleFromRoutes cur a p module1 (patchA2dpDevicePorts ext a p devicePorts0 s1) s2 =
       (Inr m, s')"
    by (rule moduleFromDevicePorts_Inr)
  from r(3) obtain t where t: "routing_frame s2 t"
    "s' = earpieceStep m (moduleChildren m (xml_children cur) t)"
    by (rule moduleFromRoutes_final)
  have "config t = config s1" "fixedEarpieceChannels t = fixedEarpieceChannels s1"
    "index t = index s1"
    using t(1) setDeclaredDevices_same [OF r(2)] by (simp_all add: routing_frame_def)
  then show ?thesis
    using that r(1) t(2) by blast
qed

lemma ModuleTraits_deserialize_final:
  assumes "ModuleTraits_deserialize ext cur ctx s = (Inr m, s')"
  obtains t where "config t = config s" "index s \<le> index t"
    "fixedEarpieceChannels s \<longrightarrow> fixedEarpieceChannels t"
    "s' = earpieceStep m (moduleChildren m (xml_children cur) t)"
proof -
  from assms obtain mixPorts0 s1 mixPorts s2 module0 module1 s3 where r:
    "deserializeCollection (MixPortTraits ext) cur [] () s = (NO_ERROR, mixPorts0, s1)"
    "patchA2dpMixPorts ext (getXmlAttribute cur ''name'' = ''a2dp'') mixPorts0 s1 = (mixPorts, s2)"
    "setProfiles module0 mixPorts s2 = (module1, s3)"
    "moduleFromDevicePorts ext cur (getXmlAttribute cur ''name'' = ''a2dp'')
       (getXmlAttribute cur ''name'' = ''primary'') module1 s3 = (Inr m, s')"
    by (rule ModuleTraits_deserialize_Inr)
  from r(4) obtain st dps s4 t where d:
    "deserializeCollection (DevicePortTraits ext) cur [] () s3 = (st, dps, s4)"
    "config t = config s4" "fixedEarpieceChannels t = fixedEarpieceChannels s4"
    "index t = index s4"
    "s' = earpieceStep m (moduleChildren m (xml_children cur) t)"
    by (rule moduleFromDevicePorts_final)
  have 1: "parsing_frame s s1" by (rule mixPorts_walk_frame [OF r(1)])
  have 4: "parsing_frame s3 s4" by (rule devicePorts_walk_frame [OF d(1)])
  have "config t = config s" "index s \<le> index t"
    "fixedEarpieceChannels s \<longrightarrow> fixedEarpieceChannels t"
    using 1 4 patchA2dpMixPorts_same [OF r(2)] setProfiles_same [OF r(3)] d(2,3,4)
    by (simp_all add: parsing_frame_def)
  then show ?thesis
    using that d(5) by blast
qed



lemma singleton_set: "card S = 1 \<and> Min S = a \<longleftrightarrow> S = {a}"
  by (auto simp add: card_1_singleton_iff)

text \<open>
  The earpiece channel fix, for a module that is parsed. A profile that is parsed in an
  output context (the context is the result of \<open>audio_is_output_devices\<close> on the type of
  the device port) and whose channel masks resolve to exactly the input-mono mask gets, in
  their place, the set that the converter gives for the name \<open>AUDIO_CHANNEL_OUT_MONO\<close>,
  and the marker \<open>fixedEarpieceChannels\<close> is set; any other profile keeps its channel
  masks and leaves the marker as it is. The marker, once set, stays set through the walk
  over the device ports. When it is set at the end of that walk and the module is parsed,
  the device tagged \<open>Earpiece\<close>, if the module declares one, is attached to the config.
  After a module that is parsed the marker is clear in either case.
\<close>

theorem earpiece_channel_fix:
  "(isOutput \<and>
    channelMasksFromString ext (getXmlAttribute cur ''channelMasks'') '','' =
      {AUDIO_CHANNEL_IN_MONO ext} \<longrightarrow>
      (\<exists>profile. AudioProfileTraits_deserialize ext cur isOutput s =
          (Inr profile, s\<lparr>fixedEarpieceChannels := True\<rparr>) \<and>
        mChannelMasks profile = channelMasksFromString ext ''AUDIO_CHANNEL_OUT_MONO'' '','')) \<and>
   (\<not> (isOutput \<and>
        channelMasksFromString ext (getXmlAttribute cur ''channelMasks'') '','' =
          {AUDIO_CHANNEL_IN_MONO ext}) \<longrightarrow>
      (\<exists>profile. AudioProfileTraits_deserialize ext cur isOutput s = (Inr profile, s) \<and>
        mChannelMasks profile =
          channelMasksFromString ext (getXmlAttribute cur ''channelMasks'') '','')) \<and>
   (fixedEarpieceChannels s \<and>
    deserializeCollection (DevicePortTraits ext) node c () s = (st, c', t) \<longrightarrow>
      fixedEarpieceChannels t) \<and>
   (deserializeCollection (DevicePortTraits ext) node [] () s = (st, c', t) \<and>
    fixedEarpieceChannels t \<and>
    moduleFromDevicePorts ext node a p module s = (Inr m, s') \<longrightarrow>
      \<not> fixedEarpieceChannels s' \<and>
      (\<forall>d. getDeviceFromTagName (mDeclaredDevices m) s' ''Earpiece'' = Some d \<longrightarrow>
           d \<in> set (mAttachedDevices (config s')))) \<and>
   (ModuleTraits_deserialize ext node () s = (Inr m, s') \<longrightarrow>
      \<not> fixedEarpieceChannels s' \<and>
      (fixedEarpieceChannels s \<longrightarrow>
         (\<forall>d. getDeviceFromTagName (mDeclaredDevices m) s' ''Earpiece'' = Some d \<longrightarrow>
              d \<in> set (mAttachedDevices (config s')))))"
proof (intro conjI impI allI)
  assume "isOutput \<and>
    channelMasksFromString ext (getXmlAttribute cur ''channelMasks'') '','' =
      {AUDIO_CHANNEL_IN_MONO ext}"
  then show "\<exists>profile. AudioProfileTraits_deserialize ext cur isOutput s =
          (Inr profile, s\<lparr>fixedEarpieceChannels := True\<rparr>) \<and>
        mChannelMasks profile = channelMasksFromString ext ''AUDIO_CHANNEL_OUT_MONO'' '',''"
    by (simp add: AudioProfileTraits_deserialize_def Let_def new_AudioProfile_def)
next
  assume "\<not> (isOutput \<and>
        channelMasksFromString ext (getXmlAttribute cur ''channelMasks'') '','' =
          {AUDIO_CHANNEL_IN_MONO ext})"
  then show "\<exists>profile. AudioProfileTraits_deserialize ext cur isOutput s = (Inr profile, s) \<and>
        mChannelMasks profile =
          channelMasksFromString ext (getXmlAttribute cur ''channelMasks'') '',''"
    using singleton_set [of "channelMasksFromString ext (getXmlAttribute cur ''channelMasks'') '',''"
        "AUDIO_CHANNEL_IN_MONO ext"]
    by (auto simp add: AudioProfileTraits_deserialize_def Let_def new_AudioProfile_def)
next
  assume "fixedEarpieceChannels s \<and>
    deserializeCollection (DevicePortTraits ext) node c () s = (st, c', t)"
  then show "fixedEarpieceChannels t"
    using devicePorts_walk_frame [of ext node c "()" s st c' t]
    by (simp add: parsing_frame_def)
next
  assume a: "deserializeCollection (DevicePortTraits ext) node [] () s = (st, c', t) \<and>
    fixedEarpieceChannels t \<and>
    moduleFromDevicePorts ext node a p module s = (Inr m, s')"
  then obtain u where u: "fixedEarpieceChannels u = fixedEarpieceChannels t"
    "s' = earpieceStep m (moduleChildren m (xml_children node) u)"
    using moduleFromDevicePorts_final [of ext node a p module s m s'] by auto
  show "\<not> fixedEarpieceChannels s'"
    by (rule final_state(1) [OF u(2)])
  fix d assume "getDeviceFromTagName (mDeclaredDevices m) s' ''Earpiece'' = Some d"
  then show "d \<in> set (mAttachedDevices (config s'))"
    using final_state(4) [OF u(2)] u(1) a by simp
next
  assume a: "ModuleTraits_deserialize ext node () s = (Inr m, s')"
  then obtain u where u: "fixedEarpieceChannels s \<longrightarrow> fixedEarpieceChannels u"
    "s' = earpieceStep m (moduleChildren m (xml_children node) u)"
    using ModuleTraits_deserialize_final by blast
  show "\<not> fixedEarpieceChannels s'"
    by (rule final_state(1) [OF u(2)])
  fix d assume "fixedEarpieceChannels s"
    "getDeviceFromTagName (mDeclaredDevices m) s' ''Earpiece'' = Some d"
  then show "d \<in> set (mAttachedDevices (config s'))"
    using final_state(4) [OF u(2)] u(1) by simp
qed

theorem earpiece_channel_fix_witness:
  "channelMasksFromString example_externs (getXmlAttribute mono_profile ''channelMasks'') '','' =
     {AUDIO_CHANNEL_IN_MONO example_externs} \<and>
   (\<exists>profile. AudioProfileTraits_deserialize example_externs mono_profile True example_globals =
      (Inr profile, example_globals\<lparr>fixedEarpieceChannels := True\<rparr>) \<and>
      mChannelMasks profile = {0x1}) \<and>
   (let s' = snd (ModuleTraits_deserialize example_externs earpiece_module () example_globals)
    in \<not> fixedEarpieceChannels s' \<and>
       map (getTagName s') (mAttachedDevices (config s')) = [''Earpiece''])"
proof -
  have h: "True \<and>
    channelMasksFromString example_externs (getXmlAttribute mono_profile ''channelMasks'') '','' =
      {AUDIO_CHANNEL_IN_MONO example_externs}"
    by (simp add: example_externs_def mono_profile_def element_def getXmlAttribute_def)
  from earpiece_channel_fix
    [where ext = example_externs and isOutput = True and cur = mono_profile
      and s = example_globals, THEN conjunct1, rule_format, OF h]
  have 1: "\<exists>profile. AudioProfileTraits_deserialize example_externs mono_profile True
        example_globals = (Inr profile, example_globals\<lparr>fixedEarpieceChannels := True\<rparr>) \<and>
      mChannelMasks profile = {0x1}"
    by (simp add: example_externs_def)
  have 2: "let s' = snd (ModuleTraits_deserialize example_externs earpiece_module ()
        example_globals)
    in \<not> fixedEarpieceChannels s' \<and>
       map (getTagName s') (mAttachedDevices (config s')) = [''Earpiece'']"
    by code_simp
  show ?thesis
    using h 1 2 by (intro conjI) simp_all
qed

text \<open>
  C8, at a module that is not parsed. The first module declares \<open>Earpiece\<close> twice, the
  first time with the input-mono mask: the marker is set, the second insertion fails, and
  the module returns from lines 772 to 775 before the lines 983 to 989 that attach the
  device and clear the marker. The marker is still set and nothing is attached. The next
  module, which on its own attaches nothing, then attaches its \<open>Earpiece\<close> and clears
  the marker; so does the load of a document with the two modules, which keeps the second
  module only.
\<close>

theorem earpiece_marker_left_set:
  "(let r1 = ModuleTraits_deserialize example_externs twice_earpiece_module () example_globals;
        s1 = snd r1;
        r2 = ModuleTraits_deserialize example_externs plain_earpiece_module () s1;
        s2 = snd r2
    in fst r1 = Inl BAD_VALUE \<and> fixedEarpieceChannels s1 \<and>
       mAttachedDevices (config s1) = [] \<and>
       \<not> isl (fst r2) \<and> \<not> fixedEarpieceChannels s2 \<and>
       map (getTagName s2) (mAttachedDevices (config s2)) = [''Earpiece'']) \<and>
   mAttachedDevices (config (snd (ModuleTraits_deserialize example_externs
      plain_earpiece_module () example_globals))) = [] \<and>
   (let s' = snd (PolicySerializer_deserialize example_externs (Some twice_earpiece_document)
                    example_globals)
    in map mName (mHwModules (config s')) = [''usb''] \<and>
       map (getTagName s') (mAttachedDevices (config s')) = [''Earpiece''])"
  by code_simp

section \<open>The indices of the gains\<close>

lemma gains_between_Nil [simp]: "gains_between lo hi []"
  by (simp add: gains_between_def)

lemma gains_between_mono:
  "gains_between lo hi ws \<Longrightarrow> lo' \<le> lo \<Longrightarrow> hi \<le> hi' \<Longrightarrow> gains_between lo' hi' ws"
  by (fastforce simp add: gains_between_def)

lemma gains_between_append:
  assumes "gains_between lo mid xs" and "gains_between mid hi ys" and "lo \<le> mid" and "mid \<le> hi"
  shows "gains_between lo hi (xs @ ys)"
proof -
  have "x < y" if "x \<in> set xs" "y \<in> set ys" for x y
  proof -
    have "unat x < mid" "mid \<le> unat y"
      using assms(1,2) that by (auto simp add: gains_between_def)
    then show ?thesis by (simp add: word_less_nat_alt)
  qed
  then show ?thesis
    using assms by (fastforce simp add: gains_between_def sorted_wrt_append)
qed

lemma gains_between_appendD:
  "gains_between lo hi (xs @ ys) \<Longrightarrow> gains_between lo hi xs \<and> gains_between lo hi ys"
  by (auto simp add: gains_between_def sorted_wrt_append)

lemma gains_between_drop_middle:
  "gains_between lo hi (xs @ ys @ zs) \<Longrightarrow> gains_between lo hi (xs @ zs)"
  by (auto simp add: gains_between_def sorted_wrt_append)

lemma gainIndices_simps [simp]:
  "gainIndices [] = []"
  "gainIndices (p # ps) = map mIndex (mGains p) @ gainIndices ps"
  "gainIndices (ps @ qs) = gainIndices ps @ gainIndices qs"
  by (simp_all add: gainIndices_def)

lemma gainIndices_cong: "map mGains ps = map mGains qs \<Longrightarrow> gainIndices ps = gainIndices qs"
proof (induction ps arbitrary: qs)
  case Nil
  then show ?case by simp
next
  case (Cons p ps)
  then obtain q qs' where "qs = q # qs'" "mGains p = mGains q" "map mGains ps = map mGains qs'"
    by (cases qs) auto
  then show ?case using Cons.IH by simp
qed

text \<open>One gain: it takes the counter, and the counter moves on.\<close>

lemma AudioGainTraits_deserialize_index:
  "AudioGainTraits_deserialize ext cur ctx s = (r, s1) \<Longrightarrow>
   s1 = s\<lparr>index := index s + 1\<rparr> \<and> (\<forall>gain. r = Inr gain \<longrightarrow> mIndex gain = word_of_nat (index s))"
  by (auto simp add: AudioGainTraits_deserialize_def Let_def new_AudioGain_def split: if_splits)

lemma unat_counter: "n < 2 ^ 32 \<Longrightarrow> unat (word_of_nat n :: 32 word) = n"
  by (simp add: unat_of_nat)

lemma gains_walk_between:
  assumes "deserializeCollection (AudioGainTraits ext) cur [] ctx s = (st, gains, s')"
    and "index s' \<le> 2 ^ 32"
  shows "index s \<le> index s' \<and> gains_between (index s) (index s') (map mIndex gains)"
proof -
  let ?I = "\<lambda>(c :: AudioGain list) t. index s \<le> index t \<and>
    (index t \<le> 2 ^ 32 \<longrightarrow> gains_between (index s) (index t) (map mIndex c))"
  have "?I gains s'"
  proof (rule walk_invariant [where I = ?I and T = "AudioGainTraits ext", OF _ _ assms(1)])
    show "?I [] s" by simp
  next
    fix n c t r t1
    assume I: "?I c t" and d: "deserialize (AudioGainTraits ext) n ctx t = (r, t1)"
    then have g: "t1 = t\<lparr>index := index t + 1\<rparr>"
      "\<forall>gain. r = Inr gain \<longrightarrow> mIndex gain = word_of_nat (index t)"
      using AudioGainTraits_deserialize_index [of ext n ctx t r t1]
      by (simp_all add: AudioGainTraits_def)
    have 1: "?I c t1"
      using I g(1) gains_between_mono [of "index s" "index t" "map mIndex c" "index s" "index t + 1"]
      by simp
    have 2: "?I (snd (addElementToCollection (AudioGainTraits ext) e c)) t1" if "r = Inr e" for e
    proof -
      have add: "snd (addElementToCollection (AudioGainTraits ext) e c) = c @ [e]"
        by (simp add: AudioGainTraits_def AndroidCollectionTraits_addElementToCollection_def
            Vector_add_def)
      have "gains_between (index s) (index t1) (map mIndex (c @ [e]))" if b: "index t1 \<le> 2 ^ 32"
      proof -
        have lt: "index t < 2 ^ 32" using b g(1) by simp
        then have u: "unat (mIndex e) = index t"
          using g(2) \<open>r = Inr e\<close> by (simp add: unat_counter)
        have "gains_between (index t) (index t1) [mIndex e]"
          using u g(1) by (simp add: gains_between_def)
        moreover have "gains_between (index s) (index t) (map mIndex c)"
          using I lt by simp
        ultimately show ?thesis
          using gains_between_append [of "index s" "index t" "map mIndex c" "index t1" "[mIndex e]"]
            I g(1) by simp
      qed
      then show ?thesis using 1 add by simp
    qed
    show "?I c t1 \<and> (\<forall>e. r = Inr e \<longrightarrow>
        ?I (snd (addElementToCollection (AudioGainTraits ext) e c)) t1)"
      using 1 2 by blast
  qed
  then show ?thesis using assms(2) by simp
qed

lemma MixPort_gains:
  assumes "MixPortTraits_deserialize ext child ctx s = (Inr port, s')" and "index s' \<le> 2 ^ 32"
  shows "gains_between (index s) (index s') (map mIndex (mGains port))"
proof -
  obtain st0 profiles s1 where p:
    "deserializeCollection (AudioProfileTraits ext) child [] False s = (st0, profiles, s1)"
    by (cases "deserializeCollection (AudioProfileTraits ext) child [] False s")
  obtain st1 gains s2 where g:
    "deserializeCollection (AudioGainTraits ext) child [] () s1 = (st1, gains, s2)"
    by (cases "deserializeCollection (AudioGainTraits ext) child [] () s1")
  have r: "s' = s2" "mGains port = gains"
    using assms(1) p g
    by (auto simp add: MixPortTraits_deserialize_def Let_def split: if_splits)
  have "index s \<le> index s1"
    using profiles_walk_frame [OF p] by (simp add: parsing_frame_def)
  then show ?thesis
    using gains_walk_between [OF g] assms(2) r gains_between_mono by blast
qed

lemma DevicePort_gains:
  assumes "DevicePortTraits_deserialize ext cur ctx s = (Inr port, s')" and "index s' \<le> 2 ^ 32"
  shows "gains_between (index s) (index s') (map mIndex (mGains port))"
proof -
  obtain type where ty: "deviceFromString ext (getXmlAttribute cur ''type'') = Some type"
    using assms(1)
    by (auto simp add: DevicePortTraits_deserialize_def Let_def split: if_splits option.splits)
  obtain st0 profiles s1 where p:
    "deserializeCollection (AudioProfileTraits ext) cur []
       (audio_is_output_devices ext type) s = (st0, profiles, s1)"
    by (cases "deserializeCollection (AudioProfileTraits ext) cur []
       (audio_is_output_devices ext type) s")
  obtain st1 gains s2 where g:
    "deserializeCollection (AudioGainTraits ext) cur [] () s1 = (st1, gains, s2)"
    by (cases "deserializeCollection (AudioGainTraits ext) cur [] () s1")
  have r: "s' = s2" "mGains port = gains"
    using assms(1) p g ty
    by (auto simp add: DevicePortTraits_deserialize_def Let_def new_DeviceDescriptor_def
        split: if_splits)
  have "index s \<le> index s1"
    using profiles_walk_frame [OF p] by (simp add: parsing_frame_def)
  then show ?thesis
    using gains_walk_between [OF g] assms(2) r gains_between_mono by blast
qed


lemma PortCollection_add_cases:
  "snd (AndroidCollectionTraits_addElementToCollection PortCollection_add port c) = c \<or>
   snd (AndroidCollectionTraits_addElementToCollection PortCollection_add port c) = c @ [port]"
  by (simp add: AndroidCollectionTraits_addElementToCollection_def PortCollection_add_def)

lemma ports_walk_between:
  assumes des: "\<And>n t r t1. deserialize T n ctx t = (r, t1) \<Longrightarrow>
      index t \<le> index t1 \<and>
      (\<forall>port. r = Inr port \<longrightarrow> index t1 \<le> 2 ^ 32 \<longrightarrow>
         gains_between (index t) (index t1) (map mIndex (mGains port)))"
    and add: "addElementToCollection T =
      AndroidCollectionTraits_addElementToCollection PortCollection_add"
    and w: "deserializeCollection T cur [] ctx s = (st, c', s')"
    and b: "index s' \<le> 2 ^ 32"
  shows "gains_between (index s) (index s') (gainIndices c')"
proof -
  let ?I = "\<lambda>(c :: PolicyAudioPort list) t. index s \<le> index t \<and>
    (index t \<le> 2 ^ 32 \<longrightarrow> gains_between (index s) (index t) (gainIndices c))"
  have "?I c' s'"
  proof (rule walk_invariant [where I = ?I and T = T, OF _ _ w])
    show "?I [] s" by simp
  next
    fix n c t r t1
    assume I: "?I c t" and d: "deserialize T n ctx t = (r, t1)"
    note g = des [OF d]
    have 1: "?I c t1"
      using I g gains_between_mono [of "index s" "index t" "gainIndices c" "index s" "index t1"]
      by auto
    have 2: "?I (snd (addElementToCollection T e c)) t1" if e: "r = Inr e" for e
    proof -
      have "gains_between (index s) (index t1) (gainIndices (c @ [e]))" if b: "index t1 \<le> 2 ^ 32"
      proof -
        have "gains_between (index t) (index t1) (map mIndex (mGains e))"
          using g e b by blast
        moreover have "gains_between (index s) (index t) (gainIndices c)"
          using I g b by simp
        ultimately show ?thesis
          using gains_between_append
            [of "index s" "index t" "gainIndices c" "index t1" "map mIndex (mGains e)"] I g
          by simp
      qed
      then show ?thesis
        using 1 PortCollection_add_cases [of e c] unfolding add by metis
    qed
    show "?I c t1 \<and> (\<forall>e. r = Inr e \<longrightarrow> ?I (snd (addElementToCollection T e c)) t1)"
      using 1 2 by blast
  qed
  then show ?thesis using b by simp
qed

lemma mixPorts_walk_between:
  assumes "deserializeCollection (MixPortTraits ext) cur [] ctx s = (st, c', s')"
    and "index s' \<le> 2 ^ 32"
  shows "gains_between (index s) (index s') (gainIndices c')"
proof (rule ports_walk_between [where T = "MixPortTraits ext", OF _ _ assms])
  fix n t r t1
  assume d: "deserialize (MixPortTraits ext) n ctx t = (r, t1)"
  then have d': "MixPortTraits_deserialize ext n ctx t = (r, t1)"
    by (simp add: MixPortTraits_def)
  show "index t \<le> index t1 \<and>
      (\<forall>port. r = Inr port \<longrightarrow> index t1 \<le> 2 ^ 32 \<longrightarrow>
         gains_between (index t) (index t1) (map mIndex (mGains port)))"
    using MixPortTraits_frame [OF d'] MixPort_gains [of ext n ctx t _ t1] d'
    by (auto simp add: parsing_frame_def)
qed (simp add: MixPortTraits_def)

lemma devicePorts_walk_between:
  assumes "deserializeCollection (DevicePortTraits ext) cur [] ctx s = (st, c', s')"
    and "index s' \<le> 2 ^ 32"
  shows "gains_between (index s) (index s') (gainIndices c')"
proof (rule ports_walk_between [where T = "DevicePortTraits ext", OF _ _ assms])
  fix n t r t1
  assume d: "deserialize (DevicePortTraits ext) n ctx t = (r, t1)"
  then have d': "DevicePortTraits_deserialize ext n ctx t = (r, t1)"
    by (simp add: DevicePortTraits_def)
  show "index t \<le> index t1 \<and>
      (\<forall>port. r = Inr port \<longrightarrow> index t1 \<le> 2 ^ 32 \<longrightarrow>
         gains_between (index t) (index t1) (map mIndex (mGains port)))"
    using DevicePortTraits_frame [OF d'] DevicePort_gains [of ext n ctx t _ t1] d'
    by (auto simp add: parsing_frame_def)
qed (simp add: DevicePortTraits_def)

text \<open>The A2DP patches add ports without gains or take ports away.\<close>

lemma gains_between_erase_first:
  "gains_between lo hi (gainIndices ps) \<Longrightarrow> gains_between lo hi (gainIndices (erase_first P ps))"
proof (induction ps)
  case Nil
  then show ?case by simp
next
  case (Cons p ps)
  have tl: "gains_between lo hi (gainIndices ps)"
    and hd: "gains_between lo hi (map mIndex (mGains p))"
    using Cons.prems gains_between_appendD [of lo hi "map mIndex (mGains p)" "gainIndices ps"]
    by simp_all
  show ?case
  proof (cases "P p")
    case True
    then show ?thesis using tl by simp
  next
    case False
    have "set (gainIndices (erase_first P ps)) \<subseteq> set (gainIndices ps)"
    proof (induction ps)
      case Nil
      then show ?case by simp
    next
      case (Cons q qs)
      then show ?case by auto
    qed
    moreover have "sorted_wrt (<) (gainIndices (erase_first P ps))"
      using Cons.IH [OF tl] by (simp add: gains_between_def)
    ultimately have "gains_between lo hi (map mIndex (mGains p) @ gainIndices (erase_first P ps))"
      using Cons.prems
      by (auto simp add: gains_between_def sorted_wrt_append)
    then show ?thesis using False by simp
  qed
qed

lemma gainIndices_a2dp [simp]:
  "mGains (a2dpOutputMixPort ext) = []" "mGains (a2dpDevicePort ext ty n) = []"
  by (simp_all add: a2dpOutputMixPort_def a2dpDevicePort_def new_IOProfile_def
      new_DeviceDescriptor_def)

lemma gainIndices_PortCollection_add:
  "mGains d = [] \<Longrightarrow> gainIndices (snd (PortCollection_add d c)) = gainIndices c"
  by (simp add: PortCollection_add_def)

lemma patchA2dpMixPorts_gains:
  "patchA2dpMixPorts ext a ps s = (ps', s') \<Longrightarrow> gainIndices ps' = gainIndices ps"
  by (auto simp add: patchA2dpMixPorts_def Let_def split: if_splits)

lemma patchA2dpDevicePorts_gains:
  assumes "gains_between lo hi (gainIndices ps)"
  shows "gains_between lo hi (gainIndices (patchA2dpDevicePorts ext a p ps s))"
proof -
  have "gains_between lo hi (gainIndices (fold (\<lambda>out. erase_first (\<lambda>port. mTagName port = out)) ns qs))"
    if "gains_between lo hi (gainIndices qs)" for ns qs
    using that
  proof (induction ns arbitrary: qs)
    case Nil
    then show ?case by simp
  next
    case (Cons n ns)
    then show ?case using gains_between_erase_first by simp
  qed
  then show ?thesis
    using assms
    by (simp add: patchA2dpDevicePorts_def gainIndices_PortCollection_add)
qed

section \<open>The gain counter through a load\<close>

lemma gain_step_refl [simp]: "gain_step s s"
  by (simp add: gain_step_def)

lemma gain_step_trans:
  assumes "gain_step s t" and "gain_step t u"
  shows "gain_step s u"
proof -
  let ?a = "length (ports s)" and ?b = "length (ports t)"
  have len: "?a \<le> ?b" "?b \<le> length (ports u)" and idx: "index s \<le> index t" "index t \<le> index u"
    using assms by (simp_all add: gain_step_def)
  have tk: "map mGains (take ?b (ports u)) = map mGains (ports t)"
    and tk0: "map mGains (take ?a (ports t)) = map mGains (ports s)"
    using assms by (simp_all add: gain_step_def)
  have "map mGains (take ?a (ports u)) = take ?a (map mGains (take ?b (ports u)))"
    using len by (simp add: take_map min_def)
  also have "\<dots> = take ?a (map mGains (ports t))"
    by (simp only: tk)
  also have "\<dots> = map mGains (ports s)"
    using tk0 by (simp add: take_map)
  finally have 1: "map mGains (take ?a (ports u)) = map mGains (ports s)" .
  have "drop ?a (take ?b (ports u) @ drop ?b (ports u)) =
      drop ?a (take ?b (ports u)) @ drop ?b (ports u)"
    using len by (simp del: append_take_drop_id)
  then have sp: "drop ?a (ports u) = drop ?a (take ?b (ports u)) @ drop ?b (ports u)"
    by (simp only: append_take_drop_id)
  have "map mGains (drop ?a (take ?b (ports u))) = drop ?a (map mGains (take ?b (ports u)))"
    by (simp add: drop_map)
  also have "\<dots> = drop ?a (map mGains (ports t))"
    by (simp only: tk)
  also have "\<dots> = map mGains (drop ?a (ports t))"
    by (simp add: drop_map)
  finally have "gainIndices (drop ?a (take ?b (ports u))) = gainIndices (drop ?a (ports t))"
    by (rule gainIndices_cong)
  then have dr: "gainIndices (drop ?a (ports u)) =
      gainIndices (drop ?a (ports t)) @ gainIndices (drop ?b (ports u))"
    by (simp only: sp gainIndices_simps)
  have 2: "gains_between (index s) (index u) (gainIndices (drop ?a (ports u)))"
    if b: "index u \<le> 2 ^ 32"
  proof -
    have bt: "index t \<le> 2 ^ 32"
      using b idx(2) by simp
    have A: "gains_between (index s) (index t) (gainIndices (drop ?a (ports t)))"
      using assms(1) bt unfolding gain_step_def by blast
    have B: "gains_between (index t) (index u) (gainIndices (drop ?b (ports u)))"
      using assms(2) b unfolding gain_step_def by blast
    show ?thesis
      unfolding dr by (rule gains_between_append [OF A B idx])
  qed
  have "index s \<le> index u" "?a \<le> length (ports u)"
    using len idx by simp_all
  then show ?thesis
    unfolding gain_step_def using 1 2 by blast
qed

lemma same_gains_step:
  assumes "length (ports s') = length (ports s)" "map mGains (ports s') = map mGains (ports s)"
    "index s \<le> index s'"
  shows "gain_step s s'"
  using assms by (simp add: gain_step_def)

lemma parsing_gain_step: "parsing_frame s s' \<Longrightarrow> gain_step s s'"
  by (rule same_gains_step) (simp_all add: parsing_frame_def)

lemma attach_gain_step: "attach_frame s s' \<Longrightarrow> gain_step s s'"
  by (rule same_gains_step) (simp_all add: attach_frame_def)

lemma routing_gain_step:
  assumes "routing_frame s s'"
  shows "gain_step s s'"
proof (rule same_gains_step)
  show l: "length (ports s') = length (ports s)" and "index s \<le> index s'"
    using assms by (simp_all add: routing_frame_def)
  have "mGains (ports s' ! h) = mGains (ports s ! h)" if h: "h < length (ports s)" for h
  proof -
    obtain routes where "ports s' ! h = (ports s ! h)\<lparr>mRoutes := routes\<rparr>"
      using assms h unfolding routing_frame_def by blast
    then show ?thesis by simp
  qed
  then show "map mGains (ports s') = map mGains (ports s)"
    using l by (simp add: list_eq_iff_nth_eq)
qed

lemma register_gain_step:
  assumes "ports s' = ports s @ ps" "index s \<le> index s'"
    "index s' \<le> 2 ^ 32 \<longrightarrow> gains_between (index s) (index s') (gainIndices ps)"
  shows "gain_step s s'"
  using assms by (simp add: gain_step_def)

lemma finish_gain_step: "gain_step s (earpieceStep m (moduleChildren m cs s))"
  using attach_gain_step [OF attach_frame_trans]
    moduleChildren_frame [of s m cs] earpieceStep_frame [of "moduleChildren m cs s" m]
  by blast

lemma moduleFromRoutes_gain_step:
  assumes "moduleFromRoutes cur a p module devicePorts s = (r, s')"
  shows "gain_step s s'"
proof -
  obtain st0 routes0 s1 where w:
    "deserializeCollection RouteTraits cur [] module s = (st0, routes0, s1)"
    by (cases "deserializeCollection RouteTraits cur [] module s")
  obtain st1 routes1 s2 where q:
    "patchA2dpRoutes a p module routes0 s1 = (st1, routes1, s2)"
    by (cases "patchA2dpRoutes a p module routes0 s1")
  obtain st2 routes s3 where x:
    "fixupQualcommBtScoRoute routes1 devicePorts module s2 = (st2, routes, s3)"
    by (cases "fixupQualcommBtScoRoute routes1 devicePorts module s2")
  have 1: "gain_step s s1"
    using routes_walk_frame [OF w] by (rule routing_gain_step)
  have 2: "gain_step s s2"
    using gain_step_trans [OF 1 routing_gain_step [OF patchA2dpRoutes_frame [OF q]]] .
  have 3: "gain_step s s3"
    using gain_step_trans [OF 2 routing_gain_step [OF fixup_frame [OF x]]] .
  have 4: "gain_step s (earpieceStep m (moduleChildren m cs s3))" for m cs
    using gain_step_trans [OF 3 finish_gain_step] .
  show ?thesis
    using assms w q x 1 2 3 4
    by (auto simp add: moduleFromRoutes_def Let_def split: if_splits)
qed

lemma moduleFromDevicePorts_gain_step:
  assumes "moduleFromDevicePorts ext cur a p module s = (r, s')"
  shows "gain_step s s'"
proof -
  obtain st0 devicePorts0 s1 where w:
    "deserializeCollection (DevicePortTraits ext) cur [] () s = (st0, devicePorts0, s1)"
    by (cases "deserializeCollection (DevicePortTraits ext) cur [] () s")
  let ?dps = "patchA2dpDevicePorts ext a p devicePorts0 s1"
  obtain module1 s2 where d: "setDeclaredDevices module ?dps s1 = (module1, s2)"
    by (cases "setDeclaredDevices module ?dps s1")
  have f: "parsing_frame s s1"
    by (rule devicePorts_walk_frame [OF w])
  have 1: "gain_step s s1"
    using f by (rule parsing_gain_step)
  have 2: "gain_step s s2"
  proof (rule register_gain_step [where ps = ?dps])
    show "ports s2 = ports s @ ?dps" "index s \<le> index s2"
      using setDeclaredDevices_same [OF d] f by (simp_all add: parsing_frame_def)
    show "index s2 \<le> 2 ^ 32 \<longrightarrow> gains_between (index s) (index s2) (gainIndices ?dps)"
      using setDeclaredDevices_same [OF d] devicePorts_walk_between [OF w]
        patchA2dpDevicePorts_gains by simp
  qed
  have 3: "gain_step s t" if "moduleFromRoutes cur a p module1 ?dps s2 = (r, t)" for t
    using gain_step_trans [OF 2 moduleFromRoutes_gain_step [OF that]] .
  show ?thesis
    using assms w d 1 3
    by (auto simp add: moduleFromDevicePorts_def Let_def split: if_splits)
qed

lemma ModuleTraits_deserialize_gain_step:
  assumes "ModuleTraits_deserialize ext cur ctx s = (r, s')"
  shows "gain_step s s'"
proof -
  let ?a = "getXmlAttribute cur ''name'' = ''a2dp''"
  obtain st0 mixPorts0 s1 where w:
    "deserializeCollection (MixPortTraits ext) cur [] () s = (st0, mixPorts0, s1)"
    by (cases "deserializeCollection (MixPortTraits ext) cur [] () s")
  obtain mixPorts s2 where q: "patchA2dpMixPorts ext ?a mixPorts0 s1 = (mixPorts, s2)"
    by (cases "patchA2dpMixPorts ext ?a mixPorts0 s1")
  have f: "parsing_frame s s1"
    by (rule mixPorts_walk_frame [OF w])
  have 1: "gain_step s s1"
    using f by (rule parsing_gain_step)
  have 3: "gain_step s s3" if sp: "setProfiles m0 mixPorts s2 = (module1, s3)" for m0 module1 s3
  proof (rule register_gain_step [where ps = mixPorts])
    show "ports s3 = ports s @ mixPorts" "index s \<le> index s3"
      using setProfiles_same [OF sp] patchA2dpMixPorts_same [OF q] f
      by (simp_all add: parsing_frame_def)
    show "index s3 \<le> 2 ^ 32 \<longrightarrow> gains_between (index s) (index s3) (gainIndices mixPorts)"
      using setProfiles_same [OF sp] patchA2dpMixPorts_same [OF q]
        mixPorts_walk_between [OF w] patchA2dpMixPorts_gains [OF q] by simp
  qed
  have 4: "gain_step s t" if "setProfiles m0 mixPorts s2 = (module1, s3)"
    "moduleFromDevicePorts ext cur a p module1 s3 = (r, t)" for m0 module1 s3 a p t
    using gain_step_trans [OF 3 [OF that(1)] moduleFromDevicePorts_gain_step [OF that(2)]] .
  show ?thesis
    using assms w q 1 4
    by (auto simp add: ModuleTraits_deserialize_def Let_def split: if_splits prod.splits)
qed

lemma modules_walk_gain_step:
  "deserializeCollection (ModuleTraits ext) cur c ctx s = (st, c', s') \<Longrightarrow> gain_step s s'"
  by (rule walk_rel [where T = "ModuleTraits ext" and R = gain_step])
    (auto simp add: ModuleTraits_def ModuleTraits_deserialize_gain_step intro: gain_step_trans)

lemma PolicySerializer_deserialize_gain_step:
  assumes "PolicySerializer_deserialize ext doc s = (st, s')"
  shows "gain_step s s'"
proof (cases "\<exists>d root. doc = Some d \<and> xmlDocGetRootElement d = Some root \<and>
    xml_name root = rootName \<and> getXmlAttribute root versionAttribute = mVersion")
  case False
  then have "s' = s"
    using assms
    by (auto simp add: PolicySerializer_deserialize_def Let_def split: option.splits if_splits)
  then show ?thesis by simp
next
  case True
  then obtain d root where r: "doc = Some d" "xmlDocGetRootElement d = Some root"
    "xml_name root = rootName" "getXmlAttribute root versionAttribute = mVersion"
    by blast
  obtain st0 modules s1 where w:
    "deserializeCollection (ModuleTraits ext) root [] () s = (st0, modules, s1)"
    by (cases "deserializeCollection (ModuleTraits ext) root [] () s")
  let ?s2 = "s1\<lparr>config := (config s1)\<lparr>mHwModules := modules\<rparr>\<rparr>"
  let ?s3 = "snd (GlobalConfigTraits_deserialize ext root ?s2)"
  let ?s4 = "snd (SurroundSoundTraits_deserialize ext root ?s3)"
  have 1: "gain_step s s1"
    by (rule modules_walk_gain_step [OF w])
  have p3: "ports ?s3 = ports s1 \<and> index ?s3 = index s1"
    by (simp add: GlobalConfigTraits_deserialize_def Let_def split: option.splits)
  have p4: "ports ?s4 = ports ?s3 \<and> index ?s4 = index ?s3"
    by (auto simp add: SurroundSoundTraits_deserialize_def Let_def
        split: option.splits prod.splits dest!: formats_walk_state)
  have "gain_step s1 ?s4"
    by (rule same_gains_step) (simp_all add: p3 p4)
  then have 4: "gain_step s ?s4"
    by (rule gain_step_trans [OF 1])
  have v: "mVersion \<noteq> []"
    by (simp add: mVersion_literal)
  have "s' = s1 \<or> s' = ?s4"
    using assms r w v
    by (simp add: PolicySerializer_deserialize_def Let_def split: if_splits)
  then show ?thesis
    using 1 4 by blast
qed

subsection \<open>The indices of the gains across a load\<close>

text \<open>
  Claim C7.  Every gain that is parsed takes the value of the process-wide counter as its
  index, reduced modulo \<open>2 ^ 32\<close>, and the counter goes up by one, whether the gain is
  accepted or not.  Across one entire load that leaves the counter at \<open>2 ^ 32\<close> at most:
  the counter does not decrease; the ports that were in the store before the load keep
  their gains; the gains of the ports that the load puts in the store, read in the order
  of the ports and of their gains, have strictly increasing indices, none below the
  counter at the start of the load and all below the counter at its end.  Hence, when the
  gains of the earlier loads have increasing indices below the counter, so have all the
  gains after this load: the indices go on increasing from one load to the next.
\<close>

theorem gain_indices_increase:
  "(AudioGainTraits_deserialize ext cur ctx s = (r, s1) \<longrightarrow>
      index s1 = index s + 1 \<and>
      (\<forall>gain. r = Inr gain \<longrightarrow> mIndex gain = word_of_nat (index s))) \<and>
   (PolicySerializer_deserialize ext doc s = (st, s') \<and> index s' \<le> 2 ^ 32 \<longrightarrow>
      index s \<le> index s' \<and>
      map mGains (take (length (ports s)) (ports s')) = map mGains (ports s) \<and>
      gains_between (index s) (index s') (gainIndices (drop (length (ports s)) (ports s'))) \<and>
      (gains_between 0 (index s) (gainIndices (ports s)) \<longrightarrow>
         gains_between 0 (index s') (gainIndices (ports s'))))"
proof (intro conjI impI)
  assume "AudioGainTraits_deserialize ext cur ctx s = (r, s1)"
  from AudioGainTraits_deserialize_index [OF this]
  show "index s1 = index s + 1"
    and "\<forall>gain. r = Inr gain \<longrightarrow> mIndex gain = word_of_nat (index s)"
    by simp_all
next
  assume a: "PolicySerializer_deserialize ext doc s = (st, s') \<and> index s' \<le> 2 ^ 32"
  then have g: "gain_step s s'"
    using PolicySerializer_deserialize_gain_step by blast
  show i: "index s \<le> index s'"
    and m: "map mGains (take (length (ports s)) (ports s')) = map mGains (ports s)"
    and n: "gains_between (index s) (index s')
      (gainIndices (drop (length (ports s)) (ports s')))"
    using g a by (simp_all add: gain_step_def)
  assume o: "gains_between 0 (index s) (gainIndices (ports s))"
  have "gainIndices (ports s') =
      gainIndices (take (length (ports s)) (ports s')) @
      gainIndices (drop (length (ports s)) (ports s'))"
    by (simp only: gainIndices_simps(3) [symmetric] append_take_drop_id)
  also have "gainIndices (take (length (ports s)) (ports s')) = gainIndices (ports s)"
    using m by (rule gainIndices_cong)
  finally show "gains_between 0 (index s') (gainIndices (ports s'))"
    using gains_between_append [OF o n] i by simp
qed

text \<open>A document with gains in three ports of two modules, one of the gains refused: the
  counter ends at six and the five accepted gains lie below it in increasing order.\<close>

theorem gain_indices_increase_witness:
  "index (snd (PolicySerializer_deserialize example_externs (Some gains_document)
       example_globals)) = 6 \<and>
   map (\<lambda>p. length (mGains p)) (ports (snd (PolicySerializer_deserialize example_externs
       (Some gains_document) example_globals))) = [2, 1, 2] \<and>
   gains_between 0 6
     (gainIndices (ports (snd (PolicySerializer_deserialize example_externs
        (Some gains_document) example_globals))))"
proof -
  let ?r = "PolicySerializer_deserialize example_externs (Some gains_document) example_globals"
  have 1: "index (snd ?r) = 6"
    by code_simp
  have 2: "map (\<lambda>p. length (mGains p)) (ports (snd ?r)) = [2, 1, 2]"
    by code_simp
  have h: "?r = (fst ?r, snd ?r) \<and> index (snd ?r) \<le> 2 ^ 32"
    using 1 by simp
  have 0: "gains_between 0 (index example_globals) (gainIndices (ports example_globals))"
    by (simp add: example_globals_def gainIndices_def gains_between_def)
  from gain_indices_increase
    [where ext = example_externs and doc = "Some gains_document" and s = example_globals
      and st = "fst ?r" and s' = "snd ?r", THEN conjunct2, rule_format, OF h]
  have "gains_between 0 6 (gainIndices (ports (snd ?r)))"
    using 0 1 by simp
  then show ?thesis
    using 1 2 by (intro conjI)
qed

text \<open>
  The counter is a 32-bit unsigned integer: the gain parsed when it stands at
  \<open>2 ^ 32 - 1\<close> is followed by a gain of index \<open>0\<close>, in the same port.
\<close>

theorem gain_index_wraps_counterexample:
  "(case MixPortTraits_deserialize example_externs two_gains_port ()
           (example_globals\<lparr>index := 4294967295\<rparr>) of
      (Inr port, s') \<Rightarrow> map mIndex (mGains port) = [0xFFFFFFFF, 0]
    | (Inl _, s') \<Rightarrow> False)"
  by (simp add: eval_defs example_externs_def two_gains_port_def joint_gain_def
      example_globals_def)

section \<open>The module patches for A2DP\<close>

lemma tags_frame:
  assumes "routing_frame t s'" and "h < length (ports t)"
  shows "getTagName s' h = getTagName t h"
proof -
  obtain routes where "ports s' ! h = (ports t ! h)\<lparr>mRoutes := routes\<rparr>"
    using assms by (auto simp add: routing_frame_def)
  then show ?thesis
    by (simp add: getTagName_def)
qed

lemma declaredPorts_registered:
  assumes "routing_frame t u" and "ports s' = ports u" and "ports t = pre @ ps @ post"
  shows "declaredPorts s' [length pre ..< length pre + length ps] = withoutRoutes ps"
proof -
  have "(ports s' ! (length pre + i))\<lparr>mRoutes := []\<rparr> = (ps ! i)\<lparr>mRoutes := []\<rparr>"
    if "i < length ps" for i
  proof -
    have "length pre + i < length (ports t)"
      using that assms(3) by simp
    then obtain routes where
      "ports s' ! (length pre + i) = (ports t ! (length pre + i))\<lparr>mRoutes := routes\<rparr>"
      using assms(1, 2) by (auto simp add: routing_frame_def)
    moreover have "ports t ! (length pre + i) = ps ! i"
      using that assms(3) by (simp add: nth_append)
    ultimately show ?thesis
      by simp
  qed
  then show ?thesis
    by (auto simp add: declaredPorts_def withoutRoutes_def intro!: nth_equalityI)
qed

lemma set_erase_first: "set (erase_first P xs) \<subseteq> set xs"
  by (induction xs) auto

lemma erase_first_cong:
  "(\<forall>x \<in> set xs. P x = Q x) \<Longrightarrow> erase_first P xs = erase_first Q xs"
  by (induction xs) auto

lemma erase_first_none: "(\<forall>x \<in> set xs. \<not> P x) \<Longrightarrow> erase_first P xs = xs"
  by (induction xs) auto

lemma erase_first_distinct:
  "distinct (map f xs) \<Longrightarrow> erase_first (\<lambda>x. f x = a) xs = filter (\<lambda>x. f x \<noteq> a) xs"
proof (induction xs)
  case Nil
  show ?case by simp
next
  case (Cons x xs)
  show ?case
  proof (cases "f x = a")
    case True
    then have "\<forall>y \<in> set xs. f y \<noteq> a"
      using Cons.prems by (auto simp add: image_iff)
    then have "filter (\<lambda>x. f x \<noteq> a) xs = xs"
      by (simp add: filter_id_conv)
    then show ?thesis
      using True by simp
  next
    case False
    then show ?thesis
      using Cons by simp
  qed
qed

lemma patchA2dpMixPorts_a2dp:
  assumes "forceDisableA2dpOffload s" and "\<forall>p \<in> set mixPorts. mTagName p \<noteq> ''a2dp output''"
  shows "patchA2dpMixPorts ext True mixPorts s = (mixPorts @ [a2dpOutputMixPort ext], s)"
  using assms by (simp add: patchA2dpMixPorts_def Let_def)

lemma patchA2dpMixPorts_other: "patchA2dpMixPorts ext False mixPorts s = (mixPorts, s)"
  by (simp add: patchA2dpMixPorts_def Let_def)

lemma a2dpDevicePort_tag: "mTagName (a2dpDevicePort ext type tagName) = tagName"
  by (simp add: a2dpDevicePort_def new_DeviceDescriptor_def)

lemma patchA2dpDevicePorts_a2dp:
  assumes "forceDisableA2dpOffload s" and "\<forall>p \<in> set devicePorts. mTagName p \<notin> set a2dpOuts"
  shows "patchA2dpDevicePorts ext True p devicePorts s =
    devicePorts @
    [a2dpDevicePort ext (AUDIO_DEVICE_OUT_BLUETOOTH_A2DP ext) ''BT A2DP Out'',
     a2dpDevicePort ext (AUDIO_DEVICE_OUT_BLUETOOTH_A2DP_HEADPHONES ext) ''BT A2DP Headphones'',
     a2dpDevicePort ext (AUDIO_DEVICE_OUT_BLUETOOTH_A2DP_SPEAKER ext) ''BT A2DP Speaker'']"
proof -
  have "''BT A2DP Out'' \<notin> mTagName ` set devicePorts"
    "''BT A2DP Headphones'' \<notin> mTagName ` set devicePorts"
    "''BT A2DP Speaker'' \<notin> mTagName ` set devicePorts"
    using assms(2) by (auto simp add: a2dpOuts_def)
  then show ?thesis
    using assms(1)
    by (simp add: patchA2dpDevicePorts_def PortCollection_add_def a2dpDevicePort_tag)
qed

lemma patchA2dpDevicePorts_primary:
  assumes "forceDisableA2dpOffload s" and "distinct (map mTagName devicePorts)"
  shows "patchA2dpDevicePorts ext False True devicePorts s =
    filter (\<lambda>p. mTagName p \<notin> set a2dpOuts) devicePorts"
proof -
  have d: "distinct (map mTagName (filter P devicePorts))" for P
    using assms(2) by (simp add: distinct_map_filter)
  have "patchA2dpDevicePorts ext False True devicePorts s =
    filter (\<lambda>p. mTagName p \<noteq> ''BT A2DP Speaker'')
      (filter (\<lambda>p. mTagName p \<noteq> ''BT A2DP Headphones'')
        (filter (\<lambda>p. mTagName p \<noteq> ''BT A2DP Out'') devicePorts))"
    using assms(1)
    by (simp add: patchA2dpDevicePorts_def a2dpOuts_def erase_first_distinct assms(2) d)
  also have "\<dots> = filter (\<lambda>p. mTagName p \<notin> set a2dpOuts) devicePorts"
    by (auto simp add: a2dpOuts_def intro: filter_cong)
  finally show ?thesis .
qed

lemma ports_walk_distinct:
  assumes add: "addElementToCollection T =
      AndroidCollectionTraits_addElementToCollection PortCollection_add"
    and w: "deserializeCollection T cur [] ctx s = (st, c', s')"
  shows "distinct (map mTagName c')"
proof -
  let ?I = "\<lambda>(c :: PolicyAudioPort list) (t :: 'c). distinct (map mTagName c)"
  have step: "?I c t1 \<and> (\<forall>e. r = Inr e \<longrightarrow> ?I (snd (addElementToCollection T e c)) t1)"
    if "?I c t" for n c t r t1
    using that
    by (simp add: add AndroidCollectionTraits_addElementToCollection_def PortCollection_add_def)
  show ?thesis
    by (rule walk_invariant [where I = ?I and T = T, OF _ _ w]) (use step in auto)
qed


lemma findPortByTagName_frame:
  assumes "routing_frame s t" and "\<forall>h \<in> set (mPorts module). h < length (ports s)"
  shows "findPortByTagName module t n = findPortByTagName module s n"
proof -
  have "(getTagName t h = n) = (getTagName s h = n)" if "h \<in> set (mPorts module)" for h
    using tags_frame [OF assms(1)] assms(2) that by simp
  then show ?thesis
    unfolding findPortByTagName_def by (intro find_cong) simp_all
qed

lemma fold_addA2dpRoute_error:
  "st \<noteq> NO_ERROR \<Longrightarrow> fold (addA2dpRoute module) outs (st, routes, s) = (st, routes, s)"
  by (induction outs) (simp_all add: addA2dpRoute_def)

lemma fold_addA2dpRoute:
  assumes "\<forall>h \<in> set (mPorts module). h < length (ports s)"
    and "fold (addA2dpRoute module) outs (NO_ERROR, routes, s) = (NO_ERROR, routes', s')"
  shows "routes' = routes @
      map (\<lambda>out. \<lparr>mType = AUDIO_ROUTE_MIX, mSink = the (findPortByTagName module s out),
             mSources = [the (findPortByTagName module s ''a2dp output'')]\<rparr>) outs \<and>
    (\<forall>out \<in> set outs. findPortByTagName module s out \<noteq> None \<and>
       findPortByTagName module s ''a2dp output'' \<noteq> None)"
  using assms
proof (induction outs arbitrary: routes s)
  case Nil
  then show ?case by simp
next
  case (Cons out outs)
  have ok: "findPortByTagName module s out \<noteq> None \<and>
      findPortByTagName module s ''a2dp output'' \<noteq> None"
  proof (rule ccontr)
    assume "\<not> ?thesis"
    then have "addA2dpRoute module out (NO_ERROR, routes, s) = (NULL_DEREFERENCE, routes, s)"
      by (auto simp add: addA2dpRoute_def split: option.splits)
    then show False
      using Cons.prems(2) by (simp add: fold_addA2dpRoute_error)
  qed
  then obtain sink source where f: "findPortByTagName module s out = Some sink"
    "findPortByTagName module s ''a2dp output'' = Some source"
    by auto
  let ?r = "\<lparr>mType = AUDIO_ROUTE_MIX, mSink = sink, mSources = [source]\<rparr>"
  let ?t = "addRoute source ?r (addRoute sink ?r s)"
  have step: "addA2dpRoute module out (NO_ERROR, routes, s) = (NO_ERROR, routes @ [?r], ?t)"
    using f by (simp add: addA2dpRoute_def Let_def Vector_add_def)
  have fr: "routing_frame s ?t"
    using routing_frame_trans [OF addRoute_frame addRoute_frame] .
  then have len: "length (ports ?t) = length (ports s)"
    by (simp add: routing_frame_def)
  have same: "findPortByTagName module ?t n = findPortByTagName module s n" for n
    using findPortByTagName_frame [OF fr Cons.prems(1)] .
  have rest: "fold (addA2dpRoute module) outs (NO_ERROR, routes @ [?r], ?t) =
      (NO_ERROR, routes', s')"
    using Cons.prems(2) step by simp
  have range: "\<forall>h \<in> set (mPorts module). h < length (ports ?t)"
    using Cons.prems(1) len by simp
  from Cons.IH [OF range rest] show ?case
    using f by (simp add: same)
qed

lemma patchA2dpRoutes_primary:
  "forceDisableA2dpOffload s \<Longrightarrow>
   patchA2dpRoutes a True module routes s =
     (NO_ERROR,
      fold (\<lambda>out. erase_first
              (\<lambda>route. mType route = AUDIO_ROUTE_MIX \<and> getTagName s (mSink route) = out))
        a2dpOuts routes, s)"
  by (simp add: patchA2dpRoutes_def)

lemma patchA2dpRoutes_a2dp:
  "forceDisableA2dpOffload s \<Longrightarrow>
   patchA2dpRoutes True False module routes s =
     fold (addA2dpRoute module) a2dpOuts (NO_ERROR, routes, s)"
  by (simp add: patchA2dpRoutes_def)

lemma fixup_result:
  assumes "fixupQualcommBtScoRoute routes devicePorts ctx s = (NO_ERROR, routes', s')"
  shows "\<exists>rest. routes' = routes @ rest \<and>
    (\<forall>r \<in> set rest. mSink r \<in> set (mPorts ctx) \<and> getTagName s (mSink r) = ''BT SCO Headset'')"
proof (cases "routes' = routes")
  case True
  then show ?thesis by simp
next
  case False
  then obtain sink sources where
    "findPortByTagName ctx s ''BT SCO Headset'' = Some sink"
    "routes' = routes @ [\<lparr>mType = AUDIO_ROUTE_MIX, mSink = sink, mSources = sources\<rparr>]"
    using assms
    by (auto simp add: fixupQualcommBtScoRoute_def Let_def Vector_add_def
        split: if_splits prod.splits option.splits)
  then show ?thesis
    using findPortByTagName_Some by fastforce
qed

lemma RouteTraits_sink:
  "RouteTraits_deserialize cur ctx s = (Inr route, s1) \<Longrightarrow> mSink route \<in> set (mPorts ctx)"
  by (auto simp add: RouteTraits_deserialize_def Let_def
      dest: findPortByTagName_Some split: if_splits option.splits)

lemma routes_walk_sinks:
  assumes w: "deserializeCollection RouteTraits cur [] ctx s = (st, c', s')"
  shows "\<forall>r \<in> set c'. mSink r \<in> set (mPorts ctx)"
proof -
  let ?I = "\<lambda>(c :: AudioRoute list) (t :: globals). \<forall>r \<in> set c. mSink r \<in> set (mPorts ctx)"
  have step: "?I c t1 \<and> (\<forall>e. r = Inr e \<longrightarrow> ?I (snd (addElementToCollection RouteTraits e c)) t1)"
    if "?I c t" "deserialize RouteTraits n ctx t = (r, t1)" for n c t r t1
    using that RouteTraits_sink [of n ctx t _ t1]
    by (auto simp add: RouteTraits_def AndroidCollectionTraits_addElementToCollection_def
        Vector_add_def)
  show ?thesis
    by (rule walk_invariant [where I = ?I and T = RouteTraits, OF _ _ w]) (use step in auto)
qed


lemma declaredPorts_tags:
  assumes "declaredPorts s hs = withoutRoutes ps"
  shows "map (getTagName s) hs = map mTagName ps"
proof -
  have "map mTagName (declaredPorts s hs) = map mTagName (withoutRoutes ps)"
    using assms by simp
  then show ?thesis
    by (simp add: declaredPorts_def withoutRoutes_def getTagName_def [abs_def] comp_def)
qed

lemma fold_erase_first_subset: "set (fold (\<lambda>out. erase_first (P out)) outs xs) \<subseteq> set xs"
proof (induction outs arbitrary: xs)
  case Nil
  show ?case by simp
next
  case (Cons out outs)
  show ?case
    using Cons.IH [of "erase_first (P out) xs"] set_erase_first [of "P out" xs] by auto
qed

lemma fold_erase_first_cong:
  assumes "\<forall>out. \<forall>x \<in> set xs. P out x = Q out x"
  shows "fold (\<lambda>out. erase_first (P out)) outs xs = fold (\<lambda>out. erase_first (Q out)) outs xs"
  using assms
proof (induction outs arbitrary: xs)
  case Nil
  show ?case by simp
next
  case (Cons out outs)
  have e: "erase_first (P out) xs = erase_first (Q out) xs"
    using Cons.prems by (intro erase_first_cong) simp
  have "\<forall>out'. \<forall>x \<in> set (erase_first (Q out) xs). P out' x = Q out' x"
    using Cons.prems set_erase_first [of "Q out" xs] by auto
  from Cons.IH [OF this] show ?case
    using e by simp
qed

lemma module_stages:
  assumes "ModuleTraits_deserialize ext cur ctx s = (Inr m, s')"
  obtains mixPorts0 s1 mixPorts s2 s3 devicePorts0 s4 devicePorts module2 s5 routes0 s6
    routes1 s7 rest
  where
    "deserializeCollection (MixPortTraits ext) cur [] () s = (NO_ERROR, mixPorts0, s1)"
    "patchA2dpMixPorts ext (getXmlAttribute cur ''name'' = ''a2dp'') mixPorts0 s1 =
       (mixPorts, s2)"
    "deserializeCollection (DevicePortTraits ext) cur [] () s3 = (NO_ERROR, devicePorts0, s4)"
    "devicePorts = patchA2dpDevicePorts ext (getXmlAttribute cur ''name'' = ''a2dp'')
       (getXmlAttribute cur ''name'' = ''primary'') devicePorts0 s4"
    "deserializeCollection RouteTraits cur [] module2 s5 = (NO_ERROR, routes0, s6)"
    "patchA2dpRoutes (getXmlAttribute cur ''name'' = ''a2dp'')
       (getXmlAttribute cur ''name'' = ''primary'') module2 routes0 s6 = (NO_ERROR, routes1, s7)"
    "mModuleRoutes m = routes1 @ rest"
    "\<forall>r \<in> set rest. getTagName s' (mSink r) = ''BT SCO Headset''"
    "forceDisableA2dpOffload s1 = forceDisableA2dpOffload s"
    "forceDisableA2dpOffload s4 = forceDisableA2dpOffload s2"
    "forceDisableA2dpOffload s6 = forceDisableA2dpOffload s2"
    "declaredPorts s' (mIOProfiles m) = withoutRoutes mixPorts"
    "declaredPorts s' (mDeclaredDevices m) = withoutRoutes devicePorts"
    "mPorts m = mIOProfiles m @ mDeclaredDevices m" "mPorts module2 = mPorts m"
    "\<forall>h \<in> set (mPorts m). h < length (ports s6)"
    "\<forall>h \<in> set (mPorts m). getTagName s' h = getTagName s6 h"
    "s3 = snd (registerPorts mixPorts s2)" "s5 = snd (registerPorts devicePorts s4)"
    "module2 = m\<lparr>mModuleRoutes := []\<rparr>"
proof -
  let ?n = "getXmlAttribute cur ''name''"
  from assms obtain mixPorts0 s1 mixPorts s2 module0 module1 s3 where
    m0: "mPorts module0 = []" "mModuleRoutes module0 = []"
    and w1: "deserializeCollection (MixPortTraits ext) cur [] () s = (NO_ERROR, mixPorts0, s1)"
    and p1: "patchA2dpMixPorts ext (?n = ''a2dp'') mixPorts0 s1 = (mixPorts, s2)"
    and sp: "setProfiles module0 mixPorts s2 = (module1, s3)"
    and d: "moduleFromDevicePorts ext cur (?n = ''a2dp'') (?n = ''primary'') module1 s3 =
       (Inr m, s')"
    by (rule ModuleTraits_deserialize_Inr)
  let ?dps = "\<lambda>devicePorts0 s4.
    patchA2dpDevicePorts ext (?n = ''a2dp'') (?n = ''primary'') devicePorts0 s4"
  from d obtain devicePorts0 s4 module2 s5 where
    w2: "deserializeCollection (DevicePortTraits ext) cur [] () s3 = (NO_ERROR, devicePorts0, s4)"
    and sd: "setDeclaredDevices module1 (?dps devicePorts0 s4) s4 = (module2, s5)"
    and r: "moduleFromRoutes cur (?n = ''a2dp'') (?n = ''primary'') module2
       (?dps devicePorts0 s4) s5 = (Inr m, s')"
    by (rule moduleFromDevicePorts_Inr)
  from r obtain routes0 s6 routes1 s7 routes s8 where
    w3: "deserializeCollection RouteTraits cur [] module2 s5 = (NO_ERROR, routes0, s6)"
    and p3: "patchA2dpRoutes (?n = ''a2dp'') (?n = ''primary'') module2 routes0 s6 =
       (NO_ERROR, routes1, s7)"
    and fx: "fixupQualcommBtScoRoute routes1 (?dps devicePorts0 s4) module2 s7 =
       (NO_ERROR, routes, s8)"
    and m: "m = module2\<lparr>mModuleRoutes := routes\<rparr>"
    and s': "s' = earpieceStep m (moduleChildren m (xml_children cur) s8)"
    by (rule moduleFromRoutes_Inr)
  let ?l = "length (ports s2)"
  let ?l2 = "length (ports s4)"
  note sp' = setProfiles_same [OF sp]
  note sd' = setDeclaredDevices_same [OF sd]
  have f1: "parsing_frame s s1"
    using w1 by (rule mixPorts_walk_frame)
  have f2: "parsing_frame s3 s4"
    using w2 by (rule devicePorts_walk_frame)
  have f56: "routing_frame s5 s6"
    using w3 by (rule routes_walk_frame)
  have f67: "routing_frame s6 s7"
    using p3 by (rule patchA2dpRoutes_frame)
  have f78: "routing_frame s7 s8"
    using fx by (rule fixup_frame)
  have f68: "routing_frame s6 s8"
    using f67 f78 by (rule routing_frame_trans)
  have f58: "routing_frame s5 s8"
    using f56 f68 by (rule routing_frame_trans)
  have ps': "ports s' = ports s8"
    using final_state(2) [OF s'] .
  have p4: "ports s4 = ports s2 @ mixPorts"
    using sp' f2 by (simp add: parsing_frame_def)
  have p5: "ports s5 = ports s2 @ mixPorts @ ?dps devicePorts0 s4"
    using sd' p4 by simp
  have io: "mIOProfiles m = [?l ..< ?l + length mixPorts]"
    using sp' sd' m by simp
  have dd: "mDeclaredDevices m = [?l2 ..< ?l2 + length (?dps devicePorts0 s4)]"
    using sd' m by simp
  have mp: "mPorts m = mIOProfiles m @ mDeclaredDevices m"
    using sp' sd' m m0 by simp
  have mp2: "mPorts module2 = mPorts m"
    using m by simp
  have len6: "length (ports s6) = length (ports s5)"
    using f56 by (simp add: routing_frame_def)
  have range: "\<forall>h \<in> set (mPorts m). h < length (ports s6)"
    unfolding mp io dd len6 p5 using p4 by auto
  have tags: "\<forall>h \<in> set (mPorts m). getTagName s' h = getTagName s6 h"
  proof
    fix h assume "h \<in> set (mPorts m)"
    then have "h < length (ports s6)"
      using range by simp
    from tags_frame [OF f68 this] show "getTagName s' h = getTagName s6 h"
      by (simp add: getTagName_def ps')
  qed
  have dp1: "declaredPorts s' (mIOProfiles m) = withoutRoutes mixPorts"
    unfolding io using f58 ps' p5 by (rule declaredPorts_registered)
  have "ports s5 = (ports s2 @ mixPorts) @ ?dps devicePorts0 s4 @ []"
    using p5 by simp
  from declaredPorts_registered [OF f58 ps' this]
  have dp2: "declaredPorts s' (mDeclaredDevices m) = withoutRoutes (?dps devicePorts0 s4)"
    unfolding dd using p4 by simp
  obtain rest where rest: "routes = routes1 @ rest"
    "\<forall>r \<in> set rest. mSink r \<in> set (mPorts module2) \<and>
       getTagName s7 (mSink r) = ''BT SCO Headset''"
    using fixup_result [OF fx] by auto
  have len7: "length (ports s7) = length (ports s6)"
    using f67 by (simp add: routing_frame_def)
  have rt: "\<forall>r \<in> set rest. getTagName s' (mSink r) = ''BT SCO Headset''"
  proof
    fix r assume r: "r \<in> set rest"
    then have "mSink r < length (ports s7)"
      using rest(2) range mp2 len7 by simp
    from tags_frame [OF f78 this] have "getTagName s' (mSink r) = getTagName s7 (mSink r)"
      by (simp add: getTagName_def ps')
    then show "getTagName s' (mSink r) = ''BT SCO Headset''"
      using rest(2) r by simp
  qed
  have fl1: "forceDisableA2dpOffload s1 = forceDisableA2dpOffload s"
    using f1 by (simp add: parsing_frame_def)
  have fl4: "forceDisableA2dpOffload s4 = forceDisableA2dpOffload s2"
    using sp' f2 by (simp add: parsing_frame_def)
  have fl6: "forceDisableA2dpOffload s6 = forceDisableA2dpOffload s2"
    using sd' f56 fl4 by (simp add: routing_frame_def)
  have mr: "mModuleRoutes m = routes1 @ rest"
    using m rest(1) by simp
  have e3: "s3 = snd (registerPorts mixPorts s2)"
    using sp by (auto simp add: setProfiles_def split: prod.splits)
  have e5: "s5 = snd (registerPorts (?dps devicePorts0 s4) s4)"
    using sd by (auto simp add: setDeclaredDevices_def split: prod.splits)
  have e2: "module2 = m\<lparr>mModuleRoutes := []\<rparr>"
    using sp' sd' m m0 by simp
  show ?thesis
    using that [OF w1 p1 w2 refl w3 p3 mr rt fl1 fl4 fl6 dp1 dp2 mp mp2 range tags e3 e5 e2] .
qed


lemma find_by_tag:
  assumes "map f hs = pre @ n # post" and "n \<notin> set pre"
  shows "find (\<lambda>h. f h = n) hs = Some (hs ! length pre)"
  using assms
proof (induction pre arbitrary: hs)
  case Nil
  then show ?case by (cases hs) auto
next
  case (Cons a pre)
  then show ?case by (cases hs) auto
qed

lemma drop_three:
  "length xs = k + 3 \<Longrightarrow> drop k xs = [xs ! k, xs ! (k + 1), xs ! (k + 2)]"
  by (auto simp add: list_eq_iff_nth_eq nth_Cons split: nat.splits)

lemma erase_first_single:
  "length (filter P xs) \<le> 1 \<Longrightarrow> erase_first P xs = filter (\<lambda>x. \<not> P x) xs"
proof (induction xs)
  case Nil
  show ?case by simp
next
  case (Cons x xs)
  show ?case
  proof (cases "P x")
    case True
    then have "filter P xs = []"
      using Cons.prems by simp
    then have "filter (\<lambda>x. \<not> P x) xs = xs"
      by (simp add: filter_empty_conv filter_id_conv)
    then show ?thesis
      using True by simp
  next
    case False
    then show ?thesis
      using Cons by simp
  qed
qed

lemma fold_erase_first_single:
  assumes "\<forall>out \<in> set outs. length (filter (P out) xs) \<le> 1"
  shows "fold (\<lambda>out. erase_first (P out)) outs xs =
    filter (\<lambda>x. \<forall>out \<in> set outs. \<not> P out x) xs"
  using assms
proof (induction outs arbitrary: xs)
  case Nil
  show ?case by simp
next
  case (Cons out outs)
  let ?ys = "filter (\<lambda>x. \<not> P out x) xs"
  have e: "erase_first (P out) xs = ?ys"
    using Cons.prems by (simp add: erase_first_single)
  have "length (filter (P out') ?ys) \<le> length (filter (P out') xs)" for out'
  proof -
    have "filter (P out') ?ys = filter (\<lambda>x. \<not> P out x) (filter (P out') xs)"
      by (simp add: conj_commute)
    then show ?thesis
      using length_filter_le [of "\<lambda>x. \<not> P out x" "filter (P out') xs"]
      by (simp only:)
  qed
  then have "\<forall>out' \<in> set outs. length (filter (P out') ?ys) \<le> 1"
    using Cons.prems by (meson le_trans list.set_intros(2))
  from Cons.IH [OF this] show ?case
    using e by (auto intro: filter_cong)
qed

lemma module_stages_at:
  assumes "ModuleTraits_deserialize ext cur ctx s = (Inr m, s')"
    and "forceDisableA2dpOffload s"
    and "deserializeCollection (MixPortTraits ext) cur [] () s = (st1, mixPorts0, s1)"
    and "patchA2dpMixPorts ext (getXmlAttribute cur ''name'' = ''a2dp'') mixPorts0 s1 =
       (mixPorts, s2)"
    and "deserializeCollection (DevicePortTraits ext) cur [] ()
       (snd (registerPorts mixPorts s2)) = (st2, devicePorts0, s4)"
    and "devicePorts = patchA2dpDevicePorts ext (getXmlAttribute cur ''name'' = ''a2dp'')
       (getXmlAttribute cur ''name'' = ''primary'') devicePorts0 s4"
    and "deserializeCollection RouteTraits cur [] (m\<lparr>mModuleRoutes := []\<rparr>)
       (snd (registerPorts devicePorts s4)) = (st3, routes0, s6)"
  obtains routes1 s7 rest where
    "patchA2dpRoutes (getXmlAttribute cur ''name'' = ''a2dp'')
       (getXmlAttribute cur ''name'' = ''primary'') (m\<lparr>mModuleRoutes := []\<rparr>) routes0 s6 =
       (NO_ERROR, routes1, s7)"
    "mModuleRoutes m = routes1 @ rest"
    "\<forall>r \<in> set rest. getTagName s' (mSink r) = ''BT SCO Headset''"
    "forceDisableA2dpOffload s1 = forceDisableA2dpOffload s"
    "forceDisableA2dpOffload s4 = forceDisableA2dpOffload s2"
    "forceDisableA2dpOffload s6 = forceDisableA2dpOffload s2"
    "declaredPorts s' (mIOProfiles m) = withoutRoutes mixPorts"
    "declaredPorts s' (mDeclaredDevices m) = withoutRoutes devicePorts"
    "mPorts m = mIOProfiles m @ mDeclaredDevices m"
    "\<forall>h \<in> set (mPorts m). h < length (ports s6)"
    "\<forall>h \<in> set (mPorts m). getTagName s' h = getTagName s6 h"
    "st1 = NO_ERROR" "st2 = NO_ERROR" "st3 = NO_ERROR"
proof -
  let ?n = "getXmlAttribute cur ''name''"
  from assms(1) obtain mixPorts0' s1' mixPorts' s2' s3' devicePorts0' s4' devicePorts'
    module2' s5' routes0' s6' routes1 s7 rest
    where w1: "deserializeCollection (MixPortTraits ext) cur [] () s =
        (NO_ERROR, mixPorts0', s1')"
    and p1: "patchA2dpMixPorts ext (?n = ''a2dp'') mixPorts0' s1' = (mixPorts', s2')"
    and w2: "deserializeCollection (DevicePortTraits ext) cur [] () s3' =
        (NO_ERROR, devicePorts0', s4')"
    and p2: "devicePorts' = patchA2dpDevicePorts ext (?n = ''a2dp'') (?n = ''primary'')
        devicePorts0' s4'"
    and w3: "deserializeCollection RouteTraits cur [] module2' s5' = (NO_ERROR, routes0', s6')"
    and p3: "patchA2dpRoutes (?n = ''a2dp'') (?n = ''primary'') module2' routes0' s6' =
        (NO_ERROR, routes1, s7)"
    and mr: "mModuleRoutes m = routes1 @ rest"
    and rt: "\<forall>r \<in> set rest. getTagName s' (mSink r) = ''BT SCO Headset''"
    and fl1: "forceDisableA2dpOffload s1' = forceDisableA2dpOffload s"
    and fl4: "forceDisableA2dpOffload s4' = forceDisableA2dpOffload s2'"
    and fl6: "forceDisableA2dpOffload s6' = forceDisableA2dpOffload s2'"
    and dp1: "declaredPorts s' (mIOProfiles m) = withoutRoutes mixPorts'"
    and dp2: "declaredPorts s' (mDeclaredDevices m) = withoutRoutes devicePorts'"
    and mp: "mPorts m = mIOProfiles m @ mDeclaredDevices m"
    and mp2: "mPorts module2' = mPorts m"
    and range: "\<forall>h \<in> set (mPorts m). h < length (ports s6')"
    and tags: "\<forall>h \<in> set (mPorts m). getTagName s' h = getTagName s6' h"
    and e3: "s3' = snd (registerPorts mixPorts' s2')"
    and e5: "s5' = snd (registerPorts devicePorts' s4')"
    and em: "module2' = m\<lparr>mModuleRoutes := []\<rparr>"
    by (rule module_stages)
  have i1: "st1 = NO_ERROR" "mixPorts0' = mixPorts0" "s1' = s1"
    using w1 assms(3) by simp_all
  have i2: "mixPorts' = mixPorts" "s2' = s2"
    using p1 assms(4) i1 by simp_all
  have i3: "st2 = NO_ERROR" "devicePorts0' = devicePorts0" "s4' = s4"
    using w2 assms(5) e3 i2 by simp_all
  have i4: "devicePorts' = devicePorts"
    using p2 assms(6) i3 by simp
  have i5: "st3 = NO_ERROR" "routes0' = routes0" "s6' = s6"
    using w3 assms(7) e5 em i3 i4 by simp_all
  show ?thesis
    using p3 mr rt fl1 fl4 fl6 dp1 dp2 mp range tags i1(1) i3(1) i5(1)
    unfolding em i1(2,3) i2 i3(2,3) i4 i5(2,3)
    by (rule that)
qed

subsection \<open>The modules \<open>a2dp\<close> and \<open>primary\<close> when A2DP offload is disabled\<close>

text \<open>
  What the patches do to a module.  Let the parse of a module element succeed with the flag
  \<open>forceDisableA2dpOffload\<close> set at its start, and let \<open>mixPorts0\<close>, \<open>devicePorts0\<close> and
  \<open>routes0\<close> be the collections that the three walks over the element return, each run
  in the state and with the module in which \<open>ModuleTraits::deserialize\<close> runs it.

  The synthesized mix port is a source named \<open>a2dp output\<close> with the one fully dynamic
  profile; a synthesized device port has the one profile PCM 16 bit, stereo, at 44100,
  48000 and 96000 Hz, and the address \<open>lhdc_a2dp\<close>.

  Module \<open>a2dp\<close> with no parsed mix port named \<open>a2dp output\<close>: the mix ports of the module
  are the parsed ones followed by the synthesized one; if no parsed device port carries
  one of the three names, the declared devices are the parsed ones followed by the three
  synthesized ones; the routes are the parsed ones, then three mix routes whose sinks
  are ports of the module named \<open>BT A2DP Out\<close>, \<open>BT A2DP Headphones\<close>,
  \<open>BT A2DP Speaker\<close>, in this order, and whose only source is the synthesized mix port,
  then at most routes into \<open>BT SCO Headset\<close>; if no parsed port at all carries one of the
  three names, the three sinks are the three synthesized device ports.

  Module \<open>primary\<close>: the mix ports are the parsed ones; the declared devices are the
  parsed ones without those that carry one of the three names; the routes are the parsed
  ones from which, for each of the three names in turn, the first mix route whose sink
  carries the name is removed, followed at most by routes into \<open>BT SCO Headset\<close>.  So no
  mix route into a port of these names is left if the parsed routes hold at most one
  for each name; and if no parsed mix port carries one of the names, no route into a port
  of these names is parsed or left at all.
\<close>

theorem a2dp_offload_disabled_module:
  assumes "ModuleTraits_deserialize ext cur ctx s = (Inr m, s')"
    and "forceDisableA2dpOffload s"
    and "deserializeCollection (MixPortTraits ext) cur [] () s = (st1, mixPorts0, s1)"
    and "patchA2dpMixPorts ext (getXmlAttribute cur ''name'' = ''a2dp'') mixPorts0 s1 =
       (mixPorts, s2)"
    and "deserializeCollection (DevicePortTraits ext) cur [] ()
       (snd (registerPorts mixPorts s2)) = (st2, devicePorts0, s4)"
    and "devicePorts = patchA2dpDevicePorts ext (getXmlAttribute cur ''name'' = ''a2dp'')
       (getXmlAttribute cur ''name'' = ''primary'') devicePorts0 s4"
    and "deserializeCollection RouteTraits cur [] (m\<lparr>mModuleRoutes := []\<rparr>)
       (snd (registerPorts devicePorts s4)) = (st3, routes0, s6)"
  shows "
    (mTagName (a2dpOutputMixPort ext) = ''a2dp output'' \<and>
     mRole (a2dpOutputMixPort ext) = AUDIO_PORT_ROLE_SOURCE \<and>
     mProfiles (a2dpOutputMixPort ext) = [createFullDynamic (AUDIO_FORMAT_DEFAULT ext)] \<and>
     mTagName (a2dpDevicePort ext type tagName) = tagName \<and>
     mDeviceType (a2dpDevicePort ext type tagName) = Some type \<and>
     mProfiles (a2dpDevicePort ext type tagName) =
       [new_AudioProfile (AUDIO_FORMAT_PCM_16_BIT ext) {AUDIO_CHANNEL_OUT_STEREO ext}
          {44100, 48000, 96000}] \<and>
     mAddress (a2dpDevicePort ext type tagName) = ''lhdc_a2dp'') \<and>
    (getXmlAttribute cur ''name'' = ''a2dp'' \<and>
     (\<forall>p \<in> set mixPorts0. mTagName p \<noteq> ''a2dp output'') \<longrightarrow>
       declaredPorts s' (mIOProfiles m) = withoutRoutes (mixPorts0 @ [a2dpOutputMixPort ext]) \<and>
       ((\<forall>p \<in> set devicePorts0. mTagName p \<notin> set a2dpOuts) \<longrightarrow>
          declaredPorts s' (mDeclaredDevices m) =
            withoutRoutes (devicePorts0 @
              [a2dpDevicePort ext (AUDIO_DEVICE_OUT_BLUETOOTH_A2DP ext) ''BT A2DP Out'',
               a2dpDevicePort ext (AUDIO_DEVICE_OUT_BLUETOOTH_A2DP_HEADPHONES ext)
                 ''BT A2DP Headphones'',
               a2dpDevicePort ext (AUDIO_DEVICE_OUT_BLUETOOTH_A2DP_SPEAKER ext)
                 ''BT A2DP Speaker''])) \<and>
       (\<exists>sinks rest.
          mModuleRoutes m = routes0 @
            map (\<lambda>sink. \<lparr>mType = AUDIO_ROUTE_MIX, mSink = sink,
                   mSources = [mIOProfiles m ! length mixPorts0]\<rparr>) sinks @ rest \<and>
          map (getTagName s') sinks = a2dpOuts \<and> set sinks \<subseteq> set (mPorts m) \<and>
          (\<forall>r \<in> set rest. getTagName s' (mSink r) = ''BT SCO Headset'') \<and>
          ((\<forall>p \<in> set mixPorts0 \<union> set devicePorts0. mTagName p \<notin> set a2dpOuts) \<longrightarrow>
             sinks = drop (length devicePorts0) (mDeclaredDevices m)))) \<and>
    (getXmlAttribute cur ''name'' = ''primary'' \<longrightarrow>
       declaredPorts s' (mIOProfiles m) = withoutRoutes mixPorts0 \<and>
       declaredPorts s' (mDeclaredDevices m) =
         withoutRoutes (filter (\<lambda>p. mTagName p \<notin> set a2dpOuts) devicePorts0) \<and>
       (\<exists>rest.
          mModuleRoutes m =
            fold (\<lambda>out. erase_first
                    (\<lambda>route. mType route = AUDIO_ROUTE_MIX \<and>
                       getTagName s' (mSink route) = out))
              a2dpOuts routes0 @ rest \<and>
          (\<forall>r \<in> set rest. getTagName s' (mSink r) = ''BT SCO Headset'')) \<and>
       ((\<forall>out \<in> set a2dpOuts.
           length (filter (\<lambda>route. mType route = AUDIO_ROUTE_MIX \<and>
                      getTagName s' (mSink route) = out) routes0) \<le> 1) \<longrightarrow>
          (\<forall>r \<in> set (mModuleRoutes m).
             \<not> (mType r = AUDIO_ROUTE_MIX \<and> getTagName s' (mSink r) \<in> set a2dpOuts))) \<and>
       ((\<forall>p \<in> set mixPorts0. mTagName p \<notin> set a2dpOuts) \<longrightarrow>
          (\<forall>r \<in> set routes0 \<union> set (mModuleRoutes m).
             getTagName s' (mSink r) \<notin> set a2dpOuts)))"
proof -
  let ?n = "getXmlAttribute cur ''name''"
  let ?module2 = "m\<lparr>mModuleRoutes := []\<rparr>"
  from assms obtain routes1 s7 rest
    where p3: "patchA2dpRoutes (?n = ''a2dp'') (?n = ''primary'') ?module2 routes0 s6 =
        (NO_ERROR, routes1, s7)"
    and mr: "mModuleRoutes m = routes1 @ rest"
    and rt: "\<forall>r \<in> set rest. getTagName s' (mSink r) = ''BT SCO Headset''"
    and fl1: "forceDisableA2dpOffload s1 = forceDisableA2dpOffload s"
    and fl4: "forceDisableA2dpOffload s4 = forceDisableA2dpOffload s2"
    and fl6: "forceDisableA2dpOffload s6 = forceDisableA2dpOffload s2"
    and dp1: "declaredPorts s' (mIOProfiles m) = withoutRoutes mixPorts"
    and dp2: "declaredPorts s' (mDeclaredDevices m) = withoutRoutes devicePorts"
    and mp: "mPorts m = mIOProfiles m @ mDeclaredDevices m"
    and range: "\<forall>h \<in> set (mPorts m). h < length (ports s6)"
    and tags: "\<forall>h \<in> set (mPorts m). getTagName s' h = getTagName s6 h"
    and ok: "st1 = NO_ERROR" "st2 = NO_ERROR" "st3 = NO_ERROR"
    by (rule module_stages_at)
  note p1 = assms(4)
  note p2 = assms(6)
  have w2: "deserializeCollection (DevicePortTraits ext) cur [] ()
      (snd (registerPorts mixPorts s2)) = (NO_ERROR, devicePorts0, s4)"
    using assms(5) ok by simp
  have w3: "deserializeCollection RouteTraits cur [] ?module2
      (snd (registerPorts devicePorts s4)) = (NO_ERROR, routes0, s6)"
    using assms(7) ok by simp
  have mp2: "mPorts ?module2 = mPorts m"
    by simp
  have flag1: "forceDisableA2dpOffload s1"
    using fl1 assms(2) by simp
  have len1: "length (mIOProfiles m) = length mixPorts"
    using arg_cong [OF dp1, of length] by (simp add: declaredPorts_def withoutRoutes_def)
  have len2: "length (mDeclaredDevices m) = length devicePorts"
    using arg_cong [OF dp2, of length] by (simp add: declaredPorts_def withoutRoutes_def)
  have "map (getTagName s6) (mPorts m) = map (getTagName s') (mPorts m)"
    using tags by simp
  then have tagmap: "map (getTagName s6) (mPorts m) = map mTagName mixPorts @ map mTagName devicePorts"
    using declaredPorts_tags [OF dp1] declaredPorts_tags [OF dp2] by (simp add: mp)
  have sinks0: "\<forall>r \<in> set routes0. mSink r \<in> set (mPorts m)"
    using routes_walk_sinks [OF w3] mp2 by simp
  have alltags: "getTagName s' h \<in> mTagName ` (set mixPorts \<union> set devicePorts)"
    if "h \<in> set (mPorts m)" for h
  proof -
    have "getTagName s' h \<in> set (map (getTagName s') (mPorts m))"
      using that by simp
    also have "map (getTagName s') (mPorts m) = map mTagName mixPorts @ map mTagName devicePorts"
      using declaredPorts_tags [OF dp1] declaredPorts_tags [OF dp2] by (simp add: mp)
    finally show ?thesis
      by auto
  qed
  have A: "declaredPorts s' (mIOProfiles m) = withoutRoutes (mixPorts0 @ [a2dpOutputMixPort ext]) \<and>
       ((\<forall>p \<in> set devicePorts0. mTagName p \<notin> set a2dpOuts) \<longrightarrow>
          declaredPorts s' (mDeclaredDevices m) =
            withoutRoutes (devicePorts0 @
              [a2dpDevicePort ext (AUDIO_DEVICE_OUT_BLUETOOTH_A2DP ext) ''BT A2DP Out'',
               a2dpDevicePort ext (AUDIO_DEVICE_OUT_BLUETOOTH_A2DP_HEADPHONES ext)
                 ''BT A2DP Headphones'',
               a2dpDevicePort ext (AUDIO_DEVICE_OUT_BLUETOOTH_A2DP_SPEAKER ext)
                 ''BT A2DP Speaker''])) \<and>
       (\<exists>sinks rest.
          mModuleRoutes m = routes0 @
            map (\<lambda>sink. \<lparr>mType = AUDIO_ROUTE_MIX, mSink = sink,
                   mSources = [mIOProfiles m ! length mixPorts0]\<rparr>) sinks @ rest \<and>
          map (getTagName s') sinks = a2dpOuts \<and> set sinks \<subseteq> set (mPorts m) \<and>
          (\<forall>r \<in> set rest. getTagName s' (mSink r) = ''BT SCO Headset'') \<and>
          ((\<forall>p \<in> set mixPorts0 \<union> set devicePorts0. mTagName p \<notin> set a2dpOuts) \<longrightarrow>
             sinks = drop (length devicePorts0) (mDeclaredDevices m)))"
    if a: "?n = ''a2dp''" and none: "\<forall>p \<in> set mixPorts0. mTagName p \<noteq> ''a2dp output''"
  proof -
    have np: "\<not> ?n = ''primary''"
      using a by simp
    have mix: "mixPorts = mixPorts0 @ [a2dpOutputMixPort ext]" and s2: "s2 = s1"
      using p1 patchA2dpMixPorts_a2dp [OF flag1 none, of ext] a by simp_all
    have flag4: "forceDisableA2dpOffload s4" and flag6: "forceDisableA2dpOffload s6"
      using fl4 fl6 s2 flag1 by simp_all
    have A1: "declaredPorts s' (mIOProfiles m) =
        withoutRoutes (mixPorts0 @ [a2dpOutputMixPort ext])"
      using dp1 mix by simp
    have dev: "devicePorts = devicePorts0 @
        [a2dpDevicePort ext (AUDIO_DEVICE_OUT_BLUETOOTH_A2DP ext) ''BT A2DP Out'',
         a2dpDevicePort ext (AUDIO_DEVICE_OUT_BLUETOOTH_A2DP_HEADPHONES ext)
           ''BT A2DP Headphones'',
         a2dpDevicePort ext (AUDIO_DEVICE_OUT_BLUETOOTH_A2DP_SPEAKER ext) ''BT A2DP Speaker'']"
      if "\<forall>p \<in> set devicePorts0. mTagName p \<notin> set a2dpOuts"
      using patchA2dpDevicePorts_a2dp [OF flag4 that, of ext "?n = ''primary''"] p2 a by simp
    have fo: "fold (addA2dpRoute ?module2) a2dpOuts (NO_ERROR, routes0, s6) =
        (NO_ERROR, routes1, s7)"
      using p3 patchA2dpRoutes_a2dp [OF flag6, of ?module2 routes0] a by simp
    have range2: "\<forall>h \<in> set (mPorts ?module2). h < length (ports s6)"
      using range mp2 by simp
    let ?find = "findPortByTagName ?module2 s6"
    let ?sinks = "map (\<lambda>out. the (?find out)) a2dpOuts"
    note fa = fold_addA2dpRoute [OF range2 fo]
    have tagname: "map mTagName mixPorts = map mTagName mixPorts0 @ [''a2dp output'']"
      by (simp add: mix a2dpOutputMixPort_def new_IOProfile_def)
    have "map (getTagName s6) (mPorts ?module2) =
        map mTagName mixPorts0 @ ''a2dp output'' # map mTagName devicePorts"
      using tagmap tagname mp2 by simp
    moreover have "''a2dp output'' \<notin> set (map mTagName mixPorts0)"
      using none by auto
    ultimately have "?find ''a2dp output'' = Some (mPorts ?module2 ! length (map mTagName mixPorts0))"
      unfolding findPortByTagName_def by (rule find_by_tag)
    then have src: "the (?find ''a2dp output'') = mIOProfiles m ! length mixPorts0"
      using len1 mix by (simp add: mp2 mp nth_append)
    have r1: "routes1 = routes0 @
        map (\<lambda>sink. \<lparr>mType = AUDIO_ROUTE_MIX, mSink = sink,
               mSources = [mIOProfiles m ! length mixPorts0]\<rparr>) ?sinks"
      using fa src by (simp add: comp_def)
    have found: "?find out = Some (the (?find out))" if "out \<in> set a2dpOuts" for out
      using fa that by auto
    have in_ports: "set ?sinks \<subseteq> set (mPorts m)"
      using findPortByTagName_Some [OF found] mp2 by auto
    have "getTagName s' (the (?find out)) = out" if "out \<in> set a2dpOuts" for out
      using findPortByTagName_Some [OF found [OF that]] tags mp2 by simp
    then have sink_tags: "map (getTagName s') ?sinks = a2dpOuts"
      by (simp add: map_idI)
    have ident: "?sinks = drop (length devicePorts0) (mDeclaredDevices m)"
      if h: "\<forall>p \<in> set mixPorts0 \<union> set devicePorts0. mTagName p \<notin> set a2dpOuts"
    proof -
      let ?pre = "map mTagName mixPorts0 @ ''a2dp output'' # map mTagName devicePorts0"
      have d: "map mTagName devicePorts = map mTagName devicePorts0 @ a2dpOuts"
        using dev h by (simp add: a2dpDevicePort_tag a2dpOuts_def)
      have tm: "map (getTagName s6) (mPorts ?module2) = ?pre @ a2dpOuts"
        using tagmap tagname mp2 d by simp
      have notin: "out \<notin> set ?pre" if "out \<in> set a2dpOuts" for out
        using h that by (auto simp add: a2dpOuts_def)
      have k: "mPorts ?module2 ! (length ?pre + i) = mDeclaredDevices m ! (length devicePorts0 + i)"
        for i
        using len1 mix by (simp add: mp2 mp nth_append)
      have 1: "?find ''BT A2DP Out'' = Some (mPorts ?module2 ! length ?pre)"
        unfolding findPortByTagName_def
        by (rule find_by_tag [where post = "[''BT A2DP Headphones'', ''BT A2DP Speaker'']"])
          (use tm notin in \<open>simp_all add: a2dpOuts_def\<close>)
      have 2: "?find ''BT A2DP Headphones'' = Some (mPorts ?module2 ! length (?pre @ [''BT A2DP Out'']))"
        unfolding findPortByTagName_def
        by (rule find_by_tag [where post = "[''BT A2DP Speaker'']"])
          (use tm notin in \<open>simp_all add: a2dpOuts_def\<close>)
      have 3: "?find ''BT A2DP Speaker'' =
          Some (mPorts ?module2 ! length (?pre @ [''BT A2DP Out'', ''BT A2DP Headphones'']))"
        unfolding findPortByTagName_def
        by (rule find_by_tag [where post = "[]"])
          (use tm notin in \<open>simp_all add: a2dpOuts_def\<close>)
      have "length (mDeclaredDevices m) = length devicePorts0 + 3"
        using len2 arg_cong [OF d, of length] by (simp add: a2dpOuts_def)
      from drop_three [OF this] show ?thesis
        using 1 2 3 k [of 0] k [of 1] k [of 2] by (simp add: a2dpOuts_def)
    qed
    have A2: "(\<forall>p \<in> set devicePorts0. mTagName p \<notin> set a2dpOuts) \<longrightarrow>
        declaredPorts s' (mDeclaredDevices m) =
          withoutRoutes (devicePorts0 @
            [a2dpDevicePort ext (AUDIO_DEVICE_OUT_BLUETOOTH_A2DP ext) ''BT A2DP Out'',
             a2dpDevicePort ext (AUDIO_DEVICE_OUT_BLUETOOTH_A2DP_HEADPHONES ext)
               ''BT A2DP Headphones'',
             a2dpDevicePort ext (AUDIO_DEVICE_OUT_BLUETOOTH_A2DP_SPEAKER ext)
               ''BT A2DP Speaker''])"
      using dev dp2 by simp
    have m1: "mModuleRoutes m = routes0 @
        map (\<lambda>sink. \<lparr>mType = AUDIO_ROUTE_MIX, mSink = sink,
               mSources = [mIOProfiles m ! length mixPorts0]\<rparr>) ?sinks @ rest"
      using mr r1 by simp
    have A3: "\<exists>sinks rest.
        mModuleRoutes m = routes0 @
          map (\<lambda>sink. \<lparr>mType = AUDIO_ROUTE_MIX, mSink = sink,
                 mSources = [mIOProfiles m ! length mixPorts0]\<rparr>) sinks @ rest \<and>
        map (getTagName s') sinks = a2dpOuts \<and> set sinks \<subseteq> set (mPorts m) \<and>
        (\<forall>r \<in> set rest. getTagName s' (mSink r) = ''BT SCO Headset'') \<and>
        ((\<forall>p \<in> set mixPorts0 \<union> set devicePorts0. mTagName p \<notin> set a2dpOuts) \<longrightarrow>
           sinks = drop (length devicePorts0) (mDeclaredDevices m))"
      using m1 sink_tags in_ports rt ident
      by (intro exI [of _ ?sinks] exI [of _ rest] conjI impI)
    show ?thesis
      using A1 A2 A3 by (intro conjI)
  qed
  have B: "declaredPorts s' (mIOProfiles m) = withoutRoutes mixPorts0 \<and>
       declaredPorts s' (mDeclaredDevices m) =
         withoutRoutes (filter (\<lambda>p. mTagName p \<notin> set a2dpOuts) devicePorts0) \<and>
       (\<exists>rest.
          mModuleRoutes m =
            fold (\<lambda>out. erase_first
                    (\<lambda>route. mType route = AUDIO_ROUTE_MIX \<and>
                       getTagName s' (mSink route) = out))
              a2dpOuts routes0 @ rest \<and>
          (\<forall>r \<in> set rest. getTagName s' (mSink r) = ''BT SCO Headset'')) \<and>
       ((\<forall>out \<in> set a2dpOuts.
           length (filter (\<lambda>route. mType route = AUDIO_ROUTE_MIX \<and>
                      getTagName s' (mSink route) = out) routes0) \<le> 1) \<longrightarrow>
          (\<forall>r \<in> set (mModuleRoutes m).
             \<not> (mType r = AUDIO_ROUTE_MIX \<and> getTagName s' (mSink r) \<in> set a2dpOuts))) \<and>
       ((\<forall>p \<in> set mixPorts0. mTagName p \<notin> set a2dpOuts) \<longrightarrow>
          (\<forall>r \<in> set routes0 \<union> set (mModuleRoutes m).
             getTagName s' (mSink r) \<notin> set a2dpOuts))"
    if p: "?n = ''primary''"
  proof -
    let ?P = "\<lambda>out route. mType route = AUDIO_ROUTE_MIX \<and> getTagName s' (mSink route) = out"
    let ?kept = "fold (\<lambda>out. erase_first (?P out)) a2dpOuts routes0"
    have na: "\<not> ?n = ''a2dp''"
      using p by simp
    have mix: "mixPorts = mixPorts0" and s2: "s2 = s1"
      using p1 na by (simp_all add: patchA2dpMixPorts_other)
    have flag4: "forceDisableA2dpOffload s4" and flag6: "forceDisableA2dpOffload s6"
      using fl4 fl6 s2 flag1 by simp_all
    have B0: "declaredPorts s' (mIOProfiles m) = withoutRoutes mixPorts0"
      using dp1 mix by simp
    have "distinct (map mTagName devicePorts0)"
      by (rule ports_walk_distinct [OF _ w2]) (simp add: DevicePortTraits_def)
    from patchA2dpDevicePorts_primary [OF flag4 this, of ext]
    have dev: "devicePorts = filter (\<lambda>p. mTagName p \<notin> set a2dpOuts) devicePorts0"
      using p2 p na by simp
    have B1: "declaredPorts s' (mDeclaredDevices m) =
        withoutRoutes (filter (\<lambda>p. mTagName p \<notin> set a2dpOuts) devicePorts0)"
      using dp2 dev by simp
    have "routes1 = fold (\<lambda>out. erase_first
        (\<lambda>route. mType route = AUDIO_ROUTE_MIX \<and> getTagName s6 (mSink route) = out))
        a2dpOuts routes0"
      using p3 patchA2dpRoutes_primary [OF flag6, of "?n = ''a2dp''" ?module2 routes0] p by simp
    also have "\<dots> = ?kept"
      by (rule fold_erase_first_cong) (use sinks0 tags in auto)
    finally have r1: "routes1 = ?kept" .
    have B2: "mModuleRoutes m = ?kept @ rest"
      using mr r1 by simp
    have B3: "\<forall>r \<in> set (mModuleRoutes m). \<not> (mType r = AUDIO_ROUTE_MIX \<and>
          getTagName s' (mSink r) \<in> set a2dpOuts)"
      if "\<forall>out \<in> set a2dpOuts. length (filter (?P out) routes0) \<le> 1"
    proof -
      have "?kept = filter (\<lambda>x. \<forall>out \<in> set a2dpOuts. \<not> ?P out x) routes0"
        using that by (rule fold_erase_first_single)
      then have "\<forall>r \<in> set ?kept. \<not> (mType r = AUDIO_ROUTE_MIX \<and>
          getTagName s' (mSink r) \<in> set a2dpOuts)"
        by auto
      moreover have "\<forall>r \<in> set rest. getTagName s' (mSink r) \<notin> set a2dpOuts"
        using rt by (simp add: a2dpOuts_def)
      ultimately show ?thesis
        unfolding B2 by auto
    qed
    have B4: "\<forall>r \<in> set routes0 \<union> set (mModuleRoutes m). getTagName s' (mSink r) \<notin> set a2dpOuts"
      if h: "\<forall>p \<in> set mixPorts0. mTagName p \<notin> set a2dpOuts"
    proof -
      have "getTagName s' h \<notin> set a2dpOuts" if "h \<in> set (mPorts m)" for h
        using alltags [OF that] h mix dev by auto
      then have 0: "\<forall>r \<in> set routes0. getTagName s' (mSink r) \<notin> set a2dpOuts"
        using sinks0 by simp
      moreover have "set ?kept \<subseteq> set routes0"
        by (rule fold_erase_first_subset)
      moreover have "\<forall>r \<in> set rest. getTagName s' (mSink r) \<notin> set a2dpOuts"
        using rt by (simp add: a2dpOuts_def)
      ultimately show ?thesis
        unfolding B2 by auto
    qed
    show ?thesis
      using B0 B1 B2 rt B3 B4 by (intro conjI impI exI [of _ rest]) simp_all
  qed
  have F: "mTagName (a2dpOutputMixPort ext) = ''a2dp output'' \<and>
     mRole (a2dpOutputMixPort ext) = AUDIO_PORT_ROLE_SOURCE \<and>
     mProfiles (a2dpOutputMixPort ext) = [createFullDynamic (AUDIO_FORMAT_DEFAULT ext)] \<and>
     mTagName (a2dpDevicePort ext type tagName) = tagName \<and>
     mDeviceType (a2dpDevicePort ext type tagName) = Some type \<and>
     mProfiles (a2dpDevicePort ext type tagName) =
       [new_AudioProfile (AUDIO_FORMAT_PCM_16_BIT ext) {AUDIO_CHANNEL_OUT_STEREO ext}
          {44100, 48000, 96000}] \<and>
     mAddress (a2dpDevicePort ext type tagName) = ''lhdc_a2dp''"
    by (simp add: a2dpOutputMixPort_def a2dpDevicePort_def new_IOProfile_def
        new_DeviceDescriptor_def Vector_add_def)
  show ?thesis
    apply (rule conjI, rule F, rule conjI)
     apply (rule impI, erule conjE, rule A, assumption, assumption)
    apply (rule impI, rule B, assumption)
    done
qed

text \<open>
  A module \<open>a2dp\<close> with an input side only gets the mix port, the three device ports and
  the three routes; a module \<open>primary\<close> that declares the device port \<open>BT A2DP Out\<close> and a
  route into it keeps neither.
\<close>

theorem a2dp_offload_disabled_module_witness:
  "(let r = ModuleTraits_deserialize example_externs a2dp_module () a2dp_disabled_globals;
        m = projr (fst r); s' = snd r;
        mixPorts0 = fst (snd (deserializeCollection (MixPortTraits example_externs)
          a2dp_module [] () a2dp_disabled_globals))
    in \<not> isl (fst r) \<and> map mTagName mixPorts0 = [''a2dp input''] \<and>
       declaredPorts s' (mIOProfiles m) =
         withoutRoutes (mixPorts0 @ [a2dpOutputMixPort example_externs]) \<and>
       map mTagName (declaredPorts s' (mDeclaredDevices m)) =
         [''BT A2DP In'', ''BT A2DP Out'', ''BT A2DP Headphones'', ''BT A2DP Speaker''] \<and>
       map (\<lambda>route. (getTagName s' (mSink route), map (getTagName s') (mSources route)))
         (mModuleRoutes m) =
         [(''a2dp input'', [''BT A2DP In'']), (''BT A2DP Out'', [''a2dp output'']),
          (''BT A2DP Headphones'', [''a2dp output'']),
          (''BT A2DP Speaker'', [''a2dp output''])]) \<and>
   (let r = ModuleTraits_deserialize example_externs primary_a2dp_module ()
          a2dp_disabled_globals;
        m = projr (fst r); s' = snd r;
        mixPorts0 = fst (snd (deserializeCollection (MixPortTraits example_externs)
          primary_a2dp_module [] () a2dp_disabled_globals))
    in \<not> isl (fst r) \<and>
       declaredPorts s' (mIOProfiles m) = withoutRoutes mixPorts0 \<and>
       map mTagName (declaredPorts s' (mDeclaredDevices m)) = [''Speaker''] \<and>
       filter (\<lambda>route. getTagName s' (mSink route) \<in> set a2dpOuts) (mModuleRoutes m) = [] \<and>
       map (\<lambda>route. (getTagName s' (mSink route), map (getTagName s') (mSources route)))
         (mModuleRoutes m) = [(''Speaker'', [''primary output''])])"
proof -
  let ?ex = example_externs
  let ?s = a2dp_disabled_globals
  have flag: "forceDisableA2dpOffload ?s"
    by (simp add: a2dp_disabled_globals_def)
  have tag: "map mTagName (withoutRoutes ps) = map mTagName ps" for ps
    by (simp add: withoutRoutes_def comp_def)

  let ?r1 = "ModuleTraits_deserialize ?ex a2dp_module () ?s"
  let ?n1 = "getXmlAttribute a2dp_module ''name''"
  let ?w11 = "deserializeCollection (MixPortTraits ?ex) a2dp_module [] () ?s"
  let ?p11 = "patchA2dpMixPorts ?ex (?n1 = ''a2dp'') (fst (snd ?w11)) (snd (snd ?w11))"
  let ?w12 = "deserializeCollection (DevicePortTraits ?ex) a2dp_module [] ()
      (snd (registerPorts (fst ?p11) (snd ?p11)))"
  let ?d1 = "patchA2dpDevicePorts ?ex (?n1 = ''a2dp'') (?n1 = ''primary'')
      (fst (snd ?w12)) (snd (snd ?w12))"
  let ?w13 = "deserializeCollection RouteTraits a2dp_module []
      ((projr (fst ?r1))\<lparr>mModuleRoutes := []\<rparr>) (snd (registerPorts ?d1 (snd (snd ?w12))))"
  have ok1: "\<not> isl (fst ?r1)"
    by code_simp
  have n1: "?n1 = ''a2dp''"
    by code_simp
  have t1: "map mTagName (fst (snd ?w11)) = [''a2dp input'']"
    by code_simp
  have none: "\<forall>p \<in> set (fst (snd ?w11)). mTagName p \<noteq> ''a2dp output''"
    by code_simp
  have td1: "map mTagName (fst (snd ?w12)) = [''BT A2DP In'']"
    by code_simp
  have dnone: "\<forall>p \<in> set (fst (snd ?w12)). mTagName p \<notin> set a2dpOuts"
    by code_simp
  have d1: "?r1 = (Inr (projr (fst ?r1)), snd ?r1)"
    using ok1 by (simp add: prod_eq_iff)
  have e11: "?w11 = (fst ?w11, fst (snd ?w11), snd (snd ?w11))"
    and e12: "?p11 = (fst ?p11, snd ?p11)"
    and e13: "?w12 = (fst ?w12, fst (snd ?w12), snd (snd ?w12))"
    and e14: "?w13 = (fst ?w13, fst (snd ?w13), snd (snd ?w13))"
    by simp_all
  note Ta = a2dp_offload_disabled_module [OF d1 flag e11 e12 e13 refl e14,
      THEN conjunct2, THEN conjunct1, THEN mp, OF conjI [OF n1 none]]
  note a1 = Ta [THEN conjunct1]
  note a2 = Ta [THEN conjunct2, THEN conjunct1, THEN mp, OF dnone]
  have a2': "map mTagName (declaredPorts (snd ?r1) (mDeclaredDevices (projr (fst ?r1)))) =
      [''BT A2DP In'', ''BT A2DP Out'', ''BT A2DP Headphones'', ''BT A2DP Speaker'']"
    unfolding a2 tag by (simp add: td1 a2dpDevicePort_tag)
  have a3: "map (\<lambda>route. (getTagName (snd ?r1) (mSink route),
        map (getTagName (snd ?r1)) (mSources route))) (mModuleRoutes (projr (fst ?r1))) =
      [(''a2dp input'', [''BT A2DP In'']), (''BT A2DP Out'', [''a2dp output'']),
       (''BT A2DP Headphones'', [''a2dp output'']), (''BT A2DP Speaker'', [''a2dp output''])]"
    by code_simp

  let ?r2 = "ModuleTraits_deserialize ?ex primary_a2dp_module () ?s"
  let ?n2 = "getXmlAttribute primary_a2dp_module ''name''"
  let ?w21 = "deserializeCollection (MixPortTraits ?ex) primary_a2dp_module [] () ?s"
  let ?p21 = "patchA2dpMixPorts ?ex (?n2 = ''a2dp'') (fst (snd ?w21)) (snd (snd ?w21))"
  let ?w22 = "deserializeCollection (DevicePortTraits ?ex) primary_a2dp_module [] ()
      (snd (registerPorts (fst ?p21) (snd ?p21)))"
  let ?d2 = "patchA2dpDevicePorts ?ex (?n2 = ''a2dp'') (?n2 = ''primary'')
      (fst (snd ?w22)) (snd (snd ?w22))"
  let ?w23 = "deserializeCollection RouteTraits primary_a2dp_module []
      ((projr (fst ?r2))\<lparr>mModuleRoutes := []\<rparr>) (snd (registerPorts ?d2 (snd (snd ?w22))))"
  have ok2: "\<not> isl (fst ?r2)"
    by code_simp
  have n2: "?n2 = ''primary''"
    by code_simp
  have td2: "map mTagName (fst (snd ?w22)) = [''Speaker'', ''BT A2DP Out'']"
    by code_simp
  have mnone: "\<forall>p \<in> set (fst (snd ?w21)). mTagName p \<notin> set a2dpOuts"
    by code_simp
  have d2: "?r2 = (Inr (projr (fst ?r2)), snd ?r2)"
    using ok2 by (simp add: prod_eq_iff)
  have e21: "?w21 = (fst ?w21, fst (snd ?w21), snd (snd ?w21))"
    and e22: "?p21 = (fst ?p21, snd ?p21)"
    and e23: "?w22 = (fst ?w22, fst (snd ?w22), snd (snd ?w22))"
    and e24: "?w23 = (fst ?w23, fst (snd ?w23), snd (snd ?w23))"
    by simp_all
  note Tb = a2dp_offload_disabled_module [OF d2 flag e21 e22 e23 refl e24,
      THEN conjunct2, THEN conjunct2, THEN mp, OF n2]
  note b1 = Tb [THEN conjunct1]
  note b2 = Tb [THEN conjunct2, THEN conjunct1]
  note b4 = Tb [THEN conjunct2, THEN conjunct2, THEN conjunct2, THEN conjunct2,
      THEN mp, OF mnone]
  have "map mTagName (filter (\<lambda>p. mTagName p \<notin> set a2dpOuts) (fst (snd ?w22))) =
      filter (\<lambda>n. n \<notin> set a2dpOuts) (map mTagName (fst (snd ?w22)))"
    by (simp add: filter_map comp_def)
  then have b2': "map mTagName (declaredPorts (snd ?r2) (mDeclaredDevices (projr (fst ?r2)))) =
      [''Speaker'']"
    unfolding b2 tag td2 by (simp add: a2dpOuts_def)
  have b4': "filter (\<lambda>route. getTagName (snd ?r2) (mSink route) \<in> set a2dpOuts)
      (mModuleRoutes (projr (fst ?r2))) = []"
    using b4 by (simp add: filter_empty_conv)
  have b3: "map (\<lambda>route. (getTagName (snd ?r2) (mSink route),
        map (getTagName (snd ?r2)) (mSources route))) (mModuleRoutes (projr (fst ?r2))) =
      [(''Speaker'', [''primary output''])]"
    by code_simp
  show ?thesis
    unfolding Let_def using ok1 t1 a1 a2' a3 ok2 b1 b2' b4' b3 by (intro conjI)
qed

text \<open>
  C5, at a module \<open>primary\<close> in which a mix port is named \<open>BT A2DP Out\<close> and two mix
  routes lead into it, parsed with the flag set. The loop of lines 869 to 884 looks for a
  mix route whose sink carries the name and erases the one it finds, once for each
  name: of the two routes into \<open>BT A2DP Out\<close> one is left in the module.
\<close>

theorem a2dp_route_left_in_primary:
  "(let r = ModuleTraits_deserialize example_externs primary_mix_a2dp_module ()
          a2dp_disabled_globals;
        m = projr (fst r); s' = snd r
    in \<not> isl (fst r) \<and>
       map (\<lambda>route. (mType route, getTagName s' (mSink route))) (mModuleRoutes m) =
         [(AUDIO_ROUTE_MIX, ''BT A2DP Out'')])"
  by code_simp

end
